theory Spec2Isabelle
  imports Complex_Main
begin

section \<open>Device memory, pointers and kernel launches\<close>

text \<open>
  The engine works on raw device buffers that the caller owns. Each tensor that takes part
  in a forward or backward call is one named buffer; a buffer is the flat list of its
  elements and a pointer is a buffer name with an element offset, so that
  \<^verbatim>\<open>h + i * NH\<close> is \<open>ptr_add h (i * NH)\<close>. The element type \<^verbatim>\<open>T\<close> of the templates is a
  type parameter. The forward pass, the matrix products and the theorems about the values
  of a scan take it to be a commutative ring with unit, where arithmetic is exact. The
  backward gate kernels need only \<open>1\<close>, \<open>+\<close>, \<open>-\<close> and \<open>*\<close> of it, so that they also run on
  the single-precision numbers of the section on \<^verbatim>\<open>float\<close> below, where every operation
  rounds. Dimensions and indices are natural numbers (the \<^verbatim>\<open>int\<close> index arithmetic of the
  kernels is assumed not to overflow).

  A read outside a buffer is undefined behaviour in the source; here it is the unspecified
  value of \<open>xs ! i\<close>, and a write outside a buffer is dropped. The theorems that depend on
  the contents of a buffer carry its size as a hypothesis.
\<close>

datatype buf =
  WX | U | Hs | V | TMP_UH | TMP_UH_NORM | GRAD_OUT | DH | DWX | TMP_DWX | DU

type_synonym 'a store = "buf \<Rightarrow> 'a list"

type_synonym ptr = "buf \<times> nat"

definition ptr_add :: "ptr \<Rightarrow> nat \<Rightarrow> ptr" where
  "ptr_add p n = (fst p, snd p + n)"

definition rd :: "'a store \<Rightarrow> ptr \<Rightarrow> nat \<Rightarrow> 'a" where
  "rd s p i = s (fst p) ! (snd p + i)"

definition wr :: "'a store \<Rightarrow> ptr \<Rightarrow> nat \<Rightarrow> 'a \<Rightarrow> 'a store" where
  "wr s p i x = s(fst p := (s (fst p))[snd p + i := x])"

text \<open>
  A kernel launch \<^verbatim>\<open>kernel<<<gridDim, blockDim, 0, stream>>>(...)\<close> runs one thread for
  every \<open>row < blockDim.x * gridDim.x\<close> and \<open>col < blockDim.y * gridDim.y\<close>, where
  \<open>row = blockDim.x * blockIdx.x + threadIdx.x\<close> and \<open>col = blockDim.y * blockIdx.y + threadIdx.y\<close>
  are what every kernel of the repository computes first. The threads of one launch touch
  pairwise different cells, so the launch is modelled by one schedule of them: column by
  column, row by row. A time scan issues its kernels and matrix products on one stream in
  program order, and the matrix product for the weight gradient waits for the last kernel
  of the scan; the operations are therefore composed in program order, and the streams and
  events are not modelled.
\<close>

definition launch :: "nat \<times> nat \<Rightarrow> nat \<times> nat \<Rightarrow> (nat \<Rightarrow> nat \<Rightarrow> 's \<Rightarrow> 's) \<Rightarrow> 's \<Rightarrow> 's" where
  "launch gridDim blockDim kern s =
     fold (\<lambda>col. fold (\<lambda>row. kern row col) [0..<fst blockDim * fst gridDim])
       [0..<snd blockDim * snd gridDim] s"

section \<open>Collaborators that are not among the sources\<close>

text \<open>
  \<^verbatim>\<open>inline_ops.h\<close> is not among the sources: the scalar functions the kernels call are the
  fields of a record that every kernel takes as a parameter.
\<close>

record 'a inline_ops =
  sigmoid :: "'a \<Rightarrow> 'a"
  relu :: "'a \<Rightarrow> 'a"
  leaky_relu :: "'a \<Rightarrow> 'a"
  tanh_op :: "'a \<Rightarrow> 'a"
  sin_op :: "'a \<Rightarrow> 'a"
  d_relu :: "'a \<Rightarrow> 'a"
  d_leaky_relu :: "'a \<Rightarrow> 'a"
  d_tanh :: "'a \<Rightarrow> 'a"
  d_sin :: "'a \<Rightarrow> 'a"

text \<open>
  Modelled from the spec: the scalar functions of \<^verbatim>\<open>inline_ops.h\<close> over the reals, as the
  specification names them (logistic sigmoid, relu, leaky relu with slope \<open>alpha\<close>, \<open>tanh\<close>,
  \<open>sin\<close>, each with its exact derivative).
\<close>

definition real_ops :: "real \<Rightarrow> real inline_ops" where
  "real_ops alpha =
     \<lparr> sigmoid = (\<lambda>x. 1 / (1 + exp (- x))),
       relu = (\<lambda>x. if 0 < x then x else 0),
       leaky_relu = (\<lambda>x. if 0 < x then x else alpha * x),
       tanh_op = tanh,
       sin_op = sin,
       d_relu = (\<lambda>x. if 0 < x then 1 else 0),
       d_leaky_relu = (\<lambda>x. if 0 < x then 1 else alpha),
       d_tanh = (\<lambda>x. 1 - tanh x * tanh x),
       d_sin = cos \<rparr>"

text \<open>
  Modelled from the spec: \<^verbatim>\<open>blas<T>::gemm\<close> (\<^verbatim>\<open>blas.h\<close> is not among the sources), the dense
  matrix multiply with accumulation of the linear-algebra backend, with the argument list
  of the calls in the sources. Matrices are column-major with leading dimensions:
  \<open>C(i, j) = alpha * (\<Sum>l<k. op(A)(i, l) * op(B)(l, j)) + beta * C(i, j)\<close> for \<open>i < m\<close>, \<open>j < n\<close>,
  where \<open>C(i, j)\<close> is the cell \<open>j * ldc + i\<close> behind the pointer \<open>C\<close>. Every call in the sources
  has \<open>ldc = m\<close> and a \<open>C\<close> that lies in another buffer than \<open>A\<close> and \<open>B\<close>.
\<close>

datatype cublasOperation_t = CUBLAS_OP_N | CUBLAS_OP_T

definition gemm_dot ::
  "cublasOperation_t \<Rightarrow> cublasOperation_t \<Rightarrow> nat \<Rightarrow> ptr \<Rightarrow> nat \<Rightarrow> ptr \<Rightarrow> nat \<Rightarrow>
   'a::comm_ring_1 store \<Rightarrow> nat \<Rightarrow> nat \<Rightarrow> 'a" where
  "gemm_dot transa transb k A lda B ldb s i j =
     (\<Sum>l\<leftarrow>[0..<k].
        (case transa of CUBLAS_OP_N \<Rightarrow> rd s A (l * lda + i) | CUBLAS_OP_T \<Rightarrow> rd s A (i * lda + l)) *
        (case transb of CUBLAS_OP_N \<Rightarrow> rd s B (j * ldb + l) | CUBLAS_OP_T \<Rightarrow> rd s B (l * ldb + j)))"

definition gemm ::
  "cublasOperation_t \<Rightarrow> cublasOperation_t \<Rightarrow> nat \<Rightarrow> nat \<Rightarrow> nat \<Rightarrow> 'a::comm_ring_1 \<Rightarrow>
   ptr \<Rightarrow> nat \<Rightarrow> ptr \<Rightarrow> nat \<Rightarrow> 'a \<Rightarrow> ptr \<Rightarrow> nat \<Rightarrow> 'a store \<Rightarrow> 'a store" where
  "gemm transa transb m n k alpha A lda B ldb beta C ldc s =
     s(fst C :=
         map (\<lambda>idx.
                if snd C \<le> idx \<and> (idx - snd C) mod ldc < m \<and> (idx - snd C) div ldc < n
                then alpha * gemm_dot transa transb k A lda B ldb s
                               ((idx - snd C) mod ldc) ((idx - snd C) div ldc)
                     + beta * (s (fst C) ! idx)
                else s (fst C) ! idx)
           [0..<length (s (fst C))])"

text \<open>
  Modelled from the spec: the layer-norm co-pass (\<^verbatim>\<open>layer_norm.h\<close> is not among the
  sources). The co-pass object is a parameter: a function that, from the batch size, the
  source pointer \<open>x\<close>, the destination pointer \<open>y\<close> and the store, gives the new contents of
  the buffer \<open>y\<close> points into. \<^verbatim>\<open>RunPartial(stream, batch_size, x, y)\<close> stores that and leaves
  every other buffer as it is (the forward co-pass does not mutate the raw projection).
\<close>

type_synonym 'a layer_norm = "nat \<Rightarrow> ptr \<Rightarrow> ptr \<Rightarrow> 'a store \<Rightarrow> 'a list"

definition RunPartial :: "'a layer_norm \<Rightarrow> nat \<Rightarrow> ptr \<Rightarrow> ptr \<Rightarrow> 'a store \<Rightarrow> 'a store" where
  "RunPartial layer_norm1 batch x y s = s(fst y := layer_norm1 batch x y s)"

text \<open>
  The co-pass that copies the raw projection behind \<open>x\<close> to the cells behind \<open>y\<close>:
  normalization not enabled.
\<close>

definition layer_norm_off :: "'a layer_norm" where
  "layer_norm_off batch x y s =
     map (\<lambda>k. if snd y \<le> k then rd s x (k - snd y) else s (fst y) ! k) [0..<length (s (fst y))]"

section \<open>The forward pass (\<^verbatim>\<open>lib/ligru_2_0_forward_gpu.cu.cc\<close>)\<close>

text \<open>
  The four forward kernels \<^verbatim>\<open>PointwiseOperationsReLU\<close>, \<^verbatim>\<open>PointwiseOperationsLeakyReLU\<close>,
  \<^verbatim>\<open>PointwiseOperationsTanh\<close> and \<^verbatim>\<open>PointwiseOperationsSin\<close> have the same body up to the
  function that computes \<^verbatim>\<open>hcand\<close>; the body of one thread is written once, with the
  sigmoid and that function as its first two arguments and the template argument
  \<^verbatim>\<open>Training\<close> as the third.
\<close>

definition fwd_PointwiseOperations ::
  "('a::comm_ring_1 \<Rightarrow> 'a) \<Rightarrow> ('a \<Rightarrow> 'a) \<Rightarrow> bool \<Rightarrow> nat \<Rightarrow> nat \<Rightarrow>
   ptr \<Rightarrow> ptr \<Rightarrow> ptr \<Rightarrow> ptr \<Rightarrow> ptr \<Rightarrow> nat \<Rightarrow> nat \<Rightarrow> 'a store \<Rightarrow> 'a store" where
  "fwd_PointwiseOperations sigm act Training batch_dim hidden_dim wx uh h h_out v row col s =
     (if row \<ge> hidden_dim \<or> col \<ge> batch_dim then s
      else
        let weight_idx = col * (hidden_dim * 2) + row;
            output_idx = col * hidden_dim + row;
            a_idx = weight_idx + 0 * hidden_dim;
            z_idx = weight_idx + 1 * hidden_dim;
            z = sigm (rd s wx z_idx + rd s uh z_idx);
            a = rd s wx a_idx + rd s uh a_idx;
            hcand = act a;
            s1 = (if Training then
                    let base_v_idx = col * (hidden_dim * 3) + row;
                        sz = wr s v (base_v_idx + 1 * hidden_dim) z;
                        sa = wr sz v (base_v_idx + 0 * hidden_dim) a
                    in wr sa v (base_v_idx + 2 * hidden_dim) hcand
                  else s);
            cur_h_value = z * rd s1 h output_idx + (1 - z) * hcand
        in wr s1 h_out output_idx cur_h_value)"

definition fwd_PointwiseOperationsReLU ::
  "'a::comm_ring_1 inline_ops \<Rightarrow> bool \<Rightarrow> nat \<Rightarrow> nat \<Rightarrow>
   ptr \<Rightarrow> ptr \<Rightarrow> ptr \<Rightarrow> ptr \<Rightarrow> ptr \<Rightarrow> nat \<Rightarrow> nat \<Rightarrow> 'a store \<Rightarrow> 'a store" where
  "fwd_PointwiseOperationsReLU ops = fwd_PointwiseOperations (sigmoid ops) (relu ops)"

definition fwd_PointwiseOperationsLeakyReLU ::
  "'a::comm_ring_1 inline_ops \<Rightarrow> bool \<Rightarrow> nat \<Rightarrow> nat \<Rightarrow>
   ptr \<Rightarrow> ptr \<Rightarrow> ptr \<Rightarrow> ptr \<Rightarrow> ptr \<Rightarrow> nat \<Rightarrow> nat \<Rightarrow> 'a store \<Rightarrow> 'a store" where
  "fwd_PointwiseOperationsLeakyReLU ops = fwd_PointwiseOperations (sigmoid ops) (leaky_relu ops)"

definition fwd_PointwiseOperationsTanh ::
  "'a::comm_ring_1 inline_ops \<Rightarrow> bool \<Rightarrow> nat \<Rightarrow> nat \<Rightarrow>
   ptr \<Rightarrow> ptr \<Rightarrow> ptr \<Rightarrow> ptr \<Rightarrow> ptr \<Rightarrow> nat \<Rightarrow> nat \<Rightarrow> 'a store \<Rightarrow> 'a store" where
  "fwd_PointwiseOperationsTanh ops = fwd_PointwiseOperations (sigmoid ops) (tanh_op ops)"

definition fwd_PointwiseOperationsSin ::
  "'a::comm_ring_1 inline_ops \<Rightarrow> bool \<Rightarrow> nat \<Rightarrow> nat \<Rightarrow>
   ptr \<Rightarrow> ptr \<Rightarrow> ptr \<Rightarrow> ptr \<Rightarrow> ptr \<Rightarrow> nat \<Rightarrow> nat \<Rightarrow> 'a store \<Rightarrow> 'a store" where
  "fwd_PointwiseOperationsSin ops = fwd_PointwiseOperations (sigmoid ops) (sin_op ops)"

text \<open>
  \<^verbatim>\<open>private_data\<close>: the dimensions and the activation selector of an engine object (the
  stream, event and backend handles are not modelled). The forward engine adds \<^verbatim>\<open>training\<close>.
\<close>

record private_data =
  batch_size :: nat
  input_size :: nat
  hidden_size :: nat
  activation :: int

record fwd_private_data = private_data +
  training :: bool

text \<open>
  \<^verbatim>\<open>ForwardPass<T>::IterateInternal\<close>: the recurrent projection, the layer-norm co-pass, and
  the launch of the kernel that \<^verbatim>\<open>training\<close> and \<^verbatim>\<open>activation\<close> select. With
  \<^verbatim>\<open>training == false\<close> the chain of tests has no branch for \<^verbatim>\<open>activation == 2\<close>.
\<close>

definition fwd_IterateInternal ::
  "'a::comm_ring_1 inline_ops \<Rightarrow> fwd_private_data \<Rightarrow> 'a layer_norm \<Rightarrow>
   ptr \<Rightarrow> ptr \<Rightarrow> ptr \<Rightarrow> ptr \<Rightarrow> ptr \<Rightarrow> ptr \<Rightarrow> ptr \<Rightarrow> 'a store \<Rightarrow> 'a store" where
  "fwd_IterateInternal ops data layer_norm1 u h h_out v tmp_wx tmp_uh tmp_uh_norm s =
     (let alpha = 1;
          beta = 0;
          s1 = gemm CUBLAS_OP_N CUBLAS_OP_N (hidden_size data * 2) (batch_size data)
                 (hidden_size data) alpha u (hidden_size data * 2) h (hidden_size data)
                 beta tmp_uh (hidden_size data * 2) s;
          s2 = RunPartial layer_norm1 (batch_size data) tmp_uh tmp_uh_norm s1;
          blockDim = (32, 16);
          gridDim = ((hidden_size data + fst blockDim - 1) div fst blockDim,
                     (batch_size data + snd blockDim - 1) div snd blockDim)
      in
        if training data then
          if activation data = 0 then
            launch gridDim blockDim
              (fwd_PointwiseOperationsReLU ops True (batch_size data) (hidden_size data)
                 tmp_wx tmp_uh_norm h h_out v) s2
          else if activation data = 1 then
            launch gridDim blockDim
              (fwd_PointwiseOperationsLeakyReLU ops True (batch_size data) (hidden_size data)
                 tmp_wx tmp_uh_norm h h_out v) s2
          else if activation data = 2 then
            launch gridDim blockDim
              (fwd_PointwiseOperationsSin ops True (batch_size data) (hidden_size data)
                 tmp_wx tmp_uh_norm h h_out v) s2
          else if activation data = 3 then
            launch gridDim blockDim
              (fwd_PointwiseOperationsTanh ops True (batch_size data) (hidden_size data)
                 tmp_wx tmp_uh_norm h h_out v) s2
          else s2
        else
          if activation data = 0 then
            launch gridDim blockDim
              (fwd_PointwiseOperationsReLU ops False (batch_size data) (hidden_size data)
                 tmp_wx tmp_uh_norm h h_out v) s2
          else if activation data = 1 then
            launch gridDim blockDim
              (fwd_PointwiseOperationsLeakyReLU ops False (batch_size data) (hidden_size data)
                 tmp_wx tmp_uh_norm h h_out v) s2
          else if activation data = 3 then
            launch gridDim blockDim
              (fwd_PointwiseOperationsTanh ops False (batch_size data) (hidden_size data)
                 tmp_wx tmp_uh_norm h h_out v) s2
          else s2)"

text \<open>
  \<^verbatim>\<open>ForwardPass<T>::Run\<close>: the time scan \<^verbatim>\<open>for (int i = 0; i < seq_length; ++i)\<close>. Step \<open>i\<close>
  reads row \<open>i\<close> of \<open>h\<close> and writes row \<open>i + 1\<close>; the scratch pointer \<^verbatim>\<open>tmp_uh\<close> advances by
  \<open>NH * 2\<close> per step, \<^verbatim>\<open>tmp_uh_norm\<close> does not.
\<close>

definition fwd_Run_step ::
  "'a::comm_ring_1 inline_ops \<Rightarrow> fwd_private_data \<Rightarrow> 'a layer_norm \<Rightarrow>
   ptr \<Rightarrow> ptr \<Rightarrow> ptr \<Rightarrow> ptr \<Rightarrow> ptr \<Rightarrow> ptr \<Rightarrow> nat \<Rightarrow> 'a store \<Rightarrow> 'a store" where
  "fwd_Run_step ops data layer_norm1 wx u h v tmp_uh_norm tmp_uh i s =
     (let NH = batch_size data * hidden_size data
      in fwd_IterateInternal ops data layer_norm1 u (ptr_add h (i * NH))
           (ptr_add h ((i + 1) * NH)) (ptr_add v (i * NH * 3)) (ptr_add wx (i * NH * 2))
           (ptr_add tmp_uh (i * NH * 2)) tmp_uh_norm s)"

definition fwd_Run ::
  "'a::comm_ring_1 inline_ops \<Rightarrow> fwd_private_data \<Rightarrow> 'a layer_norm \<Rightarrow> nat \<Rightarrow>
   ptr \<Rightarrow> ptr \<Rightarrow> ptr \<Rightarrow> ptr \<Rightarrow> ptr \<Rightarrow> ptr \<Rightarrow> 'a store \<Rightarrow> 'a store" where
  "fwd_Run ops data layer_norm1 seq_length wx u h v tmp_uh_norm tmp_uh s =
     fold (fwd_Run_step ops data layer_norm1 wx u h v tmp_uh_norm tmp_uh) [0..<seq_length] s"

section \<open>The forward pass of ligru 1.0 and the forward entry (\<^verbatim>\<open>frameworks/pytorch/ligru.cc\<close>)\<close>

text \<open>
  The activation that an activation id selects, in the enumeration 0 = relu, 1 = leaky relu,
  2 = sin, 3 = tanh of the dispatch chains.
\<close>

definition activation_fn :: "'a inline_ops \<Rightarrow> int \<Rightarrow> 'a \<Rightarrow> 'a" where
  "activation_fn ops act_id =
     (if act_id = 0 then relu ops else if act_id = 1 then leaky_relu ops
      else if act_id = 2 then sin_op ops else tanh_op ops)"

text \<open>
  Modelled from the spec: the forward engine of ligru 1.0,
  \<^verbatim>\<open>haste::v0::ligru_1_0::ForwardPass\<close>, whose \<^verbatim>\<open>Run\<close> the binding calls with six arguments
  (\<^verbatim>\<open>ligru_1_0_forward_gpu.cu.cc\<close> is not among the sources). After the specification, step
  \<open>t\<close> of the scan computes the recurrent projection \<open>tmp_uh = U^T . h_t\<close> into the one
  \<open>[B, 2H]\<close> scratch, which every step reuses, and runs the gate kernel over the full batch by
  hidden grid to produce \<open>h_{t+1}\<close> and, if training, the cache entry of step \<open>t\<close>;
  normalization is not enabled (the engine takes no co-pass). The gate kernel is the forward
  kernel of the sources with the activation that the id selects; for an id outside the
  enumeration, a caller contract violation, no kernel runs. The matrix product and the
  launch geometry are those of the engines among the sources.
\<close>

definition fwd_1_0_IterateInternal ::
  "'a::comm_ring_1 inline_ops \<Rightarrow> fwd_private_data \<Rightarrow>
   ptr \<Rightarrow> ptr \<Rightarrow> ptr \<Rightarrow> ptr \<Rightarrow> ptr \<Rightarrow> ptr \<Rightarrow> 'a store \<Rightarrow> 'a store" where
  "fwd_1_0_IterateInternal ops data u h h_out v tmp_wx tmp_uh s =
     (let alpha = 1;
          beta = 0;
          s1 = gemm CUBLAS_OP_N CUBLAS_OP_N (hidden_size data * 2) (batch_size data)
                 (hidden_size data) alpha u (hidden_size data * 2) h (hidden_size data)
                 beta tmp_uh (hidden_size data * 2) s;
          blockDim = (32, 16);
          gridDim = ((hidden_size data + fst blockDim - 1) div fst blockDim,
                     (batch_size data + snd blockDim - 1) div snd blockDim)
      in
        if 0 \<le> activation data \<and> activation data \<le> 3 then
          launch gridDim blockDim
            (fwd_PointwiseOperations (sigmoid ops) (activation_fn ops (activation data))
               (training data) (batch_size data) (hidden_size data) tmp_wx tmp_uh h h_out v) s1
        else s1)"

definition fwd_1_0_Run_step ::
  "'a::comm_ring_1 inline_ops \<Rightarrow> fwd_private_data \<Rightarrow>
   ptr \<Rightarrow> ptr \<Rightarrow> ptr \<Rightarrow> ptr \<Rightarrow> ptr \<Rightarrow> nat \<Rightarrow> 'a store \<Rightarrow> 'a store" where
  "fwd_1_0_Run_step ops data wx u h v tmp_uh i s =
     (let NH = batch_size data * hidden_size data
      in fwd_1_0_IterateInternal ops data u (ptr_add h (i * NH)) (ptr_add h ((i + 1) * NH))
           (ptr_add v (i * NH * 3)) (ptr_add wx (i * NH * 2)) tmp_uh s)"

definition fwd_1_0_Run ::
  "'a::comm_ring_1 inline_ops \<Rightarrow> fwd_private_data \<Rightarrow> nat \<Rightarrow>
   ptr \<Rightarrow> ptr \<Rightarrow> ptr \<Rightarrow> ptr \<Rightarrow> ptr \<Rightarrow> 'a store \<Rightarrow> 'a store" where
  "fwd_1_0_Run ops data seq_length wx u h v tmp_uh s =
     fold (fwd_1_0_Run_step ops data wx u h v tmp_uh) [0..<seq_length] s"

text \<open>
  The forward entry \<^verbatim>\<open>ligru_1_0_forward\<close> of \<^verbatim>\<open>frameworks/pytorch/ligru.cc\<close>: \<^verbatim>\<open>output\<close> is
  allocated with \<^verbatim>\<open>torch::empty({seq_length + 1, batch_size, hidden_size})\<close> and \<^verbatim>\<open>cache\<close> with
  \<^verbatim>\<open>torch::empty({seq_length, batch_size, hidden_size * 3})\<close>, both uninitialised, and
  \<^verbatim>\<open>tmp_uh\<close> with \<^verbatim>\<open>torch::zeros({batch_size, hidden_size * 2})\<close>; \<^verbatim>\<open>output[0] = h_init\<close> copies
  \<^verbatim>\<open>h_init\<close> into row 0; the engine is constructed with \<^verbatim>\<open>input_size\<close> 0 and its \<^verbatim>\<open>Run\<close> is
  called with \<^verbatim>\<open>wx\<close>, \<^verbatim>\<open>u_t\<close>, \<^verbatim>\<open>output\<close>, \<^verbatim>\<open>cache\<close> and \<^verbatim>\<open>tmp_uh\<close>; \<^verbatim>\<open>{output, cache}\<close> is
  returned. The tensors are flat lists and \<open>seq_length = wx.size(0)\<close>,
  \<open>batch = wx.size(1)\<close>, \<open>hidden = h_init.size(1)\<close> are arguments. What the uninitialised
  allocations hold is given by \<open>output_mem\<close> and \<open>cache_mem\<close>, cell by cell. The copy into
  row 0 is written for an \<open>h_init\<close> of the shape \<open>[batch, hidden]\<close> of a row.
\<close>

definition ligru_1_0_forward ::
  "'a::comm_ring_1 inline_ops \<Rightarrow> bool \<Rightarrow> nat \<Rightarrow> nat \<Rightarrow> nat \<Rightarrow>
   'a list \<Rightarrow> 'a list \<Rightarrow> 'a list \<Rightarrow> int \<Rightarrow> (nat \<Rightarrow> 'a) \<Rightarrow> (nat \<Rightarrow> 'a) \<Rightarrow> 'a list \<times> 'a list" where
  "ligru_1_0_forward ops train seq_length batch hidden wx h_init u_t act_id output_mem cache_mem =
     (let output = map output_mem [0..<(seq_length + 1) * batch * hidden];
          cache = map cache_mem [0..<seq_length * batch * (hidden * 3)];
          tmp_uh = replicate (batch * (hidden * 2)) 0;
          output = map (\<lambda>k. if k < batch * hidden then h_init ! k else output ! k)
                     [0..<length output];
          s = (\<lambda>b. [])(WX := wx, U := u_t, Hs := output, V := cache, TMP_UH := tmp_uh);
          forward = \<lparr> batch_size = batch, input_size = 0, hidden_size = hidden,
                      activation = act_id, training = train \<rparr>;
          s' = fwd_1_0_Run ops forward seq_length (WX, 0) (U, 0) (Hs, 0) (V, 0) (TMP_UH, 0) s
      in (s' Hs, s' V))"

section \<open>The backward pass of ligru 1.0 (\<^verbatim>\<open>lib/ligru_1_0_backward_gpu.cu.cc\<close>)\<close>

text \<open>
  The four backward kernels differ in the derivative that computes \<^verbatim>\<open>dat\<close>; the body of one
  thread is written once, with that derivative as its first argument.
\<close>

definition bwd_1_0_PointwiseOperations ::
  "('a::{one,plus,minus,times} \<Rightarrow> 'a) \<Rightarrow> nat \<Rightarrow> nat \<Rightarrow>
   ptr \<Rightarrow> ptr \<Rightarrow> ptr \<Rightarrow> ptr \<Rightarrow> ptr \<Rightarrow> nat \<Rightarrow> nat \<Rightarrow> 'a store \<Rightarrow> 'a store" where
  "bwd_1_0_PointwiseOperations d_act batch_dim hidden_dim h v dh_prev grad_out dwx row col s =
     (if row \<ge> hidden_dim \<or> col \<ge> batch_dim then s
      else
        let base_idx = col * hidden_dim + row;
            dh = rd s grad_out base_idx + rd s dh_prev base_idx;
            stride3_base_idx = col * (hidden_dim * 3) + row;
            z_idx = stride3_base_idx + 1 * hidden_dim;
            a_idx = stride3_base_idx + 0 * hidden_dim;
            hcand_idx = stride3_base_idx + 2 * hidden_dim;
            z = rd s v z_idx;
            a = rd s v a_idx;
            hcand = rd s v hcand_idx;
            tmp = (1 - z) * dh;
            dat = d_act a * tmp;
            dzt = (rd s h base_idx - hcand) * z * tmp;
            s1 = wr s dh_prev base_idx (dh * z);
            idx = col * (hidden_dim * 2) + row;
            s2 = wr s1 dwx (idx + 1 * hidden_dim) dzt
        in wr s2 dwx (idx + 0 * hidden_dim) dat)"

definition bwd_1_0_PointwiseOperationsReLU ::
  "'a::{one,plus,minus,times} inline_ops \<Rightarrow> nat \<Rightarrow> nat \<Rightarrow>
   ptr \<Rightarrow> ptr \<Rightarrow> ptr \<Rightarrow> ptr \<Rightarrow> ptr \<Rightarrow> nat \<Rightarrow> nat \<Rightarrow> 'a store \<Rightarrow> 'a store" where
  "bwd_1_0_PointwiseOperationsReLU ops = bwd_1_0_PointwiseOperations (d_relu ops)"

definition bwd_1_0_PointwiseOperationsLeakyReLU ::
  "'a::{one,plus,minus,times} inline_ops \<Rightarrow> nat \<Rightarrow> nat \<Rightarrow>
   ptr \<Rightarrow> ptr \<Rightarrow> ptr \<Rightarrow> ptr \<Rightarrow> ptr \<Rightarrow> nat \<Rightarrow> nat \<Rightarrow> 'a store \<Rightarrow> 'a store" where
  "bwd_1_0_PointwiseOperationsLeakyReLU ops = bwd_1_0_PointwiseOperations (d_leaky_relu ops)"

definition bwd_1_0_PointwiseOperationsTanh ::
  "'a::{one,plus,minus,times} inline_ops \<Rightarrow> nat \<Rightarrow> nat \<Rightarrow>
   ptr \<Rightarrow> ptr \<Rightarrow> ptr \<Rightarrow> ptr \<Rightarrow> ptr \<Rightarrow> nat \<Rightarrow> nat \<Rightarrow> 'a store \<Rightarrow> 'a store" where
  "bwd_1_0_PointwiseOperationsTanh ops = bwd_1_0_PointwiseOperations (d_tanh ops)"

definition bwd_1_0_PointwiseOperationsSin ::
  "'a::{one,plus,minus,times} inline_ops \<Rightarrow> nat \<Rightarrow> nat \<Rightarrow>
   ptr \<Rightarrow> ptr \<Rightarrow> ptr \<Rightarrow> ptr \<Rightarrow> ptr \<Rightarrow> nat \<Rightarrow> nat \<Rightarrow> 'a store \<Rightarrow> 'a store" where
  "bwd_1_0_PointwiseOperationsSin ops = bwd_1_0_PointwiseOperations (d_sin ops)"

text \<open>
  \<^verbatim>\<open>BackwardPass<T>::IterateInternal\<close>: the launch of the kernel that \<^verbatim>\<open>activation\<close> selects,
  then the recurrent-weight contribution, a \<^verbatim>\<open>gemm\<close> that accumulates into \<^verbatim>\<open>dh\<close>
  (\<^verbatim>\<open>beta_sum\<close> is 1).
\<close>

definition bwd_1_0_IterateInternal ::
  "'a::comm_ring_1 inline_ops \<Rightarrow> private_data \<Rightarrow>
   ptr \<Rightarrow> ptr \<Rightarrow> ptr \<Rightarrow> ptr \<Rightarrow> ptr \<Rightarrow> ptr \<Rightarrow> 'a store \<Rightarrow> 'a store" where
  "bwd_1_0_IterateInternal ops data u_t h v grad_out dh dwx s =
     (let alpha = 1;
          beta_sum = 1;
          blockDim = (32, 16);
          gridDim = ((hidden_size data + fst blockDim - 1) div fst blockDim,
                     (batch_size data + snd blockDim - 1) div snd blockDim);
          s1 = (if activation data = 0 then
                  launch gridDim blockDim
                    (bwd_1_0_PointwiseOperationsReLU ops (batch_size data) (hidden_size data)
                       h v dh grad_out dwx) s
                else if activation data = 1 then
                  launch gridDim blockDim
                    (bwd_1_0_PointwiseOperationsLeakyReLU ops (batch_size data) (hidden_size data)
                       h v dh grad_out dwx) s
                else if activation data = 2 then
                  launch gridDim blockDim
                    (bwd_1_0_PointwiseOperationsSin ops (batch_size data) (hidden_size data)
                       h v dh grad_out dwx) s
                else if activation data = 3 then
                  launch gridDim blockDim
                    (bwd_1_0_PointwiseOperationsTanh ops (batch_size data) (hidden_size data)
                       h v dh grad_out dwx) s
                else s)
      in gemm CUBLAS_OP_N CUBLAS_OP_N (hidden_size data) (batch_size data) (hidden_size data * 2)
           alpha u_t (hidden_size data) dwx (hidden_size data * 2) beta_sum dh (hidden_size data)
           s1)"

text \<open>
  \<^verbatim>\<open>BackwardPass<T>::Run\<close>: the reverse scan \<^verbatim>\<open>for (int i = time_step - 1; i >= 0; --i)\<close>,
  whose step \<open>i\<close> is given row \<open>i + 1\<close> of \<^verbatim>\<open>grad_out\<close>, then the one \<^verbatim>\<open>gemm\<close> over
  \<open>batch_size * time_step\<close> columns that accumulates into \<^verbatim>\<open>du\<close>. The argument \<^verbatim>\<open>wx_t\<close> is
  not used by the body.
\<close>

definition bwd_1_0_Run_step ::
  "'a::comm_ring_1 inline_ops \<Rightarrow> private_data \<Rightarrow>
   ptr \<Rightarrow> ptr \<Rightarrow> ptr \<Rightarrow> ptr \<Rightarrow> ptr \<Rightarrow> ptr \<Rightarrow> nat \<Rightarrow> 'a store \<Rightarrow> 'a store" where
  "bwd_1_0_Run_step ops data u_t h v grad_out dwx dh i s =
     (let NH = batch_size data * hidden_size data
      in bwd_1_0_IterateInternal ops data u_t (ptr_add h (i * NH)) (ptr_add v (i * NH * 3))
           (ptr_add grad_out ((i + 1) * NH)) dh (ptr_add dwx (i * NH * 2)) s)"

definition bwd_1_0_Run ::
  "'a::comm_ring_1 inline_ops \<Rightarrow> private_data \<Rightarrow> nat \<Rightarrow>
   ptr \<Rightarrow> ptr \<Rightarrow> ptr \<Rightarrow> ptr \<Rightarrow> ptr \<Rightarrow> ptr \<Rightarrow> ptr \<Rightarrow> ptr \<Rightarrow> 'a store \<Rightarrow> 'a store" where
  "bwd_1_0_Run ops data time_step wx_t u_t h v grad_out dwx du dh s =
     (let alpha = 1;
          beta_sum = 1;
          s1 = fold (bwd_1_0_Run_step ops data u_t h v grad_out dwx dh) (rev [0..<time_step]) s
      in gemm CUBLAS_OP_N CUBLAS_OP_T (hidden_size data * 2) (hidden_size data)
           (batch_size data * time_step) alpha dwx (hidden_size data * 2) h (hidden_size data)
           beta_sum du (hidden_size data * 2) s1)"

text \<open>
  The backward entry \<^verbatim>\<open>ligru_1_0_backward\<close> of \<^verbatim>\<open>frameworks/pytorch/ligru.cc\<close>: \<^verbatim>\<open>dwx\<close>,
  \<^verbatim>\<open>du\<close> and \<^verbatim>\<open>dh\<close> are allocated as zeros, the engine is constructed and run, and
  \<^verbatim>\<open>{du, dwx, dh}\<close> is returned. The tensors are flat lists and \<open>time_steps = wx.size(0)\<close>
  (also passed as \<^verbatim>\<open>input_size\<close>), \<open>batch = wx.size(1)\<close>, \<open>hidden = wx.size(2) / 2\<close>
  are arguments.
\<close>

definition ligru_1_0_backward ::
  "'a::comm_ring_1 inline_ops \<Rightarrow> nat \<Rightarrow> nat \<Rightarrow> nat \<Rightarrow>
   'a list \<Rightarrow> 'a list \<Rightarrow> 'a list \<Rightarrow> 'a list \<Rightarrow> 'a list \<Rightarrow> int \<Rightarrow>
   'a list \<times> 'a list \<times> 'a list" where
  "ligru_1_0_backward ops time_steps batch hidden wx u h cache grad_out act_id =
     (let dwx = replicate (time_steps * batch * (hidden * 2)) 0;
          du = replicate (hidden * (hidden * 2)) 0;
          dh = replicate (batch * hidden) 0;
          s = (\<lambda>b. [])(WX := wx, U := u, Hs := h, V := cache, GRAD_OUT := grad_out,
                        DWX := dwx, DU := du, DH := dh);
          backward = \<lparr> batch_size = batch, input_size = time_steps,
                       hidden_size = hidden, activation = act_id \<rparr>;
          s' = bwd_1_0_Run ops backward time_steps (WX, 0) (U, 0) (Hs, 0) (V, 0) (GRAD_OUT, 0)
                 (DWX, 0) (DU, 0) (DH, 0) s
      in (s' DU, s' DWX, s' DH))"

section \<open>The backward pass of ligru 2.0 (\<^verbatim>\<open>lib/ligru_2_0_backward_gpu.cu.cc\<close>)\<close>

definition bwd_2_0_PointwiseOperations ::
  "('a::{one,plus,minus,times} \<Rightarrow> 'a) \<Rightarrow> nat \<Rightarrow> nat \<Rightarrow>
   ptr \<Rightarrow> ptr \<Rightarrow> ptr \<Rightarrow> ptr \<Rightarrow> ptr \<Rightarrow> nat \<Rightarrow> nat \<Rightarrow> 'a store \<Rightarrow> 'a store" where
  "bwd_2_0_PointwiseOperations d_act batch_dim hidden_dim h v dh_prev grad_out dwx row col s =
     (if row \<ge> hidden_dim \<or> col \<ge> batch_dim then s
      else
        let base_idx = col * hidden_dim + row;
            dh = rd s grad_out base_idx + rd s dh_prev base_idx;
            stride3_base_idx = col * (hidden_dim * 3) + row;
            z_idx = stride3_base_idx + 1 * hidden_dim;
            a_idx = stride3_base_idx + 0 * hidden_dim;
            hcand_idx = stride3_base_idx + 2 * hidden_dim;
            z = rd s v z_idx;
            a = rd s v a_idx;
            hcand = rd s v hcand_idx;
            dat = d_act a * (1 - z) * dh;
            dzt = (rd s h base_idx - hcand) * dh * (z * (1 - z));
            s1 = wr s dh_prev base_idx (dh * z);
            idx = col * (hidden_dim * 2) + row;
            s2 = wr s1 dwx (idx + 1 * hidden_dim) dzt
        in wr s2 dwx (idx + 0 * hidden_dim) dat)"

definition bwd_2_0_PointwiseOperationsReLU ::
  "'a::{one,plus,minus,times} inline_ops \<Rightarrow> nat \<Rightarrow> nat \<Rightarrow>
   ptr \<Rightarrow> ptr \<Rightarrow> ptr \<Rightarrow> ptr \<Rightarrow> ptr \<Rightarrow> nat \<Rightarrow> nat \<Rightarrow> 'a store \<Rightarrow> 'a store" where
  "bwd_2_0_PointwiseOperationsReLU ops = bwd_2_0_PointwiseOperations (d_relu ops)"

definition bwd_2_0_PointwiseOperationsLeakyReLU ::
  "'a::{one,plus,minus,times} inline_ops \<Rightarrow> nat \<Rightarrow> nat \<Rightarrow>
   ptr \<Rightarrow> ptr \<Rightarrow> ptr \<Rightarrow> ptr \<Rightarrow> ptr \<Rightarrow> nat \<Rightarrow> nat \<Rightarrow> 'a store \<Rightarrow> 'a store" where
  "bwd_2_0_PointwiseOperationsLeakyReLU ops = bwd_2_0_PointwiseOperations (d_leaky_relu ops)"

definition bwd_2_0_PointwiseOperationsTanh ::
  "'a::{one,plus,minus,times} inline_ops \<Rightarrow> nat \<Rightarrow> nat \<Rightarrow>
   ptr \<Rightarrow> ptr \<Rightarrow> ptr \<Rightarrow> ptr \<Rightarrow> ptr \<Rightarrow> nat \<Rightarrow> nat \<Rightarrow> 'a store \<Rightarrow> 'a store" where
  "bwd_2_0_PointwiseOperationsTanh ops = bwd_2_0_PointwiseOperations (d_tanh ops)"

definition bwd_2_0_PointwiseOperationsSin ::
  "'a::{one,plus,minus,times} inline_ops \<Rightarrow> nat \<Rightarrow> nat \<Rightarrow>
   ptr \<Rightarrow> ptr \<Rightarrow> ptr \<Rightarrow> ptr \<Rightarrow> ptr \<Rightarrow> nat \<Rightarrow> nat \<Rightarrow> 'a store \<Rightarrow> 'a store" where
  "bwd_2_0_PointwiseOperationsSin ops = bwd_2_0_PointwiseOperations (d_sin ops)"

text \<open>
  \<^verbatim>\<open>BackwardPass<T>::IterateInternal\<close> of ligru 2.0: the kernel, the layer-norm backward
  co-pass from \<^verbatim>\<open>dwx\<close> into \<^verbatim>\<open>tmp_dwx\<close>, and the \<^verbatim>\<open>gemm\<close> that accumulates the product with
  \<^verbatim>\<open>tmp_dwx\<close> into \<^verbatim>\<open>dh\<close>.
\<close>

definition bwd_2_0_IterateInternal ::
  "'a::comm_ring_1 inline_ops \<Rightarrow> private_data \<Rightarrow> 'a layer_norm \<Rightarrow>
   ptr \<Rightarrow> ptr \<Rightarrow> ptr \<Rightarrow> ptr \<Rightarrow> ptr \<Rightarrow> ptr \<Rightarrow> ptr \<Rightarrow> 'a store \<Rightarrow> 'a store" where
  "bwd_2_0_IterateInternal ops data layer_norm1 u_t h v grad_out dh tmp_dwx dwx s =
     (let alpha = 1;
          beta_sum = 1;
          blockDim = (32, 16);
          gridDim = ((hidden_size data + fst blockDim - 1) div fst blockDim,
                     (batch_size data + snd blockDim - 1) div snd blockDim);
          s1 = (if activation data = 0 then
                  launch gridDim blockDim
                    (bwd_2_0_PointwiseOperationsReLU ops (batch_size data) (hidden_size data)
                       h v dh grad_out dwx) s
                else if activation data = 1 then
                  launch gridDim blockDim
                    (bwd_2_0_PointwiseOperationsLeakyReLU ops (batch_size data) (hidden_size data)
                       h v dh grad_out dwx) s
                else if activation data = 2 then
                  launch gridDim blockDim
                    (bwd_2_0_PointwiseOperationsSin ops (batch_size data) (hidden_size data)
                       h v dh grad_out dwx) s
                else if activation data = 3 then
                  launch gridDim blockDim
                    (bwd_2_0_PointwiseOperationsTanh ops (batch_size data) (hidden_size data)
                       h v dh grad_out dwx) s
                else s);
          s2 = RunPartial layer_norm1 (batch_size data) dwx tmp_dwx s1
      in gemm CUBLAS_OP_N CUBLAS_OP_N (hidden_size data) (batch_size data) (hidden_size data * 2)
           alpha u_t (hidden_size data) tmp_dwx (hidden_size data * 2) beta_sum dh
           (hidden_size data) s2)"

definition bwd_2_0_Run_step ::
  "'a::comm_ring_1 inline_ops \<Rightarrow> private_data \<Rightarrow> 'a layer_norm \<Rightarrow>
   ptr \<Rightarrow> ptr \<Rightarrow> ptr \<Rightarrow> ptr \<Rightarrow> ptr \<Rightarrow> ptr \<Rightarrow> ptr \<Rightarrow> nat \<Rightarrow> 'a store \<Rightarrow> 'a store" where
  "bwd_2_0_Run_step ops data layer_norm1 u_t h v grad_out tmp_dwx dwx dh i s =
     (let NH = batch_size data * hidden_size data
      in bwd_2_0_IterateInternal ops data layer_norm1 u_t (ptr_add h (i * NH))
           (ptr_add v (i * NH * 3)) (ptr_add grad_out ((i + 1) * NH)) dh
           (ptr_add tmp_dwx (i * NH * 2)) (ptr_add dwx (i * NH * 2)) s)"

definition bwd_2_0_Run ::
  "'a::comm_ring_1 inline_ops \<Rightarrow> private_data \<Rightarrow> 'a layer_norm \<Rightarrow> nat \<Rightarrow>
   ptr \<Rightarrow> ptr \<Rightarrow> ptr \<Rightarrow> ptr \<Rightarrow> ptr \<Rightarrow> ptr \<Rightarrow> ptr \<Rightarrow> ptr \<Rightarrow> ptr \<Rightarrow> 'a store \<Rightarrow> 'a store" where
  "bwd_2_0_Run ops data layer_norm1 time_step wx_t u_t h v grad_out tmp_dwx dwx du dh s =
     (let alpha = 1;
          beta_sum = 1;
          s1 = fold (bwd_2_0_Run_step ops data layer_norm1 u_t h v grad_out tmp_dwx dwx dh)
                 (rev [0..<time_step]) s
      in gemm CUBLAS_OP_N CUBLAS_OP_T (hidden_size data * 2) (hidden_size data)
           (batch_size data * time_step) alpha tmp_dwx (hidden_size data * 2) h (hidden_size data)
           beta_sum du (hidden_size data * 2) s1)"

section \<open>The element type \<^verbatim>\<open>float\<close>\<close>

text \<open>
  The engines are instantiated at \<^verbatim>\<open>float\<close> (\<^verbatim>\<open>template struct BackwardPass<float>\<close>). A
  finite single-precision number is \<open>m * 2 ^ e\<close> for integers \<open>m\<close> and \<open>e\<close>, written
  \<open>Float32 m e\<close>, with a significand \<open>m\<close> of at most 24 bits when it is the result of an
  operation. Addition, subtraction and multiplication compute the exact result and round it
  to 24 significant bits, to nearest, ties to even, as IEEE 754 prescribes; \<open>round24\<close> is
  that rounding. The exponent range is not bounded: overflow, underflow to subnormal
  numbers, infinities and NaN are outside the model. The backward kernels contain no product that
  feeds a sum or a difference, so nothing is contracted to a fused multiply-add.
\<close>

datatype float32 = Float32 int int

fun valof :: "float32 \<Rightarrow> real" where
  "valof (Float32 m e) =
     (if 0 \<le> e then of_int m * 2 ^ nat e else of_int m / 2 ^ nat (- e))"

fun bit_length :: "nat \<Rightarrow> nat" where
  "bit_length n = (if n = 0 then 0 else Suc (bit_length (n div 2)))"

declare bit_length.simps [simp del]

definition round24 :: "int \<Rightarrow> int \<Rightarrow> float32" where
  "round24 m e =
     (let n = bit_length (nat \<bar>m\<bar>)
      in if n \<le> 24 then Float32 m e
         else
           let k = n - 24;
               q = \<bar>m\<bar> div 2 ^ k;
               r = \<bar>m\<bar> mod 2 ^ k;
               half = 2 ^ (k - 1);
               q' = (if half < r \<or> (r = half \<and> odd q) then q + 1 else q)
           in Float32 (sgn m * q') (e + int k))"

instantiation float32 :: "{one, plus, minus, times}"
begin

definition one_float32 :: float32 where
  "one_float32 = Float32 1 0"

fun plus_float32 :: "float32 \<Rightarrow> float32 \<Rightarrow> float32" where
  "plus_float32 (Float32 m1 e1) (Float32 m2 e2) =
     (let e = min e1 e2
      in round24 (m1 * 2 ^ nat (e1 - e) + m2 * 2 ^ nat (e2 - e)) e)"

fun minus_float32 :: "float32 \<Rightarrow> float32 \<Rightarrow> float32" where
  "minus_float32 (Float32 m1 e1) (Float32 m2 e2) =
     (let e = min e1 e2
      in round24 (m1 * 2 ^ nat (e1 - e) - m2 * 2 ^ nat (e2 - e)) e)"

fun times_float32 :: "float32 \<Rightarrow> float32 \<Rightarrow> float32" where
  "times_float32 (Float32 m1 e1) (Float32 m2 e2) = round24 (m1 * m2) (e1 + e2)"

instance ..

end

text \<open>
  Modelled from the spec: \<^verbatim>\<open>d_relu\<close> of \<^verbatim>\<open>inline_ops.h\<close> at \<^verbatim>\<open>float\<close>, the exact derivative of
  relu: 1 for a positive argument and 0 otherwise.
\<close>

fun float32_d_relu :: "float32 \<Rightarrow> float32" where
  "float32_d_relu (Float32 m e) = (if 0 < m then Float32 1 0 else Float32 0 0)"

section \<open>Notions of the specification\<close>

text \<open>
  The gate equations of the specification for batch index \<open>b\<close> and hidden index \<open>j\<close>, read
  from the store before the kernel runs: \<open>z = sigmoid(wx_z + uh_z)\<close> from slot 1,
  \<open>a = wx_a + uh_a\<close> from slot 0, and \<open>h_out = z * h_prev + (1 - z) * f(a)\<close>.
\<close>

definition gate_z ::
  "('a::comm_ring_1 \<Rightarrow> 'a) \<Rightarrow> nat \<Rightarrow> ptr \<Rightarrow> ptr \<Rightarrow> 'a store \<Rightarrow> nat \<Rightarrow> nat \<Rightarrow> 'a" where
  "gate_z sigm nh wx uh s b j =
     sigm (rd s wx (b * (nh * 2) + j + 1 * nh) + rd s uh (b * (nh * 2) + j + 1 * nh))"

definition gate_a :: "nat \<Rightarrow> ptr \<Rightarrow> ptr \<Rightarrow> 'a::comm_ring_1 store \<Rightarrow> nat \<Rightarrow> nat \<Rightarrow> 'a" where
  "gate_a nh wx uh s b j =
     rd s wx (b * (nh * 2) + j + 0 * nh) + rd s uh (b * (nh * 2) + j + 0 * nh)"

definition gate_h ::
  "('a::comm_ring_1 \<Rightarrow> 'a) \<Rightarrow> ('a \<Rightarrow> 'a) \<Rightarrow> nat \<Rightarrow> ptr \<Rightarrow> ptr \<Rightarrow> ptr \<Rightarrow> 'a store \<Rightarrow>
   nat \<Rightarrow> nat \<Rightarrow> 'a" where
  "gate_h sigm act nh wx uh h s b j =
     gate_z sigm nh wx uh s b j * rd s h (b * nh + j)
     + (1 - gate_z sigm nh wx uh s b j) * act (gate_a nh wx uh s b j)"

text \<open>
  The store in which the forward kernel of one step runs: the store after the recurrent
  projection and the layer-norm co-pass of \<^verbatim>\<open>IterateInternal\<close>.
\<close>

definition fwd_projected ::
  "fwd_private_data \<Rightarrow> 'a layer_norm \<Rightarrow> ptr \<Rightarrow> ptr \<Rightarrow> ptr \<Rightarrow> ptr \<Rightarrow>
   'a::comm_ring_1 store \<Rightarrow> 'a store" where
  "fwd_projected data layer_norm1 u h tmp_uh tmp_uh_norm s =
     RunPartial layer_norm1 (batch_size data) tmp_uh tmp_uh_norm
       (gemm CUBLAS_OP_N CUBLAS_OP_N (hidden_size data * 2) (batch_size data)
          (hidden_size data) 1 u (hidden_size data * 2) h (hidden_size data)
          0 tmp_uh (hidden_size data * 2) s)"

text \<open>
  The backward gate equations for batch index \<open>b\<close> and hidden index \<open>j\<close>, read from the store
  before the kernel runs, with \<open>dh_total = grad_out + dh_running\<close> and the cached \<open>a\<close>, \<open>z\<close>,
  \<open>hcand\<close> of slots 0, 1 and 2 of \<open>v\<close>: the new running gradient \<open>dh_total * z\<close>, and \<open>da\<close> and
  \<open>dz\<close> in the form of the ligru 1.0 kernel. \<open>d_activation\<close> is the derivative that the
  activation id selects, in the enumeration 0 = relu, 1 = leaky relu, 2 = sin, 3 = tanh.
\<close>

definition d_activation :: "'a inline_ops \<Rightarrow> int \<Rightarrow> 'a \<Rightarrow> 'a" where
  "d_activation ops act_id =
     (if act_id = 0 then d_relu ops else if act_id = 1 then d_leaky_relu ops
      else if act_id = 2 then d_sin ops else d_tanh ops)"

definition bwd_dh_total :: "nat \<Rightarrow> ptr \<Rightarrow> ptr \<Rightarrow> 'a::comm_ring_1 store \<Rightarrow> nat \<Rightarrow> nat \<Rightarrow> 'a" where
  "bwd_dh_total nh dh_prev grad_out s b j =
     rd s grad_out (b * nh + j) + rd s dh_prev (b * nh + j)"

definition bwd_dh ::
  "nat \<Rightarrow> ptr \<Rightarrow> ptr \<Rightarrow> ptr \<Rightarrow> 'a::comm_ring_1 store \<Rightarrow> nat \<Rightarrow> nat \<Rightarrow> 'a" where
  "bwd_dh nh v dh_prev grad_out s b j =
     bwd_dh_total nh dh_prev grad_out s b j * rd s v (b * (nh * 3) + j + 1 * nh)"

definition bwd_dat ::
  "('a::comm_ring_1 \<Rightarrow> 'a) \<Rightarrow> nat \<Rightarrow> ptr \<Rightarrow> ptr \<Rightarrow> ptr \<Rightarrow> 'a store \<Rightarrow> nat \<Rightarrow> nat \<Rightarrow> 'a" where
  "bwd_dat d_act nh v dh_prev grad_out s b j =
     d_act (rd s v (b * (nh * 3) + j + 0 * nh))
     * ((1 - rd s v (b * (nh * 3) + j + 1 * nh)) * bwd_dh_total nh dh_prev grad_out s b j)"

definition bwd_dzt ::
  "nat \<Rightarrow> ptr \<Rightarrow> ptr \<Rightarrow> ptr \<Rightarrow> ptr \<Rightarrow> 'a::comm_ring_1 store \<Rightarrow> nat \<Rightarrow> nat \<Rightarrow> 'a" where
  "bwd_dzt nh h v dh_prev grad_out s b j =
     (rd s h (b * nh + j) - rd s v (b * (nh * 3) + j + 2 * nh))
     * rd s v (b * (nh * 3) + j + 1 * nh)
     * ((1 - rd s v (b * (nh * 3) + j + 1 * nh)) * bwd_dh_total nh dh_prev grad_out s b j)"

text \<open>
  The recurrent-weight gradient as the specification words it: the sum of \<open>T\<close> independent
  per-step accumulations, step \<open>t\<close> adding the product of \<open>dwx_t\<close> (the \<open>batch_size\<close> columns
  at \<open>dwx + t * NH * 2\<close>) with the transpose of \<open>h_t\<close> (the \<open>batch_size\<close> columns at
  \<open>h + t * NH\<close>) to \<open>du\<close>.
\<close>

definition du_per_step ::
  "private_data \<Rightarrow> nat \<Rightarrow> ptr \<Rightarrow> ptr \<Rightarrow> ptr \<Rightarrow> 'a::comm_ring_1 store \<Rightarrow> 'a store" where
  "du_per_step data time_step dwx h du s =
     fold (\<lambda>t. gemm CUBLAS_OP_N CUBLAS_OP_T (hidden_size data * 2) (hidden_size data)
                  (batch_size data) 1
                  (ptr_add dwx (t * (batch_size data * hidden_size data) * 2)) (hidden_size data * 2)
                  (ptr_add h (t * (batch_size data * hidden_size data))) (hidden_size data)
                  1 du (hidden_size data * 2))
       [0..<time_step] s"

section \<open>Kernel launches: the threads that pass the guard\<close>

lemma fold_upt_guard:
  assumes "\<And>i s. n \<le> i \<Longrightarrow> f i s = s" and "n \<le> k"
  shows "fold f [0..<k] s = fold f [0..<n] s"
proof -
  have id: "fold f [n..<n + d] t = t" for d t
    by (induction d) (simp_all add: assms(1))
  from assms(2) obtain d where k: "k = n + d"
    using le_Suc_ex by blast
  have "[0..<n + d] = [0..<n] @ [n..<n + d]"
    by (rule upt_add_eq_append) simp
  then show ?thesis
    unfolding k by (simp add: id)
qed

lemma grid_cover: "0 < b \<Longrightarrow> (n::nat) \<le> b * ((n + b - 1) div b)"
proof -
  assume b: "0 < b"
  have "n + b - 1 = b * ((n + b - 1) div b) + (n + b - 1) mod b"
    by simp
  moreover have "(n + b - 1) mod b < b"
    using b by simp
  ultimately show ?thesis
    by linarith
qed

lemma launch_in_range:
  assumes guard: "\<And>row col s. nh \<le> row \<or> nb \<le> col \<Longrightarrow> kern row col s = s"
    and "nh \<le> fst blk * fst grd" and "nb \<le> snd blk * snd grd"
  shows "launch grd blk kern s = fold (\<lambda>col. fold (\<lambda>row. kern row col) [0..<nh]) [0..<nb] s"
proof -
  have rows: "fold (\<lambda>row. kern row col) [0..<fst blk * fst grd]
              = fold (\<lambda>row. kern row col) [0..<nh]" for col
    by (rule ext, rule fold_upt_guard) (simp_all add: guard assms(2))
  have cols: "fold (\<lambda>col. fold (\<lambda>row. kern row col) [0..<nh]) [0..<snd blk * snd grd] s
              = fold (\<lambda>col. fold (\<lambda>row. kern row col) [0..<nh]) [0..<nb] s"
  proof (rule fold_upt_guard)
    fix i t assume "nb \<le> i"
    then have "\<And>row u. kern row i u = u" by (simp add: guard)
    then show "fold (\<lambda>row. kern row i) [0..<nh] t = t"
      by (induction nh) simp_all
  qed (rule assms(3))
  show ?thesis
    unfolding launch_def rows by (rule cols)
qed

lemma upt_block: "[nb * nh..<nb * nh + nh] = map (\<lambda>r. nb * nh + r) [0..<nh]"
proof -
  have "map (\<lambda>r. r + nb * nh) [0..<nh] = [nb * nh..<nh + nb * nh]"
    by (rule map_add_upt)
  then show ?thesis
    by (simp only: add.commute[of _ "nb * nh"])
qed

lemma upt_split_block: "[0..<Suc nb * nh] = [0..<nb * nh] @ [nb * nh..<nb * nh + nh]"
proof -
  have "[0..<nb * nh + nh] = [0..<nb * nh] @ [nb * nh..<nb * nh + nh]"
    by (rule upt_add_eq_append) simp
  moreover have "Suc nb * nh = nb * nh + nh"
    by simp
  ultimately show ?thesis
    by (simp only:)
qed

lemma fold_block:
  "fold (\<lambda>i. k (i mod nh) (i div nh)) (map (\<lambda>r. nb * nh + r) [0..<nh]) t
        = fold (\<lambda>row. k row nb) [0..<nh] t"
proof -
  have "(\<lambda>i. k (i mod nh) (i div nh)) (nb * nh + r) = k r nb" if "r < nh" for r
    using that by simp
  then have "fold ((\<lambda>i. k (i mod nh) (i div nh)) \<circ> (\<lambda>r. nb * nh + r)) [0..<nh] t
             = fold (\<lambda>row. k row nb) [0..<nh] t"
    by (intro fold_cong) (simp_all only: comp_apply atLeastLessThan_iff set_upt refl)
  then show ?thesis
    by (simp only: fold_map)
qed

lemma fold_rows_flat:
  "fold (\<lambda>col. fold (\<lambda>row. k row col) [0..<nh]) [0..<nb] s
   = fold (\<lambda>i. k (i mod nh) (i div nh)) [0..<nb * nh] s"
proof (induction nb arbitrary: s)
  case 0
  show ?case by simp
next
  case (Suc nb)
  show ?case
    unfolding upt_split_block upt_block fold_append comp_def fold_block
    by (simp add: Suc)
qed

lemma fold_invariant:
  assumes "\<And>x t. P t \<Longrightarrow> P (f x t)" and "P s"
  shows "P (fold f xs s)"
  using assms(2) by (induction xs arbitrary: s) (simp_all add: assms(1))

lemma launch_invariant:
  assumes "\<And>row col t. P t \<Longrightarrow> P (kern row col t)" and "P s"
  shows "P (launch grd blk kern s)"
proof -
  have inner: "P (fold (\<lambda>row. kern row col) xs t)" if "P t" for col xs t
    using that by (induction xs arbitrary: t) (simp_all add: assms(1))
  have "P (fold (\<lambda>col. fold (\<lambda>row. kern row col) xs) ys s)" for xs ys
    using assms(2) by (induction ys arbitrary: s) (simp_all add: inner)
  then show ?thesis
    unfolding launch_def .
qed

lemma fold_rel:
  assumes "\<And>x t t'. R t t' \<Longrightarrow> R (f x t) (f' x t')" and "R s s'"
  shows "R (fold f xs s) (fold f' xs s')"
  using assms(2) by (induction xs arbitrary: s s') (simp_all add: assms(1))

lemma launch_rel:
  assumes "\<And>row col t t'. R t t' \<Longrightarrow> R (k row col t) (k' row col t')" and "R s s'"
  shows "R (launch grd blk k s) (launch grd blk k' s')"
proof -
  have inner: "R (fold (\<lambda>row. k row col) xs t) (fold (\<lambda>row. k' row col) xs t')"
    if "R t t'" for col xs t t'
    using that by (induction xs arbitrary: t t') (simp_all add: assms(1))
  have "R (fold (\<lambda>col. fold (\<lambda>row. k row col) xs) ys s)
          (fold (\<lambda>col. fold (\<lambda>row. k' row col) xs) ys s')" for xs ys
    using assms(2) by (induction ys arbitrary: s s') (simp_all add: inner)
  then show ?thesis
    unfolding launch_def .
qed

lemma gemm_other: "b \<noteq> fst C \<Longrightarrow> gemm ta tb m n k alpha A lda B ldb beta C ldc s b = s b"
  by (simp add: gemm_def)

lemma gemm_length:
  "length (gemm ta tb m n k alpha A lda B ldb beta C ldc s b) = length (s b)"
  by (simp add: gemm_def)

lemma RunPartial_other: "b \<noteq> fst y \<Longrightarrow> RunPartial lnorm n x y s b = s b"
  by (simp add: RunPartial_def)

lemma fwd_thread_frame_eval:
  "b \<noteq> fst h_out \<Longrightarrow>
   fwd_PointwiseOperations sigm act False nb nh wx uh h h_out v row col s b = s b"
  by (simp add: fwd_PointwiseOperations_def Let_def wr_def)

lemmas fwd_kernel_defs =
  fwd_PointwiseOperationsReLU_def fwd_PointwiseOperationsLeakyReLU_def
  fwd_PointwiseOperationsTanh_def fwd_PointwiseOperationsSin_def

lemma fwd_launch_frame_eval:
  assumes "b \<noteq> fst h_out"
  shows "launch grd blk (fwd_PointwiseOperations sigm act False nb nh wx uh h h_out v) s b = s b"
  by (rule launch_invariant[where P = "\<lambda>t. t b = s b"]) (simp_all add: fwd_thread_frame_eval assms)

lemma fwd_IterateInternal_frame_eval:
  assumes "\<not> training data" "b \<noteq> fst h_out" "b \<noteq> fst tmp_uh" "b \<noteq> fst tmp_uh_norm"
  shows "fwd_IterateInternal ops data lnorm u h h_out v tmp_wx tmp_uh tmp_uh_norm s b = s b"
  using assms
  by (simp add: fwd_IterateInternal_def Let_def fwd_kernel_defs fwd_launch_frame_eval
      RunPartial_other gemm_other)

lemma fwd_Run_frame_eval:
  assumes "\<not> training data" "b \<noteq> fst h" "b \<noteq> fst tmp_uh" "b \<noteq> fst tmp_uh_norm"
  shows "fwd_Run ops data lnorm T wx u h v tmp_uh_norm tmp_uh s b = s b"
  unfolding fwd_Run_def
  by (rule fold_invariant[where P = "\<lambda>t. t b = s b"])
    (simp_all add: fwd_Run_step_def Let_def fwd_IterateInternal_frame_eval assms ptr_add_def)

section \<open>Cache gating\<close>

text \<open>
  C6: running the forward pass with \<^verbatim>\<open>training = false\<close> leaves every element of the gate
  cache buffer \<open>v\<close> unchanged: the time scan on a store returns a store with the same
  contents of \<open>V\<close>, whatever the sequence length, the dimensions, the activation id and the
  co-pass; in particular, when the scan runs on buffers prepared as the binding prepares
  them (\<open>h_init\<close> copied into row 0 of the output allocation), the cache is the allocation as
  it was given.
\<close>

theorem cache_untouched:
  "fwd_Run ops (data\<lparr>training := False\<rparr>) layer_norm1 seq_length
     (WX, 0) (U, 0) (Hs, 0) (V, 0) (TMP_UH_NORM, 0) (TMP_UH, 0) s V = s V
   \<and> fwd_Run ops
       \<lparr> batch_size = batch, input_size = 0, hidden_size = hidden, activation = act_id,
         training = False \<rparr>
       layer_norm1 seq_length (WX, 0) (U, 0) (Hs, 0) (V, 0) (TMP_UH_NORM, 0) (TMP_UH, 0)
       (alloc(WX := wx, U := u_t,
              Hs := take (batch * hidden) h_init @ drop (batch * hidden) (alloc Hs))) V
     = alloc V"
  by (simp add: fwd_Run_frame_eval)

section \<open>The two backward gate kernels\<close>

lemma bwd_thread_eq:
  fixes s :: "'a::comm_ring_1 store"
  shows "bwd_1_0_PointwiseOperations d_act nb nh h v dh_prev grad_out dwx row col s
   = bwd_2_0_PointwiseOperations d_act nb nh h v dh_prev grad_out dwx row col s"
  by (simp add: bwd_1_0_PointwiseOperations_def bwd_2_0_PointwiseOperations_def Let_def mult_ac)

lemma bwd_kernel_eq:
  fixes d_act :: "'a::comm_ring_1 \<Rightarrow> 'a"
  shows "bwd_1_0_PointwiseOperations d_act nb nh h v dh_prev grad_out dwx
   = bwd_2_0_PointwiseOperations d_act nb nh h v dh_prev grad_out dwx"
  by (intro ext) (simp add: bwd_thread_eq)

lemmas bwd_1_0_kernel_defs =
  bwd_1_0_PointwiseOperationsReLU_def bwd_1_0_PointwiseOperationsLeakyReLU_def
  bwd_1_0_PointwiseOperationsTanh_def bwd_1_0_PointwiseOperationsSin_def

lemmas bwd_2_0_kernel_defs =
  bwd_2_0_PointwiseOperationsReLU_def bwd_2_0_PointwiseOperationsLeakyReLU_def
  bwd_2_0_PointwiseOperationsTanh_def bwd_2_0_PointwiseOperationsSin_def

lemma bwd_thread_dh_prev:
  fixes t :: "'b::{one,plus,minus,times} store"
  assumes "fst dh_prev \<noteq> fst dwx"
  shows "bwd_1_0_PointwiseOperations d_act nb nh h v dh_prev grad_out dwx row col t (fst dh_prev)
         = bwd_2_0_PointwiseOperations d_act nb nh h v dh_prev grad_out dwx row col t (fst dh_prev)"
  using assms
  by (simp add: bwd_1_0_PointwiseOperations_def bwd_2_0_PointwiseOperations_def Let_def wr_def)

lemma bwd_launch_dh_prev:
  fixes t :: "'b::{one,plus,minus,times} store"
  assumes "fst h \<noteq> fst dwx" "fst v \<noteq> fst dwx" "fst dh_prev \<noteq> fst dwx" "fst grad_out \<noteq> fst dwx"
  shows "launch grd blk (bwd_1_0_PointwiseOperations d_act nb nh h v dh_prev grad_out dwx) t
           (fst dh_prev)
         = launch grd blk (bwd_2_0_PointwiseOperations d_act nb nh h v dh_prev grad_out dwx) t
             (fst dh_prev)"
proof -
  have "\<forall>b. b \<noteq> fst dwx \<longrightarrow>
          launch grd blk (bwd_1_0_PointwiseOperations d_act nb nh h v dh_prev grad_out dwx) t b
          = launch grd blk (bwd_2_0_PointwiseOperations d_act nb nh h v dh_prev grad_out dwx) t b"
  proof (rule launch_rel[where R = "\<lambda>x y. \<forall>b. b \<noteq> fst dwx \<longrightarrow> x b = y b"])
    fix row col and x y :: "'b store"
    assume "\<forall>b. b \<noteq> fst dwx \<longrightarrow> x b = y b"
    then show "\<forall>b. b \<noteq> fst dwx \<longrightarrow>
       bwd_1_0_PointwiseOperations d_act nb nh h v dh_prev grad_out dwx row col x b =
       bwd_2_0_PointwiseOperations d_act nb nh h v dh_prev grad_out dwx row col y b"
      using assms
      by (simp add: bwd_1_0_PointwiseOperations_def bwd_2_0_PointwiseOperations_def Let_def
          wr_def rd_def)
  qed simp
  with assms(3) show ?thesis by simp
qed

text \<open>
  C2, as amended: on identical inputs (the cache with \<open>a\<close>, \<open>z\<close> and \<open>hcand\<close>, the saved previous
  hidden state, the per-step output gradient and the running hidden gradient) the ligru 1.0
  backward kernel, which forms \<open>tmp = (1 - z) * dh\<close> first, and the ligru 2.0 backward kernel,
  which multiplies by \<open>z * (1 - z)\<close>, agree in exact arithmetic: over a commutative ring
  (the reals, say) they leave the same store, with equal \<open>dat\<close> and \<open>dzt\<close> in the two slots of
  \<open>dwx\<close> and the same updated running gradient \<open>dh * z\<close>, for every thread and every launch
  and for each of the four activation families. In any arithmetic, rounding or not, the two
  kernels leave the same running gradient \<open>dh * z\<close> (the same operations in the same order);
  this is stated for the kernel body with any derivative \<open>d_act\<close>, of which the four kernels
  of each engine are the instances, and for \<open>dh\<close> in another buffer than \<open>dwx\<close>.
\<close>

theorem backward_kernels_agree:
  fixes ops :: "'a::comm_ring_1 inline_ops"
    and d_act :: "'b::{one,plus,minus,times} \<Rightarrow> 'b" and t :: "'b store"
  shows "bwd_1_0_PointwiseOperationsReLU ops nb nh h v dh_prev grad_out dwx row col s
     = bwd_2_0_PointwiseOperationsReLU ops nb nh h v dh_prev grad_out dwx row col s
   \<and> bwd_1_0_PointwiseOperationsLeakyReLU ops nb nh h v dh_prev grad_out dwx row col s
     = bwd_2_0_PointwiseOperationsLeakyReLU ops nb nh h v dh_prev grad_out dwx row col s
   \<and> bwd_1_0_PointwiseOperationsTanh ops nb nh h v dh_prev grad_out dwx row col s
     = bwd_2_0_PointwiseOperationsTanh ops nb nh h v dh_prev grad_out dwx row col s
   \<and> bwd_1_0_PointwiseOperationsSin ops nb nh h v dh_prev grad_out dwx row col s
     = bwd_2_0_PointwiseOperationsSin ops nb nh h v dh_prev grad_out dwx row col s
   \<and> launch grd blk (bwd_1_0_PointwiseOperationsReLU ops nb nh h v dh_prev grad_out dwx) s
     = launch grd blk (bwd_2_0_PointwiseOperationsReLU ops nb nh h v dh_prev grad_out dwx) s
   \<and> launch grd blk (bwd_1_0_PointwiseOperationsLeakyReLU ops nb nh h v dh_prev grad_out dwx) s
     = launch grd blk (bwd_2_0_PointwiseOperationsLeakyReLU ops nb nh h v dh_prev grad_out dwx) s
   \<and> launch grd blk (bwd_1_0_PointwiseOperationsTanh ops nb nh h v dh_prev grad_out dwx) s
     = launch grd blk (bwd_2_0_PointwiseOperationsTanh ops nb nh h v dh_prev grad_out dwx) s
   \<and> launch grd blk (bwd_1_0_PointwiseOperationsSin ops nb nh h v dh_prev grad_out dwx) s
     = launch grd blk (bwd_2_0_PointwiseOperationsSin ops nb nh h v dh_prev grad_out dwx) s
   \<and> (fst dh_prev \<noteq> fst dwx \<longrightarrow>
        bwd_1_0_PointwiseOperations d_act nb nh h v dh_prev grad_out dwx row col t (fst dh_prev)
        = bwd_2_0_PointwiseOperations d_act nb nh h v dh_prev grad_out dwx row col t (fst dh_prev))
   \<and> (fst h \<noteq> fst dwx \<and> fst v \<noteq> fst dwx \<and> fst dh_prev \<noteq> fst dwx \<and> fst grad_out \<noteq> fst dwx \<longrightarrow>
        launch grd blk (bwd_1_0_PointwiseOperations d_act nb nh h v dh_prev grad_out dwx) t
          (fst dh_prev)
        = launch grd blk (bwd_2_0_PointwiseOperations d_act nb nh h v dh_prev grad_out dwx) t
            (fst dh_prev))"
proof -
  have exact: "bwd_1_0_PointwiseOperations f nb nh h v dh_prev grad_out dwx
               = bwd_2_0_PointwiseOperations f nb nh h v dh_prev grad_out dwx"
    for f :: "'a \<Rightarrow> 'a"
    by (rule bwd_kernel_eq)
  show ?thesis
    unfolding bwd_1_0_kernel_defs bwd_2_0_kernel_defs exact
    using bwd_thread_dh_prev[of dh_prev dwx d_act nb nh h v grad_out row col t]
      bwd_launch_dh_prev[of h dwx v dh_prev grad_out grd blk d_act nb nh t]
    by simp
qed

theorem backward_kernels_agree_witness:
  "fst (DH, 0 :: nat) \<noteq> fst (DWX, 0 :: nat)
   \<and> bwd_1_0_PointwiseOperations float32_d_relu 1 1 (Hs, 0) (V, 0) (DH, 0) (GRAD_OUT, 0) (DWX, 0) 0 0
       ((\<lambda>b. [])(Hs := [Float32 10 0], V := [Float32 1 0, Float32 1099 (-14), Float32 0 0],
                  DH := [Float32 0 0], GRAD_OUT := [Float32 4 0], DWX := [Float32 0 0, Float32 0 0]))
       DH
     = bwd_2_0_PointwiseOperations float32_d_relu 1 1 (Hs, 0) (V, 0) (DH, 0) (GRAD_OUT, 0) (DWX, 0) 0 0
         ((\<lambda>b. [])(Hs := [Float32 10 0], V := [Float32 1 0, Float32 1099 (-14), Float32 0 0],
                    DH := [Float32 0 0], GRAD_OUT := [Float32 4 0], DWX := [Float32 0 0, Float32 0 0]))
         DH
   \<and> launch (1, 1) (32, 16)
       (bwd_1_0_PointwiseOperations float32_d_relu 1 1 (Hs, 0) (V, 0) (DH, 0) (GRAD_OUT, 0) (DWX, 0))
       ((\<lambda>b. [])(Hs := [Float32 10 0], V := [Float32 1 0, Float32 1099 (-14), Float32 0 0],
                  DH := [Float32 0 0], GRAD_OUT := [Float32 4 0], DWX := [Float32 0 0, Float32 0 0]))
       DH
     = launch (1, 1) (32, 16)
         (bwd_2_0_PointwiseOperations float32_d_relu 1 1 (Hs, 0) (V, 0) (DH, 0) (GRAD_OUT, 0) (DWX, 0))
         ((\<lambda>b. [])(Hs := [Float32 10 0], V := [Float32 1 0, Float32 1099 (-14), Float32 0 0],
                    DH := [Float32 0 0], GRAD_OUT := [Float32 4 0], DWX := [Float32 0 0, Float32 0 0]))
         DH
   \<and> bwd_2_0_PointwiseOperations float32_d_relu 1 1 (Hs, 0) (V, 0) (DH, 0) (GRAD_OUT, 0) (DWX, 0) 0 0
         ((\<lambda>b. [])(Hs := [Float32 10 0], V := [Float32 1 0, Float32 1099 (-14), Float32 0 0],
                    DH := [Float32 0 0], GRAD_OUT := [Float32 4 0], DWX := [Float32 0 0, Float32 0 0]))
         DH = [Float32 4396 (-14)]"
  using backward_kernels_agree[where dh_prev = "(DH, 0)" and dwx = "(DWX, 0)" and h = "(Hs, 0)"
      and v = "(V, 0)" and grad_out = "(GRAD_OUT, 0)" and d_act = float32_d_relu
      and nb = 1 and nh = 1 and row = 0 and col = 0 and grd = "(1, 1)" and blk = "(32, 16)"
      and t = "(\<lambda>b. [])(Hs := [Float32 10 0], V := [Float32 1 0, Float32 1099 (-14), Float32 0 0],
                  DH := [Float32 0 0], GRAD_OUT := [Float32 4 0], DWX := [Float32 0 0, Float32 0 0])",
      THEN conjunct2, THEN conjunct2, THEN conjunct2, THEN conjunct2,
      THEN conjunct2, THEN conjunct2, THEN conjunct2, THEN conjunct2]
  by (simp add: bwd_2_0_PointwiseOperations_def Let_def rd_def wr_def round24_def bit_length.simps)

text \<open>
  C2 as stated, without the proviso of exact arithmetic, fails at \<^verbatim>\<open>float\<close>: the two kernels
  multiply the same factors in different orders and every product rounds. For the relu
  kernels with \<open>B = H = 1\<close>, \<open>z = 1099 / 16384\<close>, \<open>h_prev = 10\<close>, \<open>hcand = 0\<close>, \<open>a = 1\<close>, output
  gradient 4 and running gradient 0, ligru 1.0 stores \<open>dzt = 10498884 / 4194304\<close> and ligru
  2.0 stores \<open>dzt = 10498885 / 4194304\<close>, one unit in the last place more; \<open>dat\<close> is the same
  here.
\<close>

theorem backward_kernels_float_counterexample:
  "bwd_1_0_PointwiseOperations float32_d_relu 1 1 (Hs, 0) (V, 0) (DH, 0) (GRAD_OUT, 0) (DWX, 0) 0 0
     ((\<lambda>b. [])(Hs := [Float32 10 0], V := [Float32 1 0, Float32 1099 (-14), Float32 0 0],
                DH := [Float32 0 0], GRAD_OUT := [Float32 4 0], DWX := [Float32 0 0, Float32 0 0])) DWX
     = [Float32 61140 (-14), Float32 10498884 (-22)]
   \<and> bwd_2_0_PointwiseOperations float32_d_relu 1 1 (Hs, 0) (V, 0) (DH, 0) (GRAD_OUT, 0) (DWX, 0) 0 0
       ((\<lambda>b. [])(Hs := [Float32 10 0], V := [Float32 1 0, Float32 1099 (-14), Float32 0 0],
                  DH := [Float32 0 0], GRAD_OUT := [Float32 4 0], DWX := [Float32 0 0, Float32 0 0])) DWX
     = [Float32 61140 (-14), Float32 10498885 (-22)]
   \<and> valof (Float32 10498884 (-22)) = 10498884 / 4194304
   \<and> valof (Float32 10498885 (-22)) = 10498885 / 4194304
   \<and> valof (Float32 10498884 (-22)) < valof (Float32 10498885 (-22))"
  by (simp add: bwd_1_0_PointwiseOperations_def bwd_2_0_PointwiseOperations_def Let_def rd_def wr_def
     one_float32_def round24_def bit_length.simps)

section \<open>The recurrent-weight gradient as one matrix product\<close>

lemma gemm_dot_cong:
  "s (fst A) = t (fst A) \<Longrightarrow> s (fst B) = t (fst B) \<Longrightarrow>
   gemm_dot ta tb k A lda B ldb s i j = gemm_dot ta tb k A lda B ldb t i j"
proof -
  assume "s (fst A) = t (fst A)" "s (fst B) = t (fst B)"
  then have "rd s A = rd t A" "rd s B = rd t B"
    by (simp_all add: rd_def fun_eq_iff)
  then show ?thesis
    by (cases ta; cases tb) (simp_all add: gemm_dot_def)
qed

lemma gemm_dot_split:
  "gemm_dot CUBLAS_OP_N CUBLAS_OP_T (k1 + k2) A lda B ldb s i j
   = gemm_dot CUBLAS_OP_N CUBLAS_OP_T k1 A lda B ldb s i j
     + gemm_dot CUBLAS_OP_N CUBLAS_OP_T k2 (ptr_add A (k1 * lda)) lda (ptr_add B (k1 * ldb)) ldb s i j"
proof -
  have "[0..<k1 + k2] = [0..<k1] @ map (\<lambda>l. l + k1) [0..<k2]"
    using upt_add_eq_append[of 0 k1 k2] by (simp add: map_add_upt add.commute)
  then show ?thesis
    by (simp add: gemm_dot_def rd_def ptr_add_def comp_def algebra_simps)
qed

lemma gemm_zero_cols:
  "gemm ta tb m n 0 1 A lda B ldb 1 C ldc s = s"
proof -
  have "map (\<lambda>idx. s (fst C) ! idx) [0..<length (s (fst C))] = s (fst C)"
    by (rule map_nth)
  then show ?thesis
    by (simp add: gemm_def gemm_dot_def fun_eq_iff cong: if_cong)
qed

lemma gemm_split:
  assumes "fst C \<noteq> fst A" "fst C \<noteq> fst B"
  shows "gemm CUBLAS_OP_N CUBLAS_OP_T m n (k1 + k2) 1 A lda B ldb 1 C ldc s
         = gemm CUBLAS_OP_N CUBLAS_OP_T m n k2 1 (ptr_add A (k1 * lda)) lda
             (ptr_add B (k1 * ldb)) ldb 1 C ldc
             (gemm CUBLAS_OP_N CUBLAS_OP_T m n k1 1 A lda B ldb 1 C ldc s)"
proof -
  let ?s1 = "gemm CUBLAS_OP_N CUBLAS_OP_T m n k1 1 A lda B ldb 1 C ldc s"
  have dot: "gemm_dot CUBLAS_OP_N CUBLAS_OP_T k2 (ptr_add A (k1 * lda)) lda
               (ptr_add B (k1 * ldb)) ldb ?s1 i j
             = gemm_dot CUBLAS_OP_N CUBLAS_OP_T k2 (ptr_add A (k1 * lda)) lda
               (ptr_add B (k1 * ldb)) ldb s i j" for i j
    by (rule gemm_dot_cong) (simp_all add: gemm_def ptr_add_def assms[symmetric])
  have len: "length (?s1 (fst C)) = length (s (fst C))"
    by (simp add: gemm_def)
  have nth: "?s1 (fst C) ! idx =
      (if snd C \<le> idx \<and> (idx - snd C) mod ldc < m \<and> (idx - snd C) div ldc < n
       then gemm_dot CUBLAS_OP_N CUBLAS_OP_T k1 A lda B ldb s
              ((idx - snd C) mod ldc) ((idx - snd C) div ldc) + s (fst C) ! idx
       else s (fst C) ! idx)" if "idx < length (s (fst C))" for idx
    using that by (simp add: gemm_def)
  show ?thesis
  proof (rule ext)
    fix b
    show "gemm CUBLAS_OP_N CUBLAS_OP_T m n (k1 + k2) 1 A lda B ldb 1 C ldc s b
         = gemm CUBLAS_OP_N CUBLAS_OP_T m n k2 1 (ptr_add A (k1 * lda)) lda
             (ptr_add B (k1 * ldb)) ldb 1 C ldc ?s1 b"
    proof (cases "b = fst C")
      case False
      then show ?thesis by (simp add: gemm_def)
    next
      case True
      have "gemm CUBLAS_OP_N CUBLAS_OP_T m n (k1 + k2) 1 A lda B ldb 1 C ldc s (fst C)
         = gemm CUBLAS_OP_N CUBLAS_OP_T m n k2 1 (ptr_add A (k1 * lda)) lda
             (ptr_add B (k1 * ldb)) ldb 1 C ldc ?s1 (fst C)"
        unfolding gemm_def[of _ _ m n "k1 + k2"] gemm_def[of _ _ m n k2]
        by (simp add: len dot nth gemm_dot_split add.assoc cong: map_cong)
      then show ?thesis using True by simp
    qed
  qed
qed

lemma du_single_gemm:
  assumes "fst du \<noteq> fst dwx" "fst du \<noteq> fst h"
  shows "gemm CUBLAS_OP_N CUBLAS_OP_T (hidden_size data * 2) (hidden_size data)
           (batch_size data * time_step) 1 dwx (hidden_size data * 2) h (hidden_size data)
           1 du (hidden_size data * 2) s
         = du_per_step data time_step dwx h du s"
proof (induction time_step)
  case 0
  show ?case by (simp add: du_per_step_def gemm_zero_cols)
next
  case (Suc T)
  have k: "batch_size data * Suc T = batch_size data * T + batch_size data"
    by simp
  have pa: "ptr_add dwx (batch_size data * T * (hidden_size data * 2))
            = ptr_add dwx (T * (batch_size data * hidden_size data) * 2)"
    and pb: "ptr_add h (batch_size data * T * hidden_size data)
            = ptr_add h (T * (batch_size data * hidden_size data))"
    by (simp_all add: ac_simps)
  show ?case
    unfolding k gemm_split[OF assms] Suc pa pb
    by (simp add: du_per_step_def)
qed

text \<open>
  C4: the recurrent-weight gradient that the backward engine computes after the reverse scan
  with one \<^verbatim>\<open>gemm\<close> over the flattened (time \<open>\<times>\<close> batch) axis, \<open>batch_size * time_step\<close>
  columns, is the sum over \<open>t = 0 \<dots> T - 1\<close> of the per-step products of \<open>dwx_t\<close> with the
  transpose of \<open>h_t\<close>, accumulated into \<open>du\<close> one step after the other, in exact arithmetic.
  This holds for the engine of ligru 1.0 and for the engine of ligru 2.0, which multiplies
  \<^verbatim>\<open>tmp_dwx\<close>.
\<close>

theorem du_reduction_equivalence:
  "bwd_1_0_Run ops data time_step (WX, 0) (U, 0) (Hs, 0) (V, 0) (GRAD_OUT, 0) (DWX, 0) (DU, 0)
     (DH, 0) s
   = du_per_step data time_step (DWX, 0) (Hs, 0) (DU, 0)
       (fold (bwd_1_0_Run_step ops data (U, 0) (Hs, 0) (V, 0) (GRAD_OUT, 0) (DWX, 0) (DH, 0))
          (rev [0..<time_step]) s)
   \<and> bwd_2_0_Run ops data layer_norm1 time_step (WX, 0) (U, 0) (Hs, 0) (V, 0) (GRAD_OUT, 0)
       (TMP_DWX, 0) (DWX, 0) (DU, 0) (DH, 0) s
   = du_per_step data time_step (TMP_DWX, 0) (Hs, 0) (DU, 0)
       (fold (bwd_2_0_Run_step ops data layer_norm1 (U, 0) (Hs, 0) (V, 0) (GRAD_OUT, 0)
                (TMP_DWX, 0) (DWX, 0) (DH, 0))
          (rev [0..<time_step]) s)"
  by (simp add: bwd_1_0_Run_def bwd_2_0_Run_def Let_def du_single_gemm)

section \<open>The forward gate kernel\<close>

lemma fwd_thread_guard:
  "nh \<le> row \<or> nb \<le> col \<Longrightarrow>
   fwd_PointwiseOperations sigm act tr nb nh wx uh h h_out v row col s = s"
  by (simp add: fwd_PointwiseOperations_def)

lemma fwd_thread_frame:
  "b \<noteq> fst v \<Longrightarrow> b \<noteq> fst h_out \<Longrightarrow>
   fwd_PointwiseOperations sigm act tr nb nh wx uh h h_out v row col s b = s b"
  by (simp add: fwd_PointwiseOperations_def Let_def wr_def)

lemma fwd_thread_h_out:
  assumes "row < nh" "col < nb"
    and "fst v \<noteq> fst h_out" "fst v \<noteq> fst h" "fst v \<noteq> fst wx" "fst v \<noteq> fst uh"
  shows "fwd_PointwiseOperations sigm act tr nb nh wx uh h h_out v row col s (fst h_out)
         = (s (fst h_out))[snd h_out + (col * nh + row) := gate_h sigm act nh wx uh h s col row]"
  using assms
  by (simp add: fwd_PointwiseOperations_def Let_def wr_def rd_def gate_h_def gate_z_def gate_a_def)

lemma fwd_flat:
  fixes s :: "'a::comm_ring_1 store"
  assumes dv: "fst v \<noteq> fst h_out" "fst v \<noteq> fst h" "fst v \<noteq> fst wx" "fst v \<noteq> fst uh"
    and dh: "fst wx \<noteq> fst h_out" "fst uh \<noteq> fst h_out"
    and sep: "fst h \<noteq> fst h_out \<or> snd h + nb * nh \<le> snd h_out"
    and len: "snd h_out + nb * nh \<le> length (s (fst h_out))"
    and n: "n \<le> nb * nh"
  shows "(\<forall>b. b \<noteq> fst v \<and> b \<noteq> fst h_out \<longrightarrow>
            fold (\<lambda>i. fwd_PointwiseOperations sigm act tr nb nh wx uh h h_out v (i mod nh) (i div nh)) [0..<n] s b = s b)
       \<and> length (fold (\<lambda>i. fwd_PointwiseOperations sigm act tr nb nh wx uh h h_out v (i mod nh) (i div nh)) [0..<n] s (fst h_out)) = length (s (fst h_out))
       \<and> (\<forall>k<length (s (fst h_out)). 
            fold (\<lambda>i. fwd_PointwiseOperations sigm act tr nb nh wx uh h h_out v (i mod nh) (i div nh)) [0..<n] s (fst h_out) ! k =
            (if snd h_out \<le> k \<and> k < snd h_out + n
             then gate_h sigm act nh wx uh h s ((k - snd h_out) div nh) ((k - snd h_out) mod nh)
             else s (fst h_out) ! k))"
  using n
proof (induction n)
  case 0
  show ?case by auto
next
  case (Suc n)
  let ?K = "\<lambda>i. fwd_PointwiseOperations sigm act tr nb nh wx uh h h_out v (i mod nh) (i div nh)"
  let ?t = "fold ?K [0..<n] s"
  from Suc have IH: "\<forall>b. b \<noteq> fst v \<and> b \<noteq> fst h_out \<longrightarrow> ?t b = s b"
    "length (?t (fst h_out)) = length (s (fst h_out))"
    "\<forall>k<length (s (fst h_out)). ?t (fst h_out) ! k =
            (if snd h_out \<le> k \<and> k < snd h_out + n
             then gate_h sigm act nh wx uh h s ((k - snd h_out) div nh) ((k - snd h_out) mod nh)
             else s (fst h_out) ! k)"
    by simp_all
  from Suc.prems have n: "n < nb * nh" by simp
  then have nh: "0 < nh" by (cases nh) simp_all
  have row: "n mod nh < nh" using nh by simp
  have col: "n div nh < nb" using n nh by (simp add: less_mult_imp_div_less)
  have idx: "n div nh * nh + n mod nh = n" by simp
  have step: "fold ?K [0..<Suc n] s = ?K n ?t" by simp
  have wx_eq: "?t (fst wx) = s (fst wx)" and uh_eq: "?t (fst uh) = s (fst uh)"
    using IH(1) dv dh by auto
  have h_eq: "rd ?t h n = rd s h n"
  proof (cases "fst h = fst h_out")
    case False
    then show ?thesis using IH(1) dv by (simp add: rd_def)
  next
    case True
    with sep have "snd h + nb * nh \<le> snd h_out" by simp
    with n len have "snd h + n < length (s (fst h_out))" "\<not> snd h_out \<le> snd h + n"
      by linarith+
    then show ?thesis using IH(3) True by (simp add: rd_def)
  qed
  have val: "gate_h sigm act nh wx uh h ?t (n div nh) (n mod nh)
             = gate_h sigm act nh wx uh h s (n div nh) (n mod nh)"
    using wx_eq uh_eq h_eq by (simp add: gate_h_def gate_z_def gate_a_def rd_def idx)
  have out: "?K n ?t (fst h_out)
             = (?t (fst h_out))[snd h_out + n := gate_h sigm act nh wx uh h s (n div nh) (n mod nh)]"
    by (simp add: fwd_thread_h_out[OF row col dv] idx val)
  have frame: "\<forall>b. b \<noteq> fst v \<and> b \<noteq> fst h_out \<longrightarrow> ?K n ?t b = s b"
    using IH(1) by (simp add: fwd_thread_frame)
  have "\<forall>k<length (s (fst h_out)). ?K n ?t (fst h_out) ! k =
            (if snd h_out \<le> k \<and> k < snd h_out + Suc n
             then gate_h sigm act nh wx uh h s ((k - snd h_out) div nh) ((k - snd h_out) mod nh)
             else s (fst h_out) ! k)"
  proof (intro allI impI)
    fix k assume k: "k < length (s (fst h_out))"
    show "?K n ?t (fst h_out) ! k =
            (if snd h_out \<le> k \<and> k < snd h_out + Suc n
             then gate_h sigm act nh wx uh h s ((k - snd h_out) div nh) ((k - snd h_out) mod nh)
             else s (fst h_out) ! k)"
    proof (cases "k = snd h_out + n")
      case True
      then show ?thesis using k IH(2) by (simp add: out)
    next
      case False
      then have "?K n ?t (fst h_out) ! k = ?t (fst h_out) ! k"
        by (simp add: out)
      also have "\<dots> = (if snd h_out \<le> k \<and> k < snd h_out + n
             then gate_h sigm act nh wx uh h s ((k - snd h_out) div nh) ((k - snd h_out) mod nh)
             else s (fst h_out) ! k)"
        using IH(3) k by simp
      finally show ?thesis using False by (simp add: less_Suc_eq)
    qed
  qed
  moreover have "length (?K n ?t (fst h_out)) = length (s (fst h_out))"
    using IH(2) by (simp add: out)
  ultimately show ?case
    unfolding step using frame by blast
qed

lemma thread_index_bound: "row < nh \<Longrightarrow> col < nb \<Longrightarrow> col * nh + row < nb * (nh::nat)"
proof -
  assume row: "row < nh" and col: "col < nb"
  from col have "Suc col * nh \<le> nb * nh"
    by (intro mult_le_mono1) simp
  moreover from row have "col * nh + row < Suc col * nh"
    by simp
  ultimately show ?thesis
    by linarith
qed

lemma fwd_thread_out_frame:
  assumes "fst v \<noteq> fst h_out"
  shows "length (fwd_PointwiseOperations sigm act tr nb nh wx uh h h_out v row col s (fst h_out))
           = length (s (fst h_out))
         \<and> (\<forall>k. k < snd h_out \<or> snd h_out + nb * nh \<le> k \<longrightarrow>
               fwd_PointwiseOperations sigm act tr nb nh wx uh h h_out v row col s (fst h_out) ! k
               = s (fst h_out) ! k)"
proof (cases "nh \<le> row \<or> nb \<le> col")
  case True
  then show ?thesis by (simp add: fwd_thread_guard)
next
  case False
  then have "col * nh + row < nb * nh"
    by (simp add: thread_index_bound)
  then show ?thesis
    using False assms by (auto simp add: fwd_PointwiseOperations_def Let_def wr_def)
qed

lemma fwd_launch_out_frame:
  assumes "fst v \<noteq> fst h_out"
  shows "length (launch grd blk (fwd_PointwiseOperations sigm act tr nb nh wx uh h h_out v) s
                   (fst h_out)) = length (s (fst h_out))
         \<and> (\<forall>k. k < snd h_out \<or> snd h_out + nb * nh \<le> k \<longrightarrow>
               launch grd blk (fwd_PointwiseOperations sigm act tr nb nh wx uh h h_out v) s
                 (fst h_out) ! k = s (fst h_out) ! k)"
  by (rule launch_invariant[where P = "\<lambda>t. length (t (fst h_out)) = length (s (fst h_out))
         \<and> (\<forall>k. k < snd h_out \<or> snd h_out + nb * nh \<le> k \<longrightarrow> t (fst h_out) ! k = s (fst h_out) ! k)"])
    (simp_all add: fwd_thread_out_frame[OF assms])

lemma fwd_launch_frame:
  assumes "b \<noteq> fst v" "b \<noteq> fst h_out"
  shows "launch grd blk (fwd_PointwiseOperations sigm act tr nb nh wx uh h h_out v) s b = s b"
  by (rule launch_invariant[where P = "\<lambda>t. t b = s b"]) (simp_all add: fwd_thread_frame assms)

lemma fwd_launch_flat:
  assumes "nh \<le> fst blk * fst grd" "nb \<le> snd blk * snd grd"
  shows "launch grd blk (fwd_PointwiseOperations sigm act tr nb nh wx uh h h_out v) s
   = fold (\<lambda>i. fwd_PointwiseOperations sigm act tr nb nh wx uh h h_out v (i mod nh) (i div nh))
       [0..<nb * nh] s"
proof -
  have "launch grd blk (fwd_PointwiseOperations sigm act tr nb nh wx uh h h_out v) s
        = fold (\<lambda>col. fold (\<lambda>row. fwd_PointwiseOperations sigm act tr nb nh wx uh h h_out v row col)
                  [0..<nh]) [0..<nb] s"
    by (rule launch_in_range) (simp_all add: fwd_thread_guard assms)
  then show ?thesis
    by (simp only: fold_rows_flat)
qed

lemma fwd_launch_value:
  fixes s :: "'a::comm_ring_1 store"
  assumes dv: "fst v \<noteq> fst h_out" "fst v \<noteq> fst h" "fst v \<noteq> fst wx" "fst v \<noteq> fst uh"
    and dh: "fst wx \<noteq> fst h_out" "fst uh \<noteq> fst h_out"
    and sep: "fst h \<noteq> fst h_out \<or> snd h + nb * nh \<le> snd h_out"
    and len: "snd h_out + nb * nh \<le> length (s (fst h_out))"
    and bj: "b < nb" "j < nh"
    and cover: "nh \<le> fst blk * fst grd" "nb \<le> snd blk * snd grd"
  shows "rd (launch grd blk (fwd_PointwiseOperations sigm act tr nb nh wx uh h h_out v) s)
           h_out (b * nh + j)
         = gate_h sigm act nh wx uh h s b j"
proof -
  have lt: "b * nh + j < nb * nh"
    using bj by (simp add: thread_index_bound)
  with len have k: "snd h_out + (b * nh + j) < length (s (fst h_out))"
    by linarith
  have dm: "(b * nh + j) div nh = b" "(b * nh + j) mod nh = j"
    using bj by simp_all
  have "\<forall>k<length (s (fst h_out)).
          fold (\<lambda>i. fwd_PointwiseOperations sigm act tr nb nh wx uh h h_out v (i mod nh) (i div nh))
            [0..<nb * nh] s (fst h_out) ! k =
          (if snd h_out \<le> k \<and> k < snd h_out + nb * nh
           then gate_h sigm act nh wx uh h s ((k - snd h_out) div nh) ((k - snd h_out) mod nh)
           else s (fst h_out) ! k)"
    using fwd_flat[where n = "nb * nh" and nb = nb and nh = nh and v = v and h_out = h_out
        and h = h and wx = wx and uh = uh and s = s and sigm = sigm and act = act and tr = tr]
      dv dh sep len by blast
  with k lt show ?thesis
    unfolding fwd_launch_flat[OF cover] rd_def by (simp add: dm bj)
qed

lemma grid_covers:
  fixes nh nb :: nat
  shows "nh \<le> fst (32, 16 :: nat) * fst ((nh + 32 - 1) div 32, (nb + 16 - 1) div 16)"
    and "nb \<le> snd (32 :: nat, 16) * snd ((nh + 32 - 1) div 32, (nb + 16 - 1) div 16)"
  using grid_cover[of 32 nh] grid_cover[of 16 nb] by simp_all

section \<open>What a matrix product writes\<close>

lemma gemm_nth:
  "idx < length (s (fst C)) \<Longrightarrow>
   gemm ta tb m n k alpha A lda B ldb beta C ldc s (fst C) ! idx =
     (if snd C \<le> idx \<and> (idx - snd C) mod ldc < m \<and> (idx - snd C) div ldc < n
      then alpha * gemm_dot ta tb k A lda B ldb s ((idx - snd C) mod ldc) ((idx - snd C) div ldc)
           + beta * (s (fst C) ! idx)
      else s (fst C) ! idx)"
  by (simp add: gemm_def)

lemma gemm_region:
  fixes C :: ptr
  assumes "snd C \<le> idx" "(idx - snd C) mod ld < ld" "(idx - snd C) div ld < n"
  shows "idx < snd C + n * ld"
proof -
  from assms(2) have "0 < ld"
    by (cases ld) simp_all
  then have "idx - snd C < ld + ld * ((idx - snd C) div ld)"
    by (rule dividend_less_times_div)
  also have "\<dots> = Suc ((idx - snd C) div ld) * ld"
    by (simp add: mult.commute)
  also have "\<dots> \<le> n * ld"
    using assms(3) by (intro mult_le_mono1) simp
  finally show ?thesis
    using assms(1) by linarith
qed

lemma nth_beyond:
  "length xs = length ys \<Longrightarrow> length xs \<le> k \<Longrightarrow> xs ! k = ys ! k"
proof (induction xs ys arbitrary: k rule: list_induct2)
  case Nil
  show ?case by simp
next
  case (Cons x xs y ys)
  then show ?case by (cases k) simp_all
qed

lemma gemm_frame:
  assumes "k < snd C \<or> snd C + n * ld \<le> k"
  shows "gemm ta tb ld n kk alpha A lda B ldb beta C ld s (fst C) ! k = s (fst C) ! k"
proof (cases "k < length (s (fst C))")
  case True
  show ?thesis
    using assms gemm_region[of C k ld n] True by (auto simp add: gemm_nth)
next
  case False
  have "length (gemm ta tb ld n kk alpha A lda B ldb beta C ld s (fst C)) = length (s (fst C))"
    by (simp add: gemm_def)
  then show ?thesis
    using False by (intro nth_beyond) simp_all
qed

section \<open>One step of the forward scan\<close>

lemma fwd_IterateInternal_cases:
  fixes s :: "'a::comm_ring_1 store"
  shows "fwd_IterateInternal ops data layer_norm1 u h h_out v tmp_wx tmp_uh tmp_uh_norm s
         = fwd_projected data layer_norm1 u h tmp_uh tmp_uh_norm s
       \<or> (\<exists>act. fwd_IterateInternal ops data layer_norm1 u h h_out v tmp_wx tmp_uh tmp_uh_norm s
            = launch ((hidden_size data + 32 - 1) div 32, (batch_size data + 16 - 1) div 16) (32, 16)
                (fwd_PointwiseOperations (sigmoid ops) act (training data) (batch_size data)
                   (hidden_size data) tmp_wx tmp_uh_norm h h_out v)
                (fwd_projected data layer_norm1 u h tmp_uh tmp_uh_norm s))"
  unfolding fwd_projected_def fwd_IterateInternal_def Let_def fwd_kernel_defs
  by (auto simp add: fst_conv snd_conv)

lemma fwd_IterateInternal_out_frame:
  fixes s :: "'a::comm_ring_1 store"
  assumes "fst v \<noteq> fst h_out" "fst tmp_uh \<noteq> fst h_out" "fst tmp_uh_norm \<noteq> fst h_out"
  shows "length (fwd_IterateInternal ops data layer_norm1 u h h_out v tmp_wx tmp_uh tmp_uh_norm s
                   (fst h_out)) = length (s (fst h_out))
         \<and> (\<forall>k. k < snd h_out \<or> snd h_out + batch_size data * hidden_size data \<le> k \<longrightarrow>
               fwd_IterateInternal ops data layer_norm1 u h h_out v tmp_wx tmp_uh tmp_uh_norm s
                 (fst h_out) ! k = s (fst h_out) ! k)"
proof -
  let ?s2 = "fwd_projected data layer_norm1 u h tmp_uh tmp_uh_norm s"
  have s2: "?s2 (fst h_out) = s (fst h_out)"
    using assms by (simp add: fwd_projected_def RunPartial_other gemm_other)
  from fwd_IterateInternal_cases[of ops data layer_norm1 u h h_out v tmp_wx tmp_uh tmp_uh_norm s]
  show ?thesis
  proof (elim disjE exE)
    assume "fwd_IterateInternal ops data layer_norm1 u h h_out v tmp_wx tmp_uh tmp_uh_norm s = ?s2"
    then show ?thesis by (simp add: s2)
  next
    fix act
    assume "fwd_IterateInternal ops data layer_norm1 u h h_out v tmp_wx tmp_uh tmp_uh_norm s
            = launch ((hidden_size data + 32 - 1) div 32, (batch_size data + 16 - 1) div 16) (32, 16)
                (fwd_PointwiseOperations (sigmoid ops) act (training data) (batch_size data)
                   (hidden_size data) tmp_wx tmp_uh_norm h h_out v) ?s2"
    then show ?thesis
      using fwd_launch_out_frame[OF assms(1), of _ _ "sigmoid ops" act "training data"
          "batch_size data" "hidden_size data" tmp_wx tmp_uh_norm h ?s2]
      by (simp add: s2)
  qed
qed

lemma fwd_IterateInternal_tmp_uh:
  fixes s :: "'a::comm_ring_1 store"
  assumes "fst tmp_uh \<noteq> fst v" "fst tmp_uh \<noteq> fst h_out" "fst tmp_uh \<noteq> fst tmp_uh_norm"
  shows "fwd_IterateInternal ops data layer_norm1 u h h_out v tmp_wx tmp_uh tmp_uh_norm s (fst tmp_uh)
         = gemm CUBLAS_OP_N CUBLAS_OP_N (hidden_size data * 2) (batch_size data)
             (hidden_size data) 1 u (hidden_size data * 2) h (hidden_size data)
             0 tmp_uh (hidden_size data * 2) s (fst tmp_uh)"
  using fwd_IterateInternal_cases[of ops data layer_norm1 u h h_out v tmp_wx tmp_uh tmp_uh_norm s]
    assms
  by (auto simp add: fwd_launch_frame fwd_projected_def RunPartial_other)

section \<open>The hidden-state buffer along the scan\<close>

lemma fwd_Run_Suc:
  "fwd_Run ops data layer_norm1 (Suc n) wx u h v tmp_uh_norm tmp_uh s
   = fwd_Run_step ops data layer_norm1 wx u h v tmp_uh_norm tmp_uh n
       (fwd_Run ops data layer_norm1 n wx u h v tmp_uh_norm tmp_uh s)"
  by (simp add: fwd_Run_def)

lemma fwd_Run_0: "fwd_Run ops data layer_norm1 0 wx u h v tmp_uh_norm tmp_uh s = s"
  by (simp add: fwd_Run_def)

lemma fwd_Run_step_Hs:
  fixes s :: "'a::comm_ring_1 store"
  shows "length (fwd_Run_step ops data layer_norm1 (WX, 0) (U, 0) (Hs, 0) (V, 0) (TMP_UH_NORM, 0)
                   (TMP_UH, 0) i s Hs) = length (s Hs)
         \<and> (\<forall>k. k < (i + 1) * (batch_size data * hidden_size data)
                  \<or> (i + 2) * (batch_size data * hidden_size data) \<le> k \<longrightarrow>
               fwd_Run_step ops data layer_norm1 (WX, 0) (U, 0) (Hs, 0) (V, 0) (TMP_UH_NORM, 0)
                 (TMP_UH, 0) i s Hs ! k = s Hs ! k)"
  using fwd_IterateInternal_out_frame[of "ptr_add (V, 0) (i * (batch_size data * hidden_size data) * 3)"
      "ptr_add (Hs, 0) ((i + 1) * (batch_size data * hidden_size data))"
      "ptr_add (TMP_UH, 0) (i * (batch_size data * hidden_size data) * 2)" "(TMP_UH_NORM, 0)"
      ops data layer_norm1 "(U, 0)" "ptr_add (Hs, 0) (i * (batch_size data * hidden_size data))"
      "ptr_add (WX, 0) (i * (batch_size data * hidden_size data) * 2)" s]
  by (simp add: fwd_Run_step_def Let_def ptr_add_def)

lemma fwd_Run_length:
  fixes s :: "'a::comm_ring_1 store"
  shows "length (fwd_Run ops data layer_norm1 n (WX, 0) (U, 0) (Hs, 0) (V, 0) (TMP_UH_NORM, 0)
                   (TMP_UH, 0) s Hs) = length (s Hs)"
  by (induction n) (simp_all add: fwd_Run_0 fwd_Run_Suc fwd_Run_step_Hs)

lemma fwd_Run_stable:
  fixes s :: "'a::comm_ring_1 store"
  assumes "n0 \<le> n" "k < (n0 + 1) * (batch_size data * hidden_size data)"
  shows "fwd_Run ops data layer_norm1 n (WX, 0) (U, 0) (Hs, 0) (V, 0) (TMP_UH_NORM, 0)
           (TMP_UH, 0) s Hs ! k
         = fwd_Run ops data layer_norm1 n0 (WX, 0) (U, 0) (Hs, 0) (V, 0) (TMP_UH_NORM, 0)
             (TMP_UH, 0) s Hs ! k"
  using assms(1)
proof (induction n rule: dec_induct)
  case base
  show ?case by simp
next
  case (step n)
  have "(n0 + 1) * (batch_size data * hidden_size data)
        \<le> (n + 1) * (batch_size data * hidden_size data)"
    using step.hyps(1) by (intro mult_le_mono1) simp
  with assms(2) have "k < (n + 1) * (batch_size data * hidden_size data)"
    by linarith
  then show ?case
    using step.IH by (simp add: fwd_Run_Suc fwd_Run_step_Hs)
qed

section \<open>The recurrent-projection scratch\<close>

lemma fwd_Run_step_tmp_uh:
  fixes s :: "'a::comm_ring_1 store"
  shows "fwd_Run_step ops data layer_norm1 (WX, 0) (U, 0) (Hs, 0) (V, 0) (TMP_UH_NORM, 0)
           (TMP_UH, 0) t s TMP_UH
         = gemm CUBLAS_OP_N CUBLAS_OP_N (hidden_size data * 2) (batch_size data)
             (hidden_size data) 1 (U, 0) (hidden_size data * 2)
             (Hs, t * (batch_size data * hidden_size data)) (hidden_size data)
             0 (TMP_UH, t * (batch_size data * hidden_size data) * 2) (hidden_size data * 2) s TMP_UH"
  using fwd_IterateInternal_tmp_uh[of "ptr_add (TMP_UH, 0) (t * (batch_size data * hidden_size data) * 2)"
      "ptr_add (V, 0) (t * (batch_size data * hidden_size data) * 3)"
      "ptr_add (Hs, 0) ((t + 1) * (batch_size data * hidden_size data))"
      "(TMP_UH_NORM, 0)" ops data layer_norm1 "(U, 0)"
      "ptr_add (Hs, 0) (t * (batch_size data * hidden_size data))"
      "ptr_add (WX, 0) (t * (batch_size data * hidden_size data) * 2)" s]
  by (simp add: fwd_Run_step_def Let_def ptr_add_def)

text \<open>
  C8, as amended: in the forward scan, step \<open>t\<close> writes its recurrent projection into the
  block of \<open>B * 2H\<close> cells of \<open>tmp_uh\<close> that starts at \<open>t * B * 2H\<close>, a block of its own, and
  leaves every other cell of \<open>tmp_uh\<close> as it was: cell \<open>(b, i)\<close> of that block receives
  the sum over \<open>l < H\<close> of \<open>u[l, i] * h_t[b, l]\<close>. The scratch therefore holds one \<open>[B, 2H]\<close>
  block per time step.
\<close>

theorem tmp_uh_per_step_region:
  fixes s :: "'a::comm_ring_1 store"
  shows "length (fwd_Run_step ops data layer_norm1 (WX, 0) (U, 0) (Hs, 0) (V, 0) (TMP_UH_NORM, 0)
                   (TMP_UH, 0) t s TMP_UH) = length (s TMP_UH)
       \<and> (\<forall>k. k < t * (batch_size data * hidden_size data) * 2
                \<or> (t + 1) * (batch_size data * hidden_size data) * 2 \<le> k \<longrightarrow>
            fwd_Run_step ops data layer_norm1 (WX, 0) (U, 0) (Hs, 0) (V, 0) (TMP_UH_NORM, 0)
              (TMP_UH, 0) t s TMP_UH ! k = s TMP_UH ! k)
       \<and> (\<forall>b<batch_size data. \<forall>i<hidden_size data * 2.
            t * (batch_size data * hidden_size data) * 2 + b * (hidden_size data * 2) + i
              < length (s TMP_UH) \<longrightarrow>
            fwd_Run_step ops data layer_norm1 (WX, 0) (U, 0) (Hs, 0) (V, 0) (TMP_UH_NORM, 0)
              (TMP_UH, 0) t s TMP_UH
              ! (t * (batch_size data * hidden_size data) * 2 + b * (hidden_size data * 2) + i)
            = (\<Sum>l\<leftarrow>[0..<hidden_size data].
                 s U ! (l * (hidden_size data * 2) + i)
                 * s Hs ! (t * (batch_size data * hidden_size data) + b * hidden_size data + l)))"
proof (intro conjI allI impI)
  show "length (fwd_Run_step ops data layer_norm1 (WX, 0) (U, 0) (Hs, 0) (V, 0) (TMP_UH_NORM, 0)
                   (TMP_UH, 0) t s TMP_UH) = length (s TMP_UH)"
    by (simp add: fwd_Run_step_tmp_uh gemm_length)
next
  fix k
  assume "k < t * (batch_size data * hidden_size data) * 2
          \<or> (t + 1) * (batch_size data * hidden_size data) * 2 \<le> k"
  then have "k < snd (TMP_UH, t * (batch_size data * hidden_size data) * 2)
             \<or> snd (TMP_UH, t * (batch_size data * hidden_size data) * 2)
                + batch_size data * (hidden_size data * 2) \<le> k"
    by (simp add: algebra_simps)
  from gemm_frame[OF this]
  show "fwd_Run_step ops data layer_norm1 (WX, 0) (U, 0) (Hs, 0) (V, 0) (TMP_UH_NORM, 0)
              (TMP_UH, 0) t s TMP_UH ! k = s TMP_UH ! k"
    by (simp add: fwd_Run_step_tmp_uh)
next
  fix b i
  assume b: "b < batch_size data" and i: "i < hidden_size data * 2"
    and len: "t * (batch_size data * hidden_size data) * 2 + b * (hidden_size data * 2) + i
              < length (s TMP_UH)"
  have dm: "(b * (hidden_size data * 2) + i) mod (hidden_size data * 2) = i"
    "(b * (hidden_size data * 2) + i) div (hidden_size data * 2) = b"
    using i by simp_all
  have off: "t * (batch_size data * hidden_size data) * 2 + b * (hidden_size data * 2) + i
             - t * (batch_size data * hidden_size data) * 2 = b * (hidden_size data * 2) + i"
    by simp
  show "fwd_Run_step ops data layer_norm1 (WX, 0) (U, 0) (Hs, 0) (V, 0) (TMP_UH_NORM, 0)
              (TMP_UH, 0) t s TMP_UH
              ! (t * (batch_size data * hidden_size data) * 2 + b * (hidden_size data * 2) + i)
            = (\<Sum>l\<leftarrow>[0..<hidden_size data].
                 s U ! (l * (hidden_size data * 2) + i)
                 * s Hs ! (t * (batch_size data * hidden_size data) + b * hidden_size data + l))"
    using len b i
      gemm_nth[of "t * (batch_size data * hidden_size data) * 2 + b * (hidden_size data * 2) + i"
        s "(TMP_UH, t * (batch_size data * hidden_size data) * 2)" CUBLAS_OP_N CUBLAS_OP_N
        "hidden_size data * 2" "batch_size data" "hidden_size data" 1 "(U, 0)"
        "hidden_size data * 2" "(Hs, t * (batch_size data * hidden_size data))" "hidden_size data"
        0 "hidden_size data * 2"]
    by (simp add: fwd_Run_step_tmp_uh off dm gemm_dot_def rd_def add.assoc)
qed

theorem tmp_uh_per_step_region_witness:
  "fwd_Run_step (real_ops 0)
     \<lparr> batch_size = 1, input_size = 0, hidden_size = 1, activation = 3, training = False \<rparr>
     layer_norm_off (WX, 0) (U, 0) (Hs, 0) (V, 0) (TMP_UH_NORM, 0) (TMP_UH, 0) 1
     ((\<lambda>b. [])(WX := [0, 0, 0, 0], U := [1, 1], Hs := [2, 3, 0], TMP_UH := [5, 5, 5, 5],
                  TMP_UH_NORM := [0, 0])) TMP_UH ! 0 = 5
  \<and> fwd_Run_step (real_ops 0)
     \<lparr> batch_size = 1, input_size = 0, hidden_size = 1, activation = 3, training = False \<rparr>
     layer_norm_off (WX, 0) (U, 0) (Hs, 0) (V, 0) (TMP_UH_NORM, 0) (TMP_UH, 0) 1
     ((\<lambda>b. [])(WX := [0, 0, 0, 0], U := [1, 1], Hs := [2, 3, 0], TMP_UH := [5, 5, 5, 5],
                  TMP_UH_NORM := [0, 0])) TMP_UH ! 3 = 3"
  using tmp_uh_per_step_region[of "real_ops 0"
      "\<lparr> batch_size = 1, input_size = 0, hidden_size = 1, activation = 3, training = False \<rparr>"
      layer_norm_off 1
      "(\<lambda>b. [])(WX := [0, 0, 0, 0], U := [1, 1], Hs := [2, 3, 0], TMP_UH := [5, 5, 5, 5],
                  TMP_UH_NORM := [0, 0])", THEN conjunct2, THEN conjunct1, rule_format, of 0]
    tmp_uh_per_step_region[of "real_ops 0"
      "\<lparr> batch_size = 1, input_size = 0, hidden_size = 1, activation = 3, training = False \<rparr>"
      layer_norm_off 1
      "(\<lambda>b. [])(WX := [0, 0, 0, 0], U := [1, 1], Hs := [2, 3, 0], TMP_UH := [5, 5, 5, 5],
                  TMP_UH_NORM := [0, 0])", THEN conjunct2, THEN conjunct2, rule_format, of 0 1]
  by (simp add: upt_rec)

text \<open>
  C8 as stated, that every step reads and writes only the same \<open>[B, 2H]\<close> region, fails: with
  \<open>B = H = 1\<close>, step 1 leaves the cells 0 and 1 of \<open>tmp_uh\<close> alone and writes its projection
  \<open>u * h_1 = 3\<close> into the cells 2 and 3.
\<close>

theorem tmp_uh_reuse_counterexample:
  "fwd_Run_step (real_ops 0)
     \<lparr> batch_size = 1, input_size = 0, hidden_size = 1, activation = 3, training = False \<rparr>
     layer_norm_off (WX, 0) (U, 0) (Hs, 0) (V, 0) (TMP_UH_NORM, 0) (TMP_UH, 0) 1
     ((\<lambda>b. [])(WX := [0, 0, 0, 0], U := [1, 1], Hs := [2, 3, 0], TMP_UH := [5, 5, 5, 5],
                  TMP_UH_NORM := [0, 0])) TMP_UH
   = [5, 5, 3, 3]"
  by (simp add: fwd_Run_step_tmp_uh gemm_def gemm_dot_def rd_def upt_rec)

section \<open>What the forward kernels write\<close>

lemma list2_eq: "length xs = 2 \<Longrightarrow> xs ! 0 = x \<Longrightarrow> xs ! 1 = y \<Longrightarrow> xs = [x, y]"
  by (cases xs; cases "tl xs") auto

lemma fwd_launch_value_cell:
  fixes s :: "'a::comm_ring_1 store"
  assumes "b < nb" "j < nh" "(i + 2) * (nb * nh) \<le> length (s Hs)"
  shows "rd (launch ((nh + 32 - 1) div 32, (nb + 16 - 1) div 16) (32, 16)
            (fwd_PointwiseOperations sigm act tr nb nh (WX, i * (nb * nh) * 2) (TMP_UH_NORM, 0)
               (Hs, i * (nb * nh)) (Hs, (i + 1) * (nb * nh)) (V, i * (nb * nh) * 3)) s)
           (Hs, (i + 1) * (nb * nh)) (b * nh + j)
         = gate_h sigm act nh (WX, i * (nb * nh) * 2) (TMP_UH_NORM, 0) (Hs, i * (nb * nh)) s b j"
  by (rule fwd_launch_value) (use assms grid_covers in simp_all)

lemma fwd_Run_step_launches:
  fixes s :: "'a::comm_ring_1 store"
  assumes "act_id = 0 \<and> act = relu ops \<or> act_id = 1 \<and> act = leaky_relu ops
           \<or> act_id = 2 \<and> train \<and> act = sin_op ops \<or> act_id = 3 \<and> act = tanh_op ops"
    and "activation data = act_id" "training data = train"
  shows "fwd_Run_step ops data layer_norm1 (WX, 0) (U, 0) (Hs, 0) (V, 0) (TMP_UH_NORM, 0)
           (TMP_UH, 0) i s
         = launch ((hidden_size data + 32 - 1) div 32, (batch_size data + 16 - 1) div 16) (32, 16)
             (fwd_PointwiseOperations (sigmoid ops) act train (batch_size data) (hidden_size data)
                (WX, i * (batch_size data * hidden_size data) * 2) (TMP_UH_NORM, 0)
                (Hs, i * (batch_size data * hidden_size data))
                (Hs, (i + 1) * (batch_size data * hidden_size data))
                (V, i * (batch_size data * hidden_size data) * 3))
             (fwd_projected data layer_norm1 (U, 0) (Hs, i * (batch_size data * hidden_size data))
                (TMP_UH, i * (batch_size data * hidden_size data) * 2) (TMP_UH_NORM, 0) s)"
  using assms
  by (auto simp add: fwd_Run_step_def fwd_IterateInternal_def fwd_projected_def Let_def
      fwd_kernel_defs ptr_add_def)

lemma fwd_Run_step_no_launch:
  fixes s :: "'a::comm_ring_1 store"
  assumes "activation data = 2" "\<not> training data"
  shows "fwd_Run_step ops data layer_norm1 (WX, 0) (U, 0) (Hs, 0) (V, 0) (TMP_UH_NORM, 0)
           (TMP_UH, 0) i s
         = fwd_projected data layer_norm1 (U, 0) (Hs, i * (batch_size data * hidden_size data))
                (TMP_UH, i * (batch_size data * hidden_size data) * 2) (TMP_UH_NORM, 0) s"
  using assms
  by (simp add: fwd_Run_step_def fwd_IterateInternal_def fwd_projected_def Let_def ptr_add_def)

lemma fwd_projected_Hs:
  "fwd_projected data layer_norm1 (U, 0) (Hs, n) (TMP_UH, m) (TMP_UH_NORM, 0) s Hs = s Hs"
  by (simp add: fwd_projected_def RunPartial_def gemm_def)

lemma scenario_projected:
  fixes s :: "real store" and act_id :: int and tr :: bool
  assumes "s WX = [0, 0]" "s U = [0, 0]" "s Hs = [2, x]"
    and "length (s TMP_UH) = 2" "length (s TMP_UH_NORM) = 2"
  defines "s2 \<equiv> fwd_projected
             \<lparr> batch_size = 1, input_size = 0, hidden_size = 1, activation = act_id, training = tr \<rparr>
             layer_norm_off (U, 0) (Hs, 0) (TMP_UH, 0) (TMP_UH_NORM, 0) s"
  shows "s2 WX = [0, 0]" "s2 TMP_UH_NORM = [0, 0]" "s2 Hs = [2, x]"
  using assms(1-5)
  by (simp_all add: s2_def fwd_projected_def RunPartial_def gemm_def gemm_dot_def
      layer_norm_off_def rd_def upt_rec)

lemma scenario_step:
  fixes s :: "real store"
  assumes st: "s WX = [0, 0]" "s U = [0, 0]" "s Hs = [2, x]"
      "length (s TMP_UH) = 2" "length (s TMP_UH_NORM) = 2"
    and sel: "act_id = 2 \<and> tr \<and> act = sin_op (real_ops alpha)
              \<or> act_id = 3 \<and> act = tanh_op (real_ops alpha)"
  shows "fwd_Run (real_ops alpha)
           \<lparr> batch_size = 1, input_size = 0, hidden_size = 1, activation = act_id, training = tr \<rparr>
           layer_norm_off 1 (WX, 0) (U, 0) (Hs, 0) (V, 0) (TMP_UH_NORM, 0) (TMP_UH, 0) s Hs
         = [2, 1]"
proof -
  define data where "data = \<lparr> batch_size = 1, input_size = 0, hidden_size = 1,
                               activation = act_id, training = tr \<rparr>"
  define s2 where "s2 = fwd_projected data layer_norm_off (U, 0) (Hs, 0) (TMP_UH, 0) (TMP_UH_NORM, 0) s"
  define out where "out = fwd_Run_step (real_ops alpha) data layer_norm_off (WX, 0) (U, 0) (Hs, 0)
                            (V, 0) (TMP_UH_NORM, 0) (TMP_UH, 0) 0 s"
  have d [simp]: "batch_size data = 1" "hidden_size data = 1" "activation data = act_id"
    "training data = tr"
    by (simp_all add: data_def)
  have s2: "s2 WX = [0, 0]" "s2 TMP_UH_NORM = [0, 0]" "s2 Hs = [2, x]"
    unfolding s2_def data_def by (rule scenario_projected[OF st])+
  have act0: "act 0 = 0" and sig0: "sigmoid (real_ops alpha) 0 = 1 / 2"
    using sel by (auto simp add: real_ops_def)
  have run: "fwd_Run (real_ops alpha) data layer_norm_off 1 (WX, 0) (U, 0) (Hs, 0) (V, 0)
               (TMP_UH_NORM, 0) (TMP_UH, 0) s = out"
    by (simp add: fwd_Run_def out_def)
  have launched: "out = launch ((1 + 32 - 1) div 32, (1 + 16 - 1) div 16) (32, 16)
             (fwd_PointwiseOperations (sigmoid (real_ops alpha)) act tr 1 1
                (WX, 0 * (1 * 1) * 2) (TMP_UH_NORM, 0) (Hs, 0 * (1 * 1)) (Hs, (0 + 1) * (1 * 1))
                (V, 0 * (1 * 1) * 3)) s2"
    unfolding out_def s2_def
    using fwd_Run_step_launches[of act_id act "real_ops alpha" tr data layer_norm_off 0 s] sel
    by simp
  have "rd out (Hs, (0 + 1) * (1 * 1)) (0 * 1 + 0)
        = gate_h (sigmoid (real_ops alpha)) act 1 (WX, 0 * (1 * 1) * 2) (TMP_UH_NORM, 0)
            (Hs, 0 * (1 * 1)) s2 0 0"
    unfolding launched by (rule fwd_launch_value_cell) (simp_all add: s2)
  then have cell1: "out Hs ! 1 = 1"
    by (simp add: rd_def gate_h_def gate_z_def gate_a_def s2 act0 sig0)
  have "length (out Hs) = length (s Hs) \<and> out Hs ! 0 = s Hs ! 0"
    unfolding out_def
    using fwd_Run_step_Hs[of "real_ops alpha" data layer_norm_off 0 s] by simp
  then have "length (out Hs) = 2" "out Hs ! 0 = 2"
    using st(3) by simp_all
  with cell1 have "out Hs = [2, 1]"
    by (intro list2_eq) simp_all
  then show ?thesis
    unfolding data_def[symmetric] run .
qed

lemma alloc_row:
  assumes "length xs = 2"
  shows "drop (Suc 0) xs = [xs ! Suc 0]"
proof -
  have "xs = [xs ! 0, xs ! 1]"
    using assms by (intro list2_eq) simp_all
  then have "drop 1 xs = [xs ! 1]"
    by (metis One_nat_def drop0 drop_Suc_Cons)
  then show ?thesis
    by simp
qed

lemma fwd_Run_no_launch_Hs:
  fixes s :: "'a::comm_ring_1 store"
  assumes "activation data = 2" "\<not> training data"
  shows "fwd_Run ops data layer_norm1 seq_length (WX, 0) (U, 0) (Hs, 0) (V, 0) (TMP_UH_NORM, 0)
           (TMP_UH, 0) s Hs = s Hs"
  unfolding fwd_Run_def
  by (rule fold_invariant[where P = "\<lambda>t. t Hs = s Hs"])
    (simp_all add: fwd_Run_step_no_launch[OF assms] fwd_projected_Hs)

text \<open>
  C1: for every forward time step \<open>i\<close>, batch index \<open>b < B\<close> and hidden index \<open>j < H\<close>, each of
  the four forward gate kernels, launched as \<^verbatim>\<open>IterateInternal\<close> launches it on the pointers
  that \<^verbatim>\<open>Run\<close> passes for step \<open>i\<close>, leaves \<open>z * h_prev[b, j] + (1 - z) * f(a)\<close> in
  \<open>h_out[b, j]\<close>, where \<open>z = sigmoid(wx_z + uh_z)\<close> is taken from slot 1 and \<open>a = wx_a + uh_a\<close>
  from slot 0 of the step's input projection and of the recurrent projection the kernel is
  given, and \<open>f\<close> is the activation of the kernel (relu, leaky relu, sin, tanh), with and
  without \<^verbatim>\<open>Training\<close>. In particular, for \<open>T = 1\<close>, \<open>B = 1\<close>, \<open>H = 1\<close>, activation tanh,
  \<open>wx = [0, 0]\<close>, \<open>u = [[0, 0]]\<close> and \<open>h_init = [2]\<close> copied into row 0 of the output
  allocation, the forward scan (over the reals, normalization not enabled) leaves the
  hidden-state sequence \<open>[2, 1]\<close>: \<open>h_1 = 1\<close>.
\<close>

theorem forward_gate_kernel:
  fixes s :: "'a::comm_ring_1 store" and alloc :: "real store"
  assumes "b < nb" "j < nh" "(i + 2) * (nb * nh) \<le> length (s Hs)"
    and "length (alloc Hs) = 2" "length (alloc TMP_UH) = 2" "length (alloc TMP_UH_NORM) = 2"
  shows "let wx = (WX, i * (nb * nh) * 2); uh = (TMP_UH_NORM, 0);
             h = (Hs, i * (nb * nh)); h_out = (Hs, (i + 1) * (nb * nh)); v = (V, i * (nb * nh) * 3);
             blockDim = (32, 16);
             gridDim = ((nh + fst blockDim - 1) div fst blockDim,
                        (nb + snd blockDim - 1) div snd blockDim);
             z = sigmoid ops (rd s wx (b * (nh * 2) + j + 1 * nh) + rd s uh (b * (nh * 2) + j + 1 * nh));
             a = rd s wx (b * (nh * 2) + j + 0 * nh) + rd s uh (b * (nh * 2) + j + 0 * nh);
             h_prev = rd s h (b * nh + j)
         in rd (launch gridDim blockDim
                  (fwd_PointwiseOperationsReLU ops tr nb nh wx uh h h_out v) s) h_out (b * nh + j)
              = z * h_prev + (1 - z) * relu ops a
          \<and> rd (launch gridDim blockDim
                  (fwd_PointwiseOperationsLeakyReLU ops tr nb nh wx uh h h_out v) s) h_out (b * nh + j)
              = z * h_prev + (1 - z) * leaky_relu ops a
          \<and> rd (launch gridDim blockDim
                  (fwd_PointwiseOperationsSin ops tr nb nh wx uh h h_out v) s) h_out (b * nh + j)
              = z * h_prev + (1 - z) * sin_op ops a
          \<and> rd (launch gridDim blockDim
                  (fwd_PointwiseOperationsTanh ops tr nb nh wx uh h h_out v) s) h_out (b * nh + j)
              = z * h_prev + (1 - z) * tanh_op ops a
          \<and> fwd_Run (real_ops alpha)
              \<lparr> batch_size = 1, input_size = 0, hidden_size = 1, activation = 3, training = tr \<rparr>
              layer_norm_off 1 (WX, 0) (U, 0) (Hs, 0) (V, 0) (TMP_UH_NORM, 0) (TMP_UH, 0)
              (alloc(WX := [0, 0], U := [0, 0], Hs := [2] @ drop 1 (alloc Hs))) Hs
              = [2, 1]"
proof -
  have cell: "rd (launch ((nh + 32 - 1) div 32, (nb + 16 - 1) div 16) (32, 16)
            (fwd_PointwiseOperations (sigmoid ops) act tr nb nh (WX, i * (nb * nh) * 2)
               (TMP_UH_NORM, 0) (Hs, i * (nb * nh)) (Hs, (i + 1) * (nb * nh))
               (V, i * (nb * nh) * 3)) s)
           (Hs, (i + 1) * (nb * nh)) (b * nh + j)
         = gate_h (sigmoid ops) act nh (WX, i * (nb * nh) * 2) (TMP_UH_NORM, 0)
             (Hs, i * (nb * nh)) s b j" for act
    by (rule fwd_launch_value_cell) (rule assms)+
  have "fwd_Run (real_ops alpha)
          \<lparr> batch_size = 1, input_size = 0, hidden_size = 1, activation = 3, training = tr \<rparr>
          layer_norm_off 1 (WX, 0) (U, 0) (Hs, 0) (V, 0) (TMP_UH_NORM, 0) (TMP_UH, 0)
          (alloc(WX := [0, 0], U := [0, 0], Hs := [2] @ drop 1 (alloc Hs))) Hs
        = [2, 1]"
    by (rule scenario_step[where x = "alloc Hs ! 1"]) (simp_all add: assms(4-6) alloc_row)
  then show ?thesis
    unfolding Let_def fwd_kernel_defs fst_conv snd_conv cell
    by (simp add: gate_h_def gate_z_def gate_a_def)
qed

theorem forward_gate_kernel_witness:
  "rd (launch (1, 1) (32, 16)
         (fwd_PointwiseOperationsTanh (real_ops 0) True 1 1 (WX, 0) (TMP_UH_NORM, 0) (Hs, 0) (Hs, 1)
            (V, 0))
         ((\<lambda>b. [])(WX := [0, 0], TMP_UH_NORM := [0, 0], Hs := [2, 7], V := [0, 0, 0])))
      (Hs, 1) 0 = 1
   \<and> fwd_Run (real_ops 0)
       \<lparr> batch_size = 1, input_size = 0, hidden_size = 1, activation = 3, training = True \<rparr>
       layer_norm_off 1 (WX, 0) (U, 0) (Hs, 0) (V, 0) (TMP_UH_NORM, 0) (TMP_UH, 0)
       (((\<lambda>b. [])(Hs := [7, 7], TMP_UH := [0, 0], TMP_UH_NORM := [0, 0]))
          (WX := [0, 0], U := [0, 0], Hs := [2, 7])) Hs = [2, 1]"
  using forward_gate_kernel[where b = 0 and nb = 1 and j = 0 and nh = 1 and i = 0
      and s = "(\<lambda>b. [])(WX := [0, 0], TMP_UH_NORM := [0, 0], Hs := [2, 7], V := [0, 0, 0])"
      and alloc = "(\<lambda>b. [])(Hs := [7, 7], TMP_UH := [0, 0], TMP_UH_NORM := [0, 0])"
      and ops = "real_ops 0" and tr = True and alpha = 0]
  by (simp add: Let_def rd_def real_ops_def)

text \<open>
  C5, where the code departs from the claim: with \<^verbatim>\<open>training = false\<close> and
  \<^verbatim>\<open>activation = 2\<close> (sin) no step of the forward scan launches a kernel, so the scan
  returns the hidden-state buffer as it was given. For \<open>T = B = H = 1\<close>, \<open>wx = [0, 0]\<close>,
  \<open>u = [[0, 0]]\<close>, \<open>h_init = [2]\<close> in row 0 of an output allocation that holds 7, the scan
  leaves \<open>[2, 7]\<close> without training, and \<open>[2, 1]\<close> with training, where the sin kernel runs.
\<close>

theorem eval_sin_writes_no_hidden_state:
  "fwd_Run ops (data\<lparr>activation := 2, training := False\<rparr>) layer_norm1 seq_length
     (WX, 0) (U, 0) (Hs, 0) (V, 0) (TMP_UH_NORM, 0) (TMP_UH, 0) s Hs = s Hs
   \<and> fwd_Run (real_ops 0)
       \<lparr> batch_size = 1, input_size = 0, hidden_size = 1, activation = 2, training = False \<rparr>
       layer_norm_off 1 (WX, 0) (U, 0) (Hs, 0) (V, 0) (TMP_UH_NORM, 0) (TMP_UH, 0)
       ((\<lambda>b. [])(WX := [0, 0], U := [0, 0], Hs := [2, 7], TMP_UH := [0, 0],
                  TMP_UH_NORM := [0, 0])) Hs = [2, 7]
   \<and> fwd_Run (real_ops 0)
       \<lparr> batch_size = 1, input_size = 0, hidden_size = 1, activation = 2, training = True \<rparr>
       layer_norm_off 1 (WX, 0) (U, 0) (Hs, 0) (V, 0) (TMP_UH_NORM, 0) (TMP_UH, 0)
       ((\<lambda>b. [])(WX := [0, 0], U := [0, 0], Hs := [2, 7], TMP_UH := [0, 0],
                  TMP_UH_NORM := [0, 0])) Hs = [2, 1]"
proof (intro conjI)
  show "fwd_Run ops (data\<lparr>activation := 2, training := False\<rparr>) layer_norm1 seq_length
     (WX, 0) (U, 0) (Hs, 0) (V, 0) (TMP_UH_NORM, 0) (TMP_UH, 0) s Hs = s Hs"
    by (rule fwd_Run_no_launch_Hs) simp_all
  show "fwd_Run (real_ops 0)
       \<lparr> batch_size = 1, input_size = 0, hidden_size = 1, activation = 2, training = False \<rparr>
       layer_norm_off 1 (WX, 0) (U, 0) (Hs, 0) (V, 0) (TMP_UH_NORM, 0) (TMP_UH, 0)
       ((\<lambda>b. [])(WX := [0, 0], U := [0, 0], Hs := [2, 7], TMP_UH := [0, 0],
                  TMP_UH_NORM := [0, 0])) Hs = [2, 7]"
    by (simp add: fwd_Run_no_launch_Hs)
  show "fwd_Run (real_ops 0)
       \<lparr> batch_size = 1, input_size = 0, hidden_size = 1, activation = 2, training = True \<rparr>
       layer_norm_off 1 (WX, 0) (U, 0) (Hs, 0) (V, 0) (TMP_UH_NORM, 0) (TMP_UH, 0)
       ((\<lambda>b. [])(WX := [0, 0], U := [0, 0], Hs := [2, 7], TMP_UH := [0, 0],
                  TMP_UH_NORM := [0, 0])) Hs = [2, 1]"
    by (rule scenario_step[where x = 7]) simp_all
qed

section \<open>The hidden-state sequence of a forward call\<close>

lemma fwd_1_0_Run_step_cases:
  fixes s :: "'a::comm_ring_1 store"
  assumes "batch_size data = nb" "hidden_size data = nh"
  shows "fwd_1_0_Run_step ops data (WX, 0) (U, 0) (Hs, 0) (V, 0) (TMP_UH, 0) i s =
           (if 0 \<le> activation data \<and> activation data \<le> 3 then
              launch ((nh + 32 - 1) div 32, (nb + 16 - 1) div 16) (32, 16)
                (fwd_PointwiseOperations (sigmoid ops) (activation_fn ops (activation data))
                   (training data) nb nh
                   (WX, i * (nb * nh) * 2) (TMP_UH, 0) (Hs, i * (nb * nh)) (Hs, (i + 1) * (nb * nh))
                   (V, i * (nb * nh) * 3))
                (gemm CUBLAS_OP_N CUBLAS_OP_N (nh * 2) nb nh 1 (U, 0) (nh * 2) (Hs, i * (nb * nh)) nh
                   0 (TMP_UH, 0) (nh * 2) s)
            else gemm CUBLAS_OP_N CUBLAS_OP_N (nh * 2) nb nh 1 (U, 0) (nh * 2) (Hs, i * (nb * nh)) nh
                   0 (TMP_UH, 0) (nh * 2) s)"
  using assms
  by (simp add: fwd_1_0_Run_step_def fwd_1_0_IterateInternal_def Let_def ptr_add_def)

lemma fwd_1_0_Run_step_frame:
  fixes s :: "'a::comm_ring_1 store"
  assumes "b \<noteq> Hs" "b \<noteq> V" "b \<noteq> TMP_UH"
  shows "fwd_1_0_Run_step ops data (WX, 0) (U, 0) (Hs, 0) (V, 0) (TMP_UH, 0) i s b = s b"
  using assms by (simp add: fwd_1_0_Run_step_cases[OF refl refl] fwd_launch_frame gemm_other)

lemma fwd_1_0_Run_step_tmp_uh_length:
  fixes s :: "'a::comm_ring_1 store"
  shows "length (fwd_1_0_Run_step ops data (WX, 0) (U, 0) (Hs, 0) (V, 0) (TMP_UH, 0) i s TMP_UH)
         = length (s TMP_UH)"
  by (simp add: fwd_1_0_Run_step_cases[OF refl refl] fwd_launch_frame gemm_length)

lemma fwd_1_0_Run_step_Hs:
  fixes s :: "'a::comm_ring_1 store"
  assumes "batch_size data = nb" "hidden_size data = nh"
  shows "length (fwd_1_0_Run_step ops data (WX, 0) (U, 0) (Hs, 0) (V, 0) (TMP_UH, 0) i s Hs)
           = length (s Hs)
         \<and> (\<forall>k. k < (i + 1) * (nb * nh) \<or> (i + 2) * (nb * nh) \<le> k \<longrightarrow>
               fwd_1_0_Run_step ops data (WX, 0) (U, 0) (Hs, 0) (V, 0) (TMP_UH, 0) i s Hs ! k
               = s Hs ! k)"
  using fwd_launch_out_frame[of "(V, i * (nb * nh) * 3)" "(Hs, (i + 1) * (nb * nh))"
      "((nh + 32 - 1) div 32, (nb + 16 - 1) div 16)" "(32, 16)"
      "sigmoid ops" "activation_fn ops (activation data)" "training data"
      nb nh "(WX, i * (nb * nh) * 2)" "(TMP_UH, 0)" "(Hs, i * (nb * nh))"
      "gemm CUBLAS_OP_N CUBLAS_OP_N (nh * 2) nb nh 1 (U, 0) (nh * 2) (Hs, i * (nb * nh)) nh
                   0 (TMP_UH, 0) (nh * 2) s"]
  by (simp add: fwd_1_0_Run_step_cases[OF assms] gemm_other)

lemma gemm_projection_cell:
  fixes s :: "'a::comm_ring_1 store"
  assumes "b < nb" "c < nh * 2" "nb * (nh * 2) \<le> length (s TMP_UH)"
  shows "gemm CUBLAS_OP_N CUBLAS_OP_N (nh * 2) nb nh 1 (U, 0) (nh * 2) (Hs, off) nh
           0 (TMP_UH, 0) (nh * 2) s TMP_UH ! (b * (nh * 2) + c)
         = (\<Sum>l\<leftarrow>[0..<nh]. s U ! (l * (nh * 2) + c) * s Hs ! (off + b * nh + l))"
proof -
  have "b * (nh * 2) + c < nb * (nh * 2)"
    using assms(1,2) by (rule thread_index_bound[rotated])
  with assms(3) have len: "b * (nh * 2) + c < length (s TMP_UH)"
    by linarith
  have dm: "(b * (nh * 2) + c) mod (nh * 2) = c" "(b * (nh * 2) + c) div (nh * 2) = b"
    using assms(2) by simp_all
  show ?thesis
    using len assms(1,2)
      gemm_nth[of "b * (nh * 2) + c" s "(TMP_UH, 0)" CUBLAS_OP_N CUBLAS_OP_N
        "nh * 2" nb nh 1 "(U, 0)" "nh * 2" "(Hs, off)" nh 0 "nh * 2"]
    by (simp add: dm gemm_dot_def rd_def add.assoc)
qed

lemma fwd_1_0_Run_step_value:
  fixes s :: "'a::comm_ring_1 store"
  assumes d: "batch_size data = nb" "hidden_size data = nh"
    and act: "0 \<le> activation data" "activation data \<le> 3"
    and bj: "b < nb" "j < nh"
    and len: "(i + 2) * (nb * nh) \<le> length (s Hs)" "nb * (nh * 2) \<le> length (s TMP_UH)"
  shows "fwd_1_0_Run_step ops data (WX, 0) (U, 0) (Hs, 0) (V, 0) (TMP_UH, 0) i s Hs
           ! ((i + 1) * (nb * nh) + b * nh + j)
         = (let z = sigmoid ops
                      (s WX ! (i * (nb * nh) * 2 + b * (nh * 2) + j + nh)
                       + (\<Sum>l\<leftarrow>[0..<nh]. s U ! (l * (nh * 2) + (j + nh))
                                           * s Hs ! (i * (nb * nh) + b * nh + l)));
                a = s WX ! (i * (nb * nh) * 2 + b * (nh * 2) + j)
                    + (\<Sum>l\<leftarrow>[0..<nh]. s U ! (l * (nh * 2) + j)
                                       * s Hs ! (i * (nb * nh) + b * nh + l))
            in z * s Hs ! (i * (nb * nh) + b * nh + j)
               + (1 - z) * activation_fn ops (activation data) a)"
proof -
  let ?s1 = "gemm CUBLAS_OP_N CUBLAS_OP_N (nh * 2) nb nh 1 (U, 0) (nh * 2) (Hs, i * (nb * nh)) nh
               0 (TMP_UH, 0) (nh * 2) s"
  have s1: "?s1 Hs = s Hs" "?s1 WX = s WX"
    by (simp_all add: gemm_other)
  have c1: "j + nh < nh * 2" and c0: "j < nh * 2"
    using bj(2) by simp_all
  have p1: "?s1 TMP_UH ! (b * (nh * 2) + (j + nh))
            = (\<Sum>l\<leftarrow>[0..<nh]. s U ! (l * (nh * 2) + (j + nh)) * s Hs ! (i * (nb * nh) + b * nh + l))"
    by (rule gemm_projection_cell) (fact bj(1) c1 len(2))+
  have p0: "?s1 TMP_UH ! (b * (nh * 2) + j)
            = (\<Sum>l\<leftarrow>[0..<nh]. s U ! (l * (nh * 2) + j) * s Hs ! (i * (nb * nh) + b * nh + l))"
    by (rule gemm_projection_cell) (fact bj(1) c0 len(2))+
  have "rd (launch ((nh + 32 - 1) div 32, (nb + 16 - 1) div 16) (32, 16)
              (fwd_PointwiseOperations (sigmoid ops) (activation_fn ops (activation data))
                 (training data) nb nh
                 (WX, i * (nb * nh) * 2) (TMP_UH, 0) (Hs, i * (nb * nh)) (Hs, (i + 1) * (nb * nh))
                 (V, i * (nb * nh) * 3)) ?s1) (Hs, (i + 1) * (nb * nh)) (b * nh + j)
        = gate_h (sigmoid ops) (activation_fn ops (activation data)) nh (WX, i * (nb * nh) * 2)
            (TMP_UH, 0) (Hs, i * (nb * nh)) ?s1 b j"
    by (rule fwd_launch_value) (use bj len(1) grid_covers in \<open>simp_all add: s1\<close>)
  then show ?thesis
    using act
    by (simp add: fwd_1_0_Run_step_cases[OF d] rd_def gate_h_def gate_z_def gate_a_def s1
        add.assoc p0 p1 Let_def)
qed


lemma fwd_1_0_Run_Suc:
  "fwd_1_0_Run ops data (Suc n) wx u h v tmp_uh s
   = fwd_1_0_Run_step ops data wx u h v tmp_uh n (fwd_1_0_Run ops data n wx u h v tmp_uh s)"
  by (simp add: fwd_1_0_Run_def)

lemma fwd_1_0_Run_0: "fwd_1_0_Run ops data 0 wx u h v tmp_uh s = s"
  by (simp add: fwd_1_0_Run_def)

lemma fwd_1_0_Run_frame:
  fixes s :: "'a::comm_ring_1 store"
  assumes "b \<noteq> Hs" "b \<noteq> V" "b \<noteq> TMP_UH"
  shows "fwd_1_0_Run ops data n (WX, 0) (U, 0) (Hs, 0) (V, 0) (TMP_UH, 0) s b = s b"
  by (induction n) (simp_all add: fwd_1_0_Run_0 fwd_1_0_Run_Suc fwd_1_0_Run_step_frame[OF assms])

lemma fwd_1_0_Run_length:
  fixes s :: "'a::comm_ring_1 store"
  shows "length (fwd_1_0_Run ops data n (WX, 0) (U, 0) (Hs, 0) (V, 0) (TMP_UH, 0) s Hs)
           = length (s Hs)"
    and "length (fwd_1_0_Run ops data n (WX, 0) (U, 0) (Hs, 0) (V, 0) (TMP_UH, 0) s TMP_UH)
           = length (s TMP_UH)"
  by (induction n)
    (simp_all add: fwd_1_0_Run_0 fwd_1_0_Run_Suc fwd_1_0_Run_step_Hs[OF refl refl]
      fwd_1_0_Run_step_tmp_uh_length)

lemma fwd_1_0_Run_stable:
  fixes s :: "'a::comm_ring_1 store"
  assumes "batch_size data = nb" "hidden_size data = nh"
    and "n0 \<le> n" "k < (n0 + 1) * (nb * nh)"
  shows "fwd_1_0_Run ops data n (WX, 0) (U, 0) (Hs, 0) (V, 0) (TMP_UH, 0) s Hs ! k
         = fwd_1_0_Run ops data n0 (WX, 0) (U, 0) (Hs, 0) (V, 0) (TMP_UH, 0) s Hs ! k"
  using assms(3)
proof (induction n rule: dec_induct)
  case base
  show ?case by simp
next
  case (step n)
  have "(n0 + 1) * (nb * nh) \<le> (n + 1) * (nb * nh)"
    using step.hyps(1) by (intro mult_le_mono1) simp
  with assms(4) have "k < (n + 1) * (nb * nh)"
    by linarith
  then show ?case
    using step.IH by (simp add: fwd_1_0_Run_Suc fwd_1_0_Run_step_Hs[OF assms(1,2)])
qed

lemma row_cell_bound:
  fixes nb nh :: nat
  assumes "b < nb" "j < nh"
  shows "t * (nb * nh) + b * nh + j < (t + 1) * (nb * nh)"
  using thread_index_bound[OF assms(2,1)] by simp

lemma ligru_1_0_forward_sequence:
  fixes ops :: "'a::comm_ring_1 inline_ops" and train :: bool and seq_length batch hidden :: nat
    and wx h_init u_t :: "'a list" and act_id :: int and output_mem cache_mem :: "nat \<Rightarrow> 'a"
  defines "h_sequence \<equiv> fst (ligru_1_0_forward ops train seq_length batch hidden wx h_init u_t
                                 act_id output_mem cache_mem)"
  shows "length h_sequence = (seq_length + 1) * (batch * hidden)"
    and "length h_init = batch * hidden \<Longrightarrow> take (batch * hidden) h_sequence = h_init"
    and "0 \<le> act_id \<Longrightarrow> act_id \<le> 3 \<Longrightarrow> t < seq_length \<Longrightarrow> b < batch \<Longrightarrow> j < hidden \<Longrightarrow>
         h_sequence ! ((t + 1) * (batch * hidden) + b * hidden + j)
         = (let z = sigmoid ops
                      (wx ! (t * (batch * hidden) * 2 + b * (hidden * 2) + j + hidden)
                       + (\<Sum>l\<leftarrow>[0..<hidden]. u_t ! (l * (hidden * 2) + (j + hidden))
                              * h_sequence ! (t * (batch * hidden) + b * hidden + l)));
                a = wx ! (t * (batch * hidden) * 2 + b * (hidden * 2) + j)
                    + (\<Sum>l\<leftarrow>[0..<hidden]. u_t ! (l * (hidden * 2) + j)
                           * h_sequence ! (t * (batch * hidden) + b * hidden + l))
            in z * h_sequence ! (t * (batch * hidden) + b * hidden + j)
               + (1 - z) * activation_fn ops act_id a)"
proof -
  define forward where "forward = \<lparr> batch_size = batch, input_size = 0, hidden_size = hidden,
                                     activation = act_id, training = train \<rparr>"
  define out0 where "out0 = map (\<lambda>k. if k < batch * hidden then h_init ! k else
                                  map output_mem [0..<(seq_length + 1) * batch * hidden] ! k)
                          [0..<(seq_length + 1) * batch * hidden]"
  define s0 where "s0 = (\<lambda>b. [])(WX := wx, U := u_t, Hs := out0,
                          V := map cache_mem [0..<seq_length * batch * (hidden * 3)],
                          TMP_UH := replicate (batch * (hidden * 2)) (0 :: 'a))"
  define run where "run n = fwd_1_0_Run ops forward n (WX, 0) (U, 0) (Hs, 0) (V, 0) (TMP_UH, 0) s0"
    for n
  have d: "batch_size forward = batch" "hidden_size forward = hidden"
    and a: "activation forward = act_id"
    by (simp_all add: forward_def)
  have hs: "h_sequence = run seq_length Hs"
    unfolding h_sequence_def ligru_1_0_forward_def Let_def run_def s0_def out0_def forward_def
    by (simp only: fst_conv length_map length_upt minus_nat.diff_0)
  have len0: "length (s0 Hs) = (seq_length + 1) * (batch * hidden)"
    by (simp add: s0_def out0_def algebra_simps)
  have len: "length (run n Hs) = (seq_length + 1) * (batch * hidden)" for n
    by (simp add: run_def fwd_1_0_Run_length len0)
  have lenu: "length (run n TMP_UH) = batch * (hidden * 2)" for n
    by (simp add: run_def fwd_1_0_Run_length s0_def)
  have wxu: "run n WX = wx" "run n U = u_t" for n
    by (simp_all add: run_def fwd_1_0_Run_frame s0_def)
  have stable: "run n Hs ! k = run n0 Hs ! k" if "n0 \<le> n" "k < (n0 + 1) * (batch * hidden)"
    for n n0 k
    unfolding run_def using that by (intro fwd_1_0_Run_stable[OF d])
  show "length h_sequence = (seq_length + 1) * (batch * hidden)"
    by (simp add: hs len)
  show "take (batch * hidden) h_sequence = h_init" if hl: "length h_init = batch * hidden"
  proof (rule nth_equalityI)
    show "length (take (batch * hidden) h_sequence) = length h_init"
      by (simp add: hs len hl)
  next
    fix i assume "i < length (take (batch * hidden) h_sequence)"
    then have i: "i < batch * hidden"
      by simp
    then have i2: "i < (seq_length + 1) * batch * hidden"
      by (simp add: algebra_simps trans_less_add1)
    have "run seq_length Hs ! i = run 0 Hs ! i"
      using i by (intro stable) simp_all
    also have "\<dots> = h_init ! i"
      using i i2 by (simp add: run_def fwd_1_0_Run_0 s0_def out0_def)
    finally show "take (batch * hidden) h_sequence ! i = h_init ! i"
      using i by (simp add: hs)
  qed
  show "h_sequence ! ((t + 1) * (batch * hidden) + b * hidden + j)
         = (let z = sigmoid ops
                      (wx ! (t * (batch * hidden) * 2 + b * (hidden * 2) + j + hidden)
                       + (\<Sum>l\<leftarrow>[0..<hidden]. u_t ! (l * (hidden * 2) + (j + hidden))
                              * h_sequence ! (t * (batch * hidden) + b * hidden + l)));
                a = wx ! (t * (batch * hidden) * 2 + b * (hidden * 2) + j)
                    + (\<Sum>l\<leftarrow>[0..<hidden]. u_t ! (l * (hidden * 2) + j)
                           * h_sequence ! (t * (batch * hidden) + b * hidden + l))
            in z * h_sequence ! (t * (batch * hidden) + b * hidden + j)
               + (1 - z) * activation_fn ops act_id a)"
    if act: "0 \<le> act_id" "act_id \<le> 3" and t: "t < seq_length" and bj: "b < batch" "j < hidden"
  proof -
    have prev: "run seq_length Hs ! (t * (batch * hidden) + b * hidden + l)
                = run t Hs ! (t * (batch * hidden) + b * hidden + l)" if "l < hidden" for l
      using t row_cell_bound[OF bj(1) that, of t] by (intro stable) simp_all
    have sums: "(\<Sum>l\<leftarrow>[0..<hidden]. u_t ! (l * (hidden * 2) + c)
                     * run seq_length Hs ! (t * (batch * hidden) + b * hidden + l))
                = (\<Sum>l\<leftarrow>[0..<hidden]. u_t ! (l * (hidden * 2) + c)
                     * run t Hs ! (t * (batch * hidden) + b * hidden + l))" for c
      by (intro arg_cong[where f = sum_list] map_cong) (simp_all add: prev)
    have "(t + 2) * (batch * hidden) \<le> (seq_length + 1) * (batch * hidden)"
      using t by (intro mult_le_mono1) simp
    then have l1: "(t + 2) * (batch * hidden) \<le> length (run t Hs)"
      by (simp add: len)
    have l2: "batch * (hidden * 2) \<le> length (run t TMP_UH)"
      by (simp add: lenu)
    have "run seq_length Hs ! ((t + 1) * (batch * hidden) + b * hidden + j)
          = run (Suc t) Hs ! ((t + 1) * (batch * hidden) + b * hidden + j)"
      using t row_cell_bound[OF bj, of "t + 1"] by (intro stable) simp_all
    also have "\<dots> = fwd_1_0_Run_step ops forward (WX, 0) (U, 0) (Hs, 0) (V, 0) (TMP_UH, 0) t
                        (run t) Hs ! ((t + 1) * (batch * hidden) + b * hidden + j)"
      by (simp add: run_def fwd_1_0_Run_Suc)
    finally show ?thesis
      using act
      unfolding hs sums prev[OF bj(2)]
        fwd_1_0_Run_step_value[OF d _ _ bj l1 l2, unfolded a, OF act]
      by (simp add: wxu a)
  qed
qed


lemma fwd_Run_step_launch_activation:
  fixes s :: "'a::comm_ring_1 store"
  assumes "0 \<le> activation data" "activation data \<le> 3" "training data \<or> activation data \<noteq> 2"
  shows "fwd_Run_step ops data lnorm (WX, 0) (U, 0) (Hs, 0) (V, 0) (TMP_UH_NORM, 0)
           (TMP_UH, 0) i s
         = launch ((hidden_size data + 32 - 1) div 32, (batch_size data + 16 - 1) div 16) (32, 16)
             (fwd_PointwiseOperations (sigmoid ops) (activation_fn ops (activation data))
                (training data) (batch_size data) (hidden_size data)
                (WX, i * (batch_size data * hidden_size data) * 2) (TMP_UH_NORM, 0)
                (Hs, i * (batch_size data * hidden_size data))
                (Hs, (i + 1) * (batch_size data * hidden_size data))
                (V, i * (batch_size data * hidden_size data) * 3))
             (fwd_projected data lnorm (U, 0) (Hs, i * (batch_size data * hidden_size data))
                (TMP_UH, i * (batch_size data * hidden_size data) * 2) (TMP_UH_NORM, 0) s)"
proof -
  from assms(1,2) have "activation data = 0 \<or> activation data = 1 \<or> activation data = 2
                        \<or> activation data = 3"
    by presburger
  with assms(3) show ?thesis
    by (intro fwd_Run_step_launches[where act_id = "activation data"])
      (auto simp add: activation_fn_def)
qed

lemma fwd_Run_step_frame:
  fixes s :: "'a::comm_ring_1 store"
  assumes "b \<noteq> Hs" "b \<noteq> V" "b \<noteq> TMP_UH" "b \<noteq> TMP_UH_NORM"
  shows "fwd_Run_step ops data lnorm (WX, 0) (U, 0) (Hs, 0) (V, 0) (TMP_UH_NORM, 0)
           (TMP_UH, 0) i s b = s b"
proof -
  have p: "fwd_projected data lnorm (U, 0) h (TMP_UH, m) (TMP_UH_NORM, 0) s b = s b" for h m
    using assms by (simp add: fwd_projected_def RunPartial_other gemm_other)
  from fwd_IterateInternal_cases[of ops data lnorm "(U, 0)"
      "ptr_add (Hs, 0) (i * (batch_size data * hidden_size data))"
      "ptr_add (Hs, 0) ((i + 1) * (batch_size data * hidden_size data))"
      "ptr_add (V, 0) (i * (batch_size data * hidden_size data) * 3)"
      "ptr_add (WX, 0) (i * (batch_size data * hidden_size data) * 2)"
      "ptr_add (TMP_UH, 0) (i * (batch_size data * hidden_size data) * 2)" "(TMP_UH_NORM, 0)" s]
  show ?thesis
    using assms
    by (auto simp add: fwd_Run_step_def Let_def ptr_add_def p fwd_launch_frame)
qed

lemma fwd_Run_frame:
  fixes s :: "'a::comm_ring_1 store"
  assumes "b \<noteq> Hs" "b \<noteq> V" "b \<noteq> TMP_UH" "b \<noteq> TMP_UH_NORM"
  shows "fwd_Run ops data lnorm n (WX, 0) (U, 0) (Hs, 0) (V, 0) (TMP_UH_NORM, 0) (TMP_UH, 0) s b
         = s b"
  by (induction n) (simp_all add: fwd_Run_0 fwd_Run_Suc fwd_Run_step_frame[OF assms])

lemma fwd_Run_sequence_value:
  fixes s :: "'a::comm_ring_1 store"
  assumes d: "batch_size data = nb" "hidden_size data = nh"
    and act: "0 \<le> activation data" "activation data \<le> 3" "training data \<or> activation data \<noteq> 2"
    and t: "t < n" and bj: "b < nb" "j < nh"
    and len: "(n + 1) * (nb * nh) \<le> length (s Hs)"
  shows "fwd_Run ops data lnorm n (WX, 0) (U, 0) (Hs, 0) (V, 0) (TMP_UH_NORM, 0) (TMP_UH, 0) s Hs
           ! ((t + 1) * (nb * nh) + b * nh + j)
         = (let uh_norm = fwd_projected data lnorm (U, 0) (Hs, t * (nb * nh))
                            (TMP_UH, t * (nb * nh) * 2) (TMP_UH_NORM, 0)
                            (fwd_Run ops data lnorm t (WX, 0) (U, 0) (Hs, 0) (V, 0)
                               (TMP_UH_NORM, 0) (TMP_UH, 0) s) TMP_UH_NORM;
                z = sigmoid ops (s WX ! (t * (nb * nh) * 2 + b * (nh * 2) + j + nh)
                                 + uh_norm ! (b * (nh * 2) + j + nh));
                a = s WX ! (t * (nb * nh) * 2 + b * (nh * 2) + j) + uh_norm ! (b * (nh * 2) + j)
            in z * fwd_Run ops data lnorm n (WX, 0) (U, 0) (Hs, 0) (V, 0) (TMP_UH_NORM, 0)
                     (TMP_UH, 0) s Hs ! (t * (nb * nh) + b * nh + j)
               + (1 - z) * activation_fn ops (activation data) a)"
proof -
  define run where "run m = fwd_Run ops data lnorm m (WX, 0) (U, 0) (Hs, 0) (V, 0)
                              (TMP_UH_NORM, 0) (TMP_UH, 0) s" for m
  define p where "p = fwd_projected data lnorm (U, 0) (Hs, t * (nb * nh))
                        (TMP_UH, t * (nb * nh) * 2) (TMP_UH_NORM, 0) (run t)"
  have stable: "run m Hs ! k = run m0 Hs ! k" if "m0 \<le> m" "k < (m0 + 1) * (nb * nh)" for m m0 k
    unfolding run_def using that fwd_Run_stable[of m0 m k data ops lnorm s] d by simp
  have pH: "p Hs = run t Hs"
    by (simp add: p_def fwd_projected_Hs)
  have pW: "p WX = s WX"
    by (simp add: p_def fwd_projected_def RunPartial_other gemm_other run_def fwd_Run_frame)
  have "(t + 2) * (nb * nh) \<le> (n + 1) * (nb * nh)"
    using t by (intro mult_le_mono1) simp
  with len have l1: "(t + 2) * (nb * nh) \<le> length (p Hs)"
    by (simp add: pH run_def fwd_Run_length)
  have "run n Hs ! ((t + 1) * (nb * nh) + b * nh + j)
        = run (Suc t) Hs ! ((t + 1) * (nb * nh) + b * nh + j)"
    using t row_cell_bound[OF bj, of "t + 1"] by (intro stable) simp_all
  also have "\<dots> = rd (launch ((nh + 32 - 1) div 32, (nb + 16 - 1) div 16) (32, 16)
             (fwd_PointwiseOperations (sigmoid ops) (activation_fn ops (activation data))
                (training data) nb nh (WX, t * (nb * nh) * 2) (TMP_UH_NORM, 0)
                (Hs, t * (nb * nh)) (Hs, (t + 1) * (nb * nh)) (V, t * (nb * nh) * 3)) p)
             (Hs, (t + 1) * (nb * nh)) (b * nh + j)"
    using fwd_Run_step_launch_activation[OF act, of ops lnorm t "run t"]
    by (simp add: run_def fwd_Run_Suc d p_def rd_def add.assoc)
  also have "\<dots> = gate_h (sigmoid ops) (activation_fn ops (activation data)) nh
                      (WX, t * (nb * nh) * 2) (TMP_UH_NORM, 0) (Hs, t * (nb * nh)) p b j"
    by (rule fwd_launch_value_cell) (fact bj l1)+
  finally show ?thesis
    using stable[of t n "t * (nb * nh) + b * nh + j"] t row_cell_bound[OF bj, of t]
    unfolding run_def[symmetric] p_def[symmetric]
    by (simp add: gate_h_def gate_z_def gate_a_def rd_def pH pW Let_def add.assoc)
qed


text \<open>
  C7: for all dimensions \<open>(T, B, H)\<close> the forward entry returns a hidden-state sequence of
  \<open>T + 1\<close> rows of \<open>B * H\<close> elements, the rows of the \<^verbatim>\<open>torch::empty({T + 1, B, H})\<close> it
  allocates; row 0 is \<open>h_init\<close>, element for element, as it was copied before the scan
  started; and for every \<open>t < T\<close> row \<open>t + 1\<close> is the output of step \<open>t\<close>: cell \<open>(b, j)\<close> of
  row \<open>t + 1\<close> is \<open>z * h_t[b, j] + (1 - z) * f(a)\<close> with \<open>z\<close> and \<open>a\<close> formed from row \<open>t\<close> of
  \<open>wx\<close> and from the recurrent projection of row \<open>t\<close> of the returned sequence. The entry
  runs the ligru 1.0 engine, for the activation ids 0 to 3.

  The same holds of \<^verbatim>\<open>ForwardPass<T>::Run\<close> of ligru 2.0 on the caller's buffers: the scan
  keeps the length of \<open>h\<close> and its row 0, every row \<open>t\<close> is final once \<open>t\<close> steps have run,
  and on buffers of the sizes the scan addresses row \<open>t + 1\<close> is the output of step \<open>t\<close>, the
  gate equation on row \<open>t\<close> of \<open>wx\<close>, row \<open>t\<close> of \<open>h\<close> and the normalized projection that the
  co-pass left for step \<open>t\<close>, whenever \<^verbatim>\<open>IterateInternal\<close> launches a kernel: for the
  activation ids 0 to 3, except sin without training (see C5).
\<close>

theorem forward_hidden_sequence:
  fixes ops :: "'a::comm_ring_1 inline_ops" and s :: "'a store"
  shows
    "let NH = batch * hidden;
         h_sequence = fst (ligru_1_0_forward ops train seq_length batch hidden wx h_init u_t
                             act_id output_mem cache_mem);
         forward = \<lparr> batch_size = batch, input_size = isz, hidden_size = hidden,
                     activation = act_id, training = train \<rparr>;
         run = (\<lambda>n. fwd_Run ops forward lnorm n (WX, 0) (U, 0) (Hs, 0) (V, 0)
                       (TMP_UH_NORM, 0) (TMP_UH, 0) s);
         h = run seq_length Hs
     in length h_sequence = (seq_length + 1) * NH
        \<and> (length h_init = NH \<longrightarrow> take NH h_sequence = h_init)
        \<and> (0 \<le> act_id \<and> act_id \<le> 3 \<longrightarrow>
             (\<forall>t<seq_length. \<forall>b<batch. \<forall>j<hidden.
                let uh = (\<lambda>c. \<Sum>l\<leftarrow>[0..<hidden]. u_t ! (l * (hidden * 2) + c)
                                     * h_sequence ! (t * NH + b * hidden + l));
                    z = sigmoid ops (wx ! (t * NH * 2 + b * (hidden * 2) + j + hidden)
                                     + uh (j + hidden));
                    a = wx ! (t * NH * 2 + b * (hidden * 2) + j) + uh j
                in h_sequence ! ((t + 1) * NH + b * hidden + j)
                   = z * h_sequence ! (t * NH + b * hidden + j)
                     + (1 - z) * activation_fn ops act_id a))
        \<and> length h = length (s Hs)
        \<and> (\<forall>k<NH. h ! k = s Hs ! k)
        \<and> (\<forall>t\<le>seq_length. \<forall>k<(t + 1) * NH. h ! k = run t Hs ! k)
        \<and> ((seq_length + 1) * NH \<le> length (s Hs) \<and> seq_length * NH * 2 \<le> length (s WX)
            \<and> hidden * (hidden * 2) \<le> length (s U) \<and> seq_length * NH * 3 \<le> length (s V)
            \<and> seq_length * NH * 2 \<le> length (s TMP_UH)
            \<and> batch * (hidden * 2) \<le> length (s TMP_UH_NORM)
            \<and> 0 \<le> act_id \<and> act_id \<le> 3 \<and> (train \<or> act_id \<noteq> 2) \<longrightarrow>
             (\<forall>t<seq_length. \<forall>b<batch. \<forall>j<hidden.
                let uh_norm = fwd_projected forward lnorm (U, 0) (Hs, t * NH)
                                (TMP_UH, t * NH * 2) (TMP_UH_NORM, 0) (run t) TMP_UH_NORM;
                    z = sigmoid ops (s WX ! (t * NH * 2 + b * (hidden * 2) + j + hidden)
                                     + uh_norm ! (b * (hidden * 2) + j + hidden));
                    a = s WX ! (t * NH * 2 + b * (hidden * 2) + j)
                        + uh_norm ! (b * (hidden * 2) + j)
                in h ! ((t + 1) * NH + b * hidden + j)
                   = z * h ! (t * NH + b * hidden + j) + (1 - z) * activation_fn ops act_id a))"
proof -
  define forward where "forward = \<lparr> batch_size = batch, input_size = isz, hidden_size = hidden,
                     activation = act_id, training = train \<rparr>"
  have d: "batch_size forward = batch" "hidden_size forward = hidden"
    and a: "activation forward = act_id" "training forward = train"
    by (simp_all add: forward_def)
  note entry = ligru_1_0_forward_sequence[where ops = ops and train = train
      and seq_length = seq_length and batch = batch and hidden = hidden and wx = wx
      and h_init = h_init and u_t = u_t and act_id = act_id and output_mem = output_mem
      and cache_mem = cache_mem]
  have row0: "fwd_Run ops forward lnorm seq_length (WX, 0) (U, 0) (Hs, 0) (V, 0)
                (TMP_UH_NORM, 0) (TMP_UH, 0) s Hs ! k = s Hs ! k" if "k < batch * hidden" for k
    using fwd_Run_stable[of 0 seq_length k forward ops lnorm s] that
    by (simp add: d fwd_Run_0)
  have stable: "fwd_Run ops forward lnorm seq_length (WX, 0) (U, 0) (Hs, 0) (V, 0)
                  (TMP_UH_NORM, 0) (TMP_UH, 0) s Hs ! k
                = fwd_Run ops forward lnorm t (WX, 0) (U, 0) (Hs, 0) (V, 0)
                    (TMP_UH_NORM, 0) (TMP_UH, 0) s Hs ! k"
    if "t \<le> seq_length" "k < (t + 1) * (batch * hidden)" for t k
    using fwd_Run_stable[of t seq_length k forward ops lnorm s] that by (simp add: d)
  note val = fwd_Run_sequence_value[OF d, where ops = ops and lnorm = lnorm and s = s
      and n = seq_length, unfolded a Let_def]
  show ?thesis
    unfolding Let_def forward_def[symmetric]
    using entry(1) entry(2) entry(3)[unfolded Let_def] row0 stable val
    by (simp add: fwd_Run_length)
qed


theorem forward_hidden_sequence_witness:
  "fst (ligru_1_0_forward (real_ops 0) True 1 1 1 [0, 0] [2] [0, 0] 3 (\<lambda>k. 7) (\<lambda>k. 0)) = [2, 1]
   \<and> fwd_Run (real_ops 0)
       \<lparr> batch_size = 1, input_size = 0, hidden_size = 1, activation = 3, training = False \<rparr>
       layer_norm_off 1 (WX, 0) (U, 0) (Hs, 0) (V, 0) (TMP_UH_NORM, 0) (TMP_UH, 0)
       ((\<lambda>b. [])(WX := [0, 0], U := [0, 0], Hs := [2, 7], V := [0, 0, 0], TMP_UH := [5, 5],
                  TMP_UH_NORM := [5, 5])) Hs = [2, 1]"
proof -
  let ?hs = "fst (ligru_1_0_forward (real_ops 0) True 1 1 1 [0, 0] [2] [0, 0] 3
                    (\<lambda>k. 7) (\<lambda>k. 0))"
  define s :: "real store" where
    "s = (\<lambda>b. [])(WX := [0, 0], U := [0, 0], Hs := [2, 7], V := [0, 0, 0], TMP_UH := [5, 5],
                   TMP_UH_NORM := [5, 5])"
  let ?h = "fwd_Run (real_ops 0)
       \<lparr> batch_size = 1, input_size = 0, hidden_size = 1, activation = 3, training = False \<rparr>
       layer_norm_off 1 (WX, 0) (U, 0) (Hs, 0) (V, 0) (TMP_UH_NORM, 0) (TMP_UH, 0) s Hs"
  have uh: "fwd_projected d layer_norm_off (U, 0) (Hs, 0) (TMP_UH, 0) (TMP_UH_NORM, 0) s
              TMP_UH_NORM = [0, 0]"
    if "batch_size d = Suc 0" "hidden_size d = Suc 0" for d :: fwd_private_data
    using that
    by (simp add: s_def fwd_projected_def RunPartial_def gemm_def gemm_dot_def layer_norm_off_def
        rd_def upt_rec)
  have s: "s WX = [0, 0]" "s U = [0, 0]" "s Hs = [2, 7]" "s V = [0, 0, 0]" "s TMP_UH = [5, 5]"
    "s TMP_UH_NORM = [5, 5]"
    by (simp_all add: s_def)
  have ops: "sigmoid (real_ops 0) 0 = 1 / 2" "activation_fn (real_ops 0) 3 0 = 0"
    by (simp_all add: real_ops_def activation_fn_def)
  note th = forward_hidden_sequence[where ops = "real_ops 0" and seq_length = 1
      and batch = 1 and hidden = 1 and wx = "[0, 0]" and h_init = "[2]" and u_t = "[0, 0]"
      and act_id = 3 and output_mem = "\<lambda>k. 7" and cache_mem = "\<lambda>k. 0" and isz = 0
      and lnorm = layer_norm_off and s = s, unfolded Let_def]
  from th[where train = True]
  have "length ?hs = 2 \<and> take 1 ?hs = [2] \<and> ?hs ! 1 = 1 / 2 * ?hs ! 0"
    by (simp add: ops upt_rec)
  then have l: "length ?hs = 2" and tk: "take 1 ?hs = [2]" and r: "?hs ! 1 = 1 / 2 * ?hs ! 0"
    by simp_all
  from tk have "?hs ! 0 = 2"
    by (metis nth_take zero_less_one nth_Cons_0)
  with l r have "?hs = [2, 1]"
    by (intro list2_eq) simp_all
  moreover
  from th[where train = False]
  have "length ?h = 2 \<and> ?h ! 0 = 2 \<and> ?h ! 1 = 1 / 2 * ?h ! 0"
    by (simp add: fwd_Run_0 uh ops s)
  then have "?h = [2, 1]"
    by (intro list2_eq) simp_all
  ultimately show ?thesis
    unfolding s_def by simp
qed

section \<open>The backward pass and row 0 of the output gradient\<close>

lemma bwd_thread_grad_out:
  assumes "fst h \<noteq> GRAD_OUT" "fst v \<noteq> GRAD_OUT" "fst dh_prev \<noteq> GRAD_OUT" "fst dwx \<noteq> GRAD_OUT"
    and "n \<le> off" "\<forall>i\<ge>n. t GRAD_OUT ! i = g' ! i"
  shows "bwd_1_0_PointwiseOperations d_act nb nh h v dh_prev (GRAD_OUT, off) dwx row col
           (t(GRAD_OUT := g'))
         = (bwd_1_0_PointwiseOperations d_act nb nh h v dh_prev (GRAD_OUT, off) dwx row col t)
             (GRAD_OUT := g')"
    and "bwd_1_0_PointwiseOperations d_act nb nh h v dh_prev (GRAD_OUT, off) dwx row col t GRAD_OUT
         = t GRAD_OUT"
  using assms
  by (auto simp add: bwd_1_0_PointwiseOperations_def Let_def rd_def wr_def fun_eq_iff)

lemma bwd_launch_grad_out:
  assumes "fst h \<noteq> GRAD_OUT" "fst v \<noteq> GRAD_OUT" "fst dh_prev \<noteq> GRAD_OUT" "fst dwx \<noteq> GRAD_OUT"
    and "n \<le> off" "\<forall>i\<ge>n. t GRAD_OUT ! i = g' ! i"
  shows "launch grd blk (bwd_1_0_PointwiseOperations d_act nb nh h v dh_prev (GRAD_OUT, off) dwx)
           (t(GRAD_OUT := g'))
         = (launch grd blk (bwd_1_0_PointwiseOperations d_act nb nh h v dh_prev (GRAD_OUT, off) dwx) t)
             (GRAD_OUT := g')
         \<and> launch grd blk (bwd_1_0_PointwiseOperations d_act nb nh h v dh_prev (GRAD_OUT, off) dwx)
             t GRAD_OUT = t GRAD_OUT"
proof -
  let ?R = "\<lambda>u u'. u' = u(GRAD_OUT := g') \<and> u GRAD_OUT = t GRAD_OUT"
  have "?R (launch grd blk (bwd_1_0_PointwiseOperations d_act nb nh h v dh_prev (GRAD_OUT, off) dwx) t)
           (launch grd blk (bwd_1_0_PointwiseOperations d_act nb nh h v dh_prev (GRAD_OUT, off) dwx)
              (t(GRAD_OUT := g')))"
  proof (rule launch_rel[where R = ?R])
    show "?R t (t(GRAD_OUT := g'))" by simp
  next
    fix row col u u'
    assume R: "?R u u'"
    then have "\<forall>i\<ge>n. u GRAD_OUT ! i = g' ! i"
      using assms(6) by simp
    with R assms(1-5)
      bwd_thread_grad_out[where t = u and g' = g' and n = n and off = off and h = h and v = v
        and dh_prev = dh_prev and dwx = dwx and d_act = d_act and nb = nb and nh = nh
        and row = row and col = col]
    show "?R (bwd_1_0_PointwiseOperations d_act nb nh h v dh_prev (GRAD_OUT, off) dwx row col u)
             (bwd_1_0_PointwiseOperations d_act nb nh h v dh_prev (GRAD_OUT, off) dwx row col u')"
      by simp
  qed
  then show ?thesis
    by simp
qed

lemma gemm_grad_out:
  assumes "fst A \<noteq> GRAD_OUT" "fst B \<noteq> GRAD_OUT" "fst C \<noteq> GRAD_OUT"
  shows "gemm ta tb m n k alpha A lda B ldb beta C ldc (t(GRAD_OUT := g'))
         = (gemm ta tb m n k alpha A lda B ldb beta C ldc t)(GRAD_OUT := g')"
proof -
  have "gemm_dot ta tb k A lda B ldb (t(GRAD_OUT := g')) i j = gemm_dot ta tb k A lda B ldb t i j"
    for i j
    by (rule gemm_dot_cong) (simp_all add: assms)
  then show ?thesis
    using assms(3) by (auto simp add: gemm_def fun_eq_iff)
qed

lemma RunPartial_grad_out:
  assumes "\<forall>u g. lnorm n x y (u(GRAD_OUT := g)) = lnorm n x y u"
    and "fst y \<noteq> GRAD_OUT"
  shows "RunPartial lnorm n x y (t(GRAD_OUT := g'))
         = (RunPartial lnorm n x y t)(GRAD_OUT := g')"
proof -
  have "lnorm n x y (t(GRAD_OUT := g')) = lnorm n x y t"
    using assms(1) by blast
  then show ?thesis
    using assms(2) by (auto simp add: RunPartial_def fun_eq_iff)
qed

lemma bwd_1_0_IterateInternal_grad_out:
  fixes t :: "'a::comm_ring_1 store"
  assumes p: "fst u_t \<noteq> GRAD_OUT" "fst h \<noteq> GRAD_OUT" "fst v \<noteq> GRAD_OUT" "fst dh \<noteq> GRAD_OUT"
      "fst dwx \<noteq> GRAD_OUT"
    and n: "n \<le> off" "\<forall>i\<ge>n. t GRAD_OUT ! i = g' ! i"
  shows "bwd_1_0_IterateInternal ops data u_t h v (GRAD_OUT, off) dh dwx (t(GRAD_OUT := g'))
         = (bwd_1_0_IterateInternal ops data u_t h v (GRAD_OUT, off) dh dwx t)(GRAD_OUT := g')
       \<and> bwd_1_0_IterateInternal ops data u_t h v (GRAD_OUT, off) dh dwx t GRAD_OUT = t GRAD_OUT"
proof -
  note L = bwd_launch_grad_out[where t = t and g' = g' and n = n and off = off and h = h
      and v = v and dh_prev = dh and dwx = dwx, OF p(2,3,4,5) n]
  show ?thesis
    unfolding bwd_1_0_IterateInternal_def Let_def bwd_1_0_kernel_defs
    using p by (simp add: L gemm_grad_out gemm_other)
qed

lemma bwd_2_0_IterateInternal_grad_out:
  fixes t :: "'a::comm_ring_1 store"
  assumes ln: "\<forall>u g. lnorm (batch_size data) dwx tmp_dwx (u(GRAD_OUT := g))
                      = lnorm (batch_size data) dwx tmp_dwx u"
    and p: "fst u_t \<noteq> GRAD_OUT" "fst h \<noteq> GRAD_OUT" "fst v \<noteq> GRAD_OUT" "fst dh \<noteq> GRAD_OUT"
      "fst dwx \<noteq> GRAD_OUT" "fst tmp_dwx \<noteq> GRAD_OUT"
    and n: "n \<le> off" "\<forall>i\<ge>n. t GRAD_OUT ! i = g' ! i"
  shows "bwd_2_0_IterateInternal ops data lnorm u_t h v (GRAD_OUT, off) dh tmp_dwx dwx
           (t(GRAD_OUT := g'))
         = (bwd_2_0_IterateInternal ops data lnorm u_t h v (GRAD_OUT, off) dh tmp_dwx dwx t)
             (GRAD_OUT := g')
       \<and> bwd_2_0_IterateInternal ops data lnorm u_t h v (GRAD_OUT, off) dh tmp_dwx dwx t
           GRAD_OUT = t GRAD_OUT"
proof -
  note L = bwd_launch_grad_out[where t = t and g' = g' and n = n and off = off and h = h
      and v = v and dh_prev = dh and dwx = dwx, OF p(2,3,4,5) n]
  note RP = RunPartial_grad_out[where lnorm = lnorm and n = "batch_size data" and x = dwx
      and y = tmp_dwx, OF ln p(6)]
  show ?thesis
    unfolding bwd_2_0_IterateInternal_def Let_def bwd_2_0_kernel_defs bwd_kernel_eq[symmetric]
    using p by (simp add: L RP gemm_grad_out gemm_other RunPartial_other)
qed

lemma bwd_1_0_Run_grad_out:
  fixes s :: "'a::comm_ring_1 store"
  assumes "\<forall>i\<ge>batch_size data * hidden_size data. s GRAD_OUT ! i = g' ! i"
  shows "bwd_1_0_Run ops data time_step (WX, 0) (U, 0) (Hs, 0) (V, 0) (GRAD_OUT, 0) (DWX, 0)
           (DU, 0) (DH, 0) (s(GRAD_OUT := g'))
         = (bwd_1_0_Run ops data time_step (WX, 0) (U, 0) (Hs, 0) (V, 0) (GRAD_OUT, 0) (DWX, 0)
              (DU, 0) (DH, 0) s)(GRAD_OUT := g')"
proof -
  let ?R = "\<lambda>u u'. u' = u(GRAD_OUT := g') \<and> u GRAD_OUT = s GRAD_OUT"
  let ?step = "bwd_1_0_Run_step ops data (U, 0) (Hs, 0) (V, 0) (GRAD_OUT, 0) (DWX, 0) (DH, 0)"
  have "?R (fold ?step (rev [0..<time_step]) s) (fold ?step (rev [0..<time_step]) (s(GRAD_OUT := g')))"
  proof (rule fold_rel[where R = ?R])
    show "?R s (s(GRAD_OUT := g'))" by simp
  next
    fix i u u'
    assume R: "?R u u'"
    then have agree: "\<forall>k\<ge>batch_size data * hidden_size data. u GRAD_OUT ! k = g' ! k"
      using assms by simp
    have le: "batch_size data * hidden_size data \<le> (i + 1) * (batch_size data * hidden_size data)"
      by simp
    from R agree le
      bwd_1_0_IterateInternal_grad_out[where t = u and g' = g'
        and n = "batch_size data * hidden_size data"
        and off = "(i + 1) * (batch_size data * hidden_size data)"
        and u_t = "(U, 0)" and h = "ptr_add (Hs, 0) (i * (batch_size data * hidden_size data))"
        and v = "ptr_add (V, 0) (i * (batch_size data * hidden_size data) * 3)"
        and dh = "(DH, 0)"
        and dwx = "ptr_add (DWX, 0) (i * (batch_size data * hidden_size data) * 2)"
        and ops = ops and data = data]
    show "?R (?step i u) (?step i u')"
      by (simp add: bwd_1_0_Run_step_def Let_def ptr_add_def)
  qed
  then show ?thesis
    by (simp add: bwd_1_0_Run_def Let_def gemm_grad_out)
qed

lemma bwd_2_0_Run_grad_out:
  fixes s :: "'a::comm_ring_1 store"
  assumes ln: "\<forall>n i j u g. lnorm n (DWX, i) (TMP_DWX, j) (u(GRAD_OUT := g))
                          = lnorm n (DWX, i) (TMP_DWX, j) u"
    and "\<forall>i\<ge>batch_size data * hidden_size data. s GRAD_OUT ! i = g' ! i"
  shows "bwd_2_0_Run ops data lnorm time_step (WX, 0) (U, 0) (Hs, 0) (V, 0) (GRAD_OUT, 0)
           (TMP_DWX, 0) (DWX, 0) (DU, 0) (DH, 0) (s(GRAD_OUT := g'))
         = (bwd_2_0_Run ops data lnorm time_step (WX, 0) (U, 0) (Hs, 0) (V, 0) (GRAD_OUT, 0)
              (TMP_DWX, 0) (DWX, 0) (DU, 0) (DH, 0) s)(GRAD_OUT := g')"
proof -
  let ?R = "\<lambda>u u'. u' = u(GRAD_OUT := g') \<and> u GRAD_OUT = s GRAD_OUT"
  let ?step = "bwd_2_0_Run_step ops data lnorm (U, 0) (Hs, 0) (V, 0) (GRAD_OUT, 0)
                 (TMP_DWX, 0) (DWX, 0) (DH, 0)"
  have "?R (fold ?step (rev [0..<time_step]) s) (fold ?step (rev [0..<time_step]) (s(GRAD_OUT := g')))"
  proof (rule fold_rel[where R = ?R])
    show "?R s (s(GRAD_OUT := g'))" by simp
  next
    fix i u u'
    assume R: "?R u u'"
    then have agree: "\<forall>k\<ge>batch_size data * hidden_size data. u GRAD_OUT ! k = g' ! k"
      using assms(2) by simp
    have le: "batch_size data * hidden_size data \<le> (i + 1) * (batch_size data * hidden_size data)"
      by simp
    from R agree le
      bwd_2_0_IterateInternal_grad_out[where t = u and g' = g' and lnorm = lnorm
        and n = "batch_size data * hidden_size data"
        and off = "(i + 1) * (batch_size data * hidden_size data)"
        and u_t = "(U, 0)" and h = "ptr_add (Hs, 0) (i * (batch_size data * hidden_size data))"
        and v = "ptr_add (V, 0) (i * (batch_size data * hidden_size data) * 3)"
        and dh = "(DH, 0)"
        and dwx = "ptr_add (DWX, 0) (i * (batch_size data * hidden_size data) * 2)"
        and tmp_dwx = "ptr_add (TMP_DWX, 0) (i * (batch_size data * hidden_size data) * 2)"
        and ops = ops and data = data] ln
    show "?R (?step i u) (?step i u')"
      by (simp add: bwd_2_0_Run_step_def Let_def ptr_add_def)
  qed
  then show ?thesis
    by (simp add: bwd_2_0_Run_def Let_def gemm_grad_out)
qed

lemma rows_agree:
  assumes "length g' = length g" "drop n g' = drop n g"
  shows "\<forall>i\<ge>n. g ! i = g' ! i"
proof (intro allI impI)
  fix i assume i: "n \<le> i"
  show "g ! i = g' ! i"
  proof (cases "i < length g")
    case True
    then have "g ! i = drop n g ! (i - n)" "g' ! i = drop n g' ! (i - n)"
      using i assms(1) by simp_all
    then show ?thesis
      by (simp add: assms(2))
  next
    case False
    then show ?thesis
      using assms(1) by (intro nth_beyond) simp_all
  qed
qed

text \<open>
  C10: the backward pass never reads row 0 of \<open>grad_out\<close>; step \<open>i\<close> reads row \<open>i + 1\<close>. For two
  runs on inputs that differ only in row 0 of \<open>grad_out\<close> (the same length, the same rows
  \<open>1 \<dots> T\<close>), the backward entry of ligru 1.0 returns the same \<open>du\<close>, \<open>dwx\<close> and \<open>dh\<close>, and so
  does the \<^verbatim>\<open>Run\<close> of ligru 2.0 on two stores that differ only there, for every layer-norm
  co-pass whose result from \<open>dwx\<close> into \<open>tmp_dwx\<close> does not depend on the buffer of \<open>grad_out\<close>
  (the co-pass is not given that buffer).
\<close>

theorem grad_out_row0_unread:
  fixes s :: "'a::comm_ring_1 store"
  assumes "length grad_out' = length grad_out"
    and "drop (batch * hidden) grad_out' = drop (batch * hidden) grad_out"
    and "\<forall>n i j u g. lnorm n (DWX, i) (TMP_DWX, j) (u(GRAD_OUT := g))
                      = lnorm n (DWX, i) (TMP_DWX, j) u"
  shows "ligru_1_0_backward ops time_steps batch hidden wx u h cache grad_out' act_id
         = ligru_1_0_backward ops time_steps batch hidden wx u h cache grad_out act_id
       \<and> (let data = \<lparr> batch_size = batch, input_size = time_steps, hidden_size = hidden,
                         activation = act_id \<rparr>;
               r = bwd_2_0_Run ops data lnorm time_steps (WX, 0) (U, 0) (Hs, 0) (V, 0)
                     (GRAD_OUT, 0) (TMP_DWX, 0) (DWX, 0) (DU, 0) (DH, 0) (s(GRAD_OUT := grad_out));
               r' = bwd_2_0_Run ops data lnorm time_steps (WX, 0) (U, 0) (Hs, 0) (V, 0)
                     (GRAD_OUT, 0) (TMP_DWX, 0) (DWX, 0) (DU, 0) (DH, 0) (s(GRAD_OUT := grad_out'))
           in r' DU = r DU \<and> r' DWX = r DWX \<and> r' DH = r DH)"
proof -
  define data where "data = \<lparr> batch_size = batch, input_size = time_steps, hidden_size = hidden,
                         activation = act_id \<rparr>"
  have agree: "\<forall>i\<ge>batch_size data * hidden_size data. grad_out ! i = grad_out' ! i"
    using rows_agree[OF assms(1,2)] by (simp add: data_def)
  define s1 where "s1 = (\<lambda>b. [])(WX := wx, U := u, Hs := h, V := cache, GRAD_OUT := grad_out,
      DWX := replicate (time_steps * batch * (hidden * 2)) 0,
      DU := replicate (hidden * (hidden * 2)) 0, DH := replicate (batch * hidden) (0::'a))"
  have s1': "(\<lambda>b. [])(WX := wx, U := u, Hs := h, V := cache, GRAD_OUT := grad_out',
      DWX := replicate (time_steps * batch * (hidden * 2)) 0,
      DU := replicate (hidden * (hidden * 2)) 0, DH := replicate (batch * hidden) (0::'a))
      = s1(GRAD_OUT := grad_out')"
    by (auto simp add: s1_def fun_eq_iff)
  have "\<forall>i\<ge>batch_size data * hidden_size data. s1 GRAD_OUT ! i = grad_out' ! i"
    using agree by (simp add: s1_def)
  with bwd_1_0_Run_grad_out[where s = s1 and g' = grad_out' and data = data and ops = ops
      and time_step = time_steps]
  have one: "ligru_1_0_backward ops time_steps batch hidden wx u h cache grad_out' act_id
         = ligru_1_0_backward ops time_steps batch hidden wx u h cache grad_out act_id"
    unfolding ligru_1_0_backward_def Let_def data_def[symmetric] s1' s1_def[symmetric]
    by simp
  have "\<forall>i\<ge>batch_size data * hidden_size data. (s(GRAD_OUT := grad_out)) GRAD_OUT ! i = grad_out' ! i"
    using agree by simp
  with bwd_2_0_Run_grad_out[where s = "s(GRAD_OUT := grad_out)" and g' = grad_out'
      and data = data and ops = ops and time_step = time_steps and lnorm = lnorm, OF assms(3)]
  have two: "bwd_2_0_Run ops data lnorm time_steps (WX, 0) (U, 0) (Hs, 0) (V, 0)
                     (GRAD_OUT, 0) (TMP_DWX, 0) (DWX, 0) (DU, 0) (DH, 0) (s(GRAD_OUT := grad_out'))
      = (bwd_2_0_Run ops data lnorm time_steps (WX, 0) (U, 0) (Hs, 0) (V, 0)
                     (GRAD_OUT, 0) (TMP_DWX, 0) (DWX, 0) (DU, 0) (DH, 0) (s(GRAD_OUT := grad_out)))
          (GRAD_OUT := grad_out')"
    by simp
  show ?thesis
    unfolding Let_def data_def[symmetric] two using one by simp
qed

theorem grad_out_row0_unread_witness:
  "ligru_1_0_backward (real_ops 0) 1 1 1 [0, 0] [0, 0] [2, 1] [0, 1 / 2, 0] [5, 1] 3
   = ligru_1_0_backward (real_ops 0) 1 1 1 [0, 0] [0, 0] [2, 1] [0, 1 / 2, 0] [9, 1] 3"
  using grad_out_row0_unread[where grad_out' = "[5, 1]" and grad_out = "[9, 1::real]"
      and batch = 1 and hidden = 1 and lnorm = layer_norm_off and ops = "real_ops 0"
      and time_steps = 1 and wx = "[0, 0]" and u = "[0, 0]" and h = "[2, 1]"
      and cache = "[0, 1 / 2, 0]" and act_id = 3]
  by (simp add: layer_norm_off_def rd_def)

section \<open>One step of the reverse scan\<close>

lemma slot_inj:
  fixes nh :: nat
  assumes "r < nh" "r' < nh" "e < 2" "e' < 2"
    and "c * (nh * 2) + r + e * nh = c' * (nh * 2) + r' + e' * nh"
  shows "c = c' \<and> r = r' \<and> e = e'"
proof -
  have eq: "(c * 2 + e) * nh + r = (c' * 2 + e') * nh + r'"
    using assms(5) by (simp add: algebra_simps)
  then have "((c * 2 + e) * nh + r) div nh = ((c' * 2 + e') * nh + r') div nh"
    "((c * 2 + e) * nh + r) mod nh = ((c' * 2 + e') * nh + r') mod nh"
    by simp_all
  then have "c * 2 + e = c' * 2 + e'" "r = r'"
    using assms(1,2) by simp_all
  then show ?thesis
    using assms(3,4) by arith
qed

lemma slot_bound:
  fixes nh :: nat
  assumes "r < nh" "c < nb" "e < 2"
  shows "c * (nh * 2) + r + e * nh < nb * (nh * 2)"
proof -
  have "r + e * nh < nh * 2"
  proof (cases "e = 0")
    case True
    then show ?thesis using assms(1) by simp
  next
    case False
    then have "e = 1" using assms(3) by simp
    then show ?thesis using assms(1) by simp
  qed
  then have "c * (nh * 2) + r + e * nh < Suc c * (nh * 2)"
    by simp
  moreover have "Suc c * (nh * 2) \<le> nb * (nh * 2)"
    using assms(2) by (intro mult_le_mono1) simp
  ultimately show ?thesis
    by linarith
qed

lemma bwd_thread_guard:
  "nh \<le> row \<or> nb \<le> col \<Longrightarrow>
   bwd_1_0_PointwiseOperations d_act nb nh h v dh_prev grad_out dwx row col s = s"
  by (simp add: bwd_1_0_PointwiseOperations_def)

lemma bwd_thread_frame:
  "b \<noteq> fst dh_prev \<Longrightarrow> b \<noteq> fst dwx \<Longrightarrow>
   bwd_1_0_PointwiseOperations d_act nb nh h v dh_prev grad_out dwx row col s b = s b"
  by (simp add: bwd_1_0_PointwiseOperations_def Let_def wr_def)

lemma bwd_thread_dh:
  assumes "row < nh" "col < nb" "fst dwx \<noteq> fst dh_prev"
  shows "bwd_1_0_PointwiseOperations d_act nb nh h v dh_prev grad_out dwx row col s (fst dh_prev)
         = (s (fst dh_prev))[snd dh_prev + (col * nh + row)
                               := bwd_dh nh v dh_prev grad_out s col row]"
  using assms
  by (simp add: bwd_1_0_PointwiseOperations_def Let_def wr_def rd_def bwd_dh_def bwd_dh_total_def)

lemma bwd_thread_dwx:
  assumes "row < nh" "col < nb" "fst dwx \<noteq> fst dh_prev"
  shows "bwd_1_0_PointwiseOperations d_act nb nh h v dh_prev grad_out dwx row col s (fst dwx)
         = (s (fst dwx))[snd dwx + (col * (nh * 2) + row + 1 * nh)
                            := bwd_dzt nh h v dh_prev grad_out s col row,
                         snd dwx + (col * (nh * 2) + row + 0 * nh)
                            := bwd_dat d_act nh v dh_prev grad_out s col row]"
  using assms
  by (simp add: bwd_1_0_PointwiseOperations_def Let_def wr_def rd_def bwd_dzt_def bwd_dat_def
      bwd_dh_total_def)

lemma bwd_flat:
  fixes s :: "'a::comm_ring_1 store"
  assumes dd: "fst dwx \<noteq> fst dh_prev"
    and dg: "fst grad_out \<noteq> fst dh_prev" "fst grad_out \<noteq> fst dwx"
    and dv: "fst v \<noteq> fst dh_prev" "fst v \<noteq> fst dwx"
    and dhh: "fst h \<noteq> fst dh_prev" "fst h \<noteq> fst dwx"
    and len_dh: "snd dh_prev + nb * nh \<le> length (s (fst dh_prev))"
    and len_dwx: "snd dwx + nb * (nh * 2) \<le> length (s (fst dwx))"
    and n: "n \<le> nb * nh"
  shows "(\<forall>b. b \<noteq> fst dh_prev \<and> b \<noteq> fst dwx \<longrightarrow>
            fold (\<lambda>i. bwd_1_0_PointwiseOperations d_act nb nh h v dh_prev grad_out dwx
                         (i mod nh) (i div nh)) [0..<n] s b = s b)
       \<and> length (fold (\<lambda>i. bwd_1_0_PointwiseOperations d_act nb nh h v dh_prev grad_out dwx
                         (i mod nh) (i div nh)) [0..<n] s (fst dh_prev)) = length (s (fst dh_prev))
       \<and> (\<forall>k<length (s (fst dh_prev)).
            fold (\<lambda>i. bwd_1_0_PointwiseOperations d_act nb nh h v dh_prev grad_out dwx
                         (i mod nh) (i div nh)) [0..<n] s (fst dh_prev) ! k =
            (if snd dh_prev \<le> k \<and> k < snd dh_prev + n
             then bwd_dh nh v dh_prev grad_out s ((k - snd dh_prev) div nh) ((k - snd dh_prev) mod nh)
             else s (fst dh_prev) ! k))
       \<and> length (fold (\<lambda>i. bwd_1_0_PointwiseOperations d_act nb nh h v dh_prev grad_out dwx
                         (i mod nh) (i div nh)) [0..<n] s (fst dwx)) = length (s (fst dwx))
       \<and> (\<forall>i<n.
            fold (\<lambda>i. bwd_1_0_PointwiseOperations d_act nb nh h v dh_prev grad_out dwx
                         (i mod nh) (i div nh)) [0..<n] s (fst dwx)
              ! (snd dwx + (i div nh * (nh * 2) + i mod nh + 1 * nh))
            = bwd_dzt nh h v dh_prev grad_out s (i div nh) (i mod nh)
          \<and> fold (\<lambda>i. bwd_1_0_PointwiseOperations d_act nb nh h v dh_prev grad_out dwx
                         (i mod nh) (i div nh)) [0..<n] s (fst dwx)
              ! (snd dwx + (i div nh * (nh * 2) + i mod nh + 0 * nh))
            = bwd_dat d_act nh v dh_prev grad_out s (i div nh) (i mod nh))"
  using n
proof (induction n)
  case 0
  show ?case by auto
next
  case (Suc n)
  let ?K = "\<lambda>i. bwd_1_0_PointwiseOperations d_act nb nh h v dh_prev grad_out dwx (i mod nh) (i div nh)"
  let ?t = "fold ?K [0..<n] s"
  let ?cell = "\<lambda>i e. snd dwx + (i div nh * (nh * 2) + i mod nh + e * nh)"
  from Suc have IH:
    "\<forall>b. b \<noteq> fst dh_prev \<and> b \<noteq> fst dwx \<longrightarrow> ?t b = s b"
    "length (?t (fst dh_prev)) = length (s (fst dh_prev))"
    "\<forall>k<length (s (fst dh_prev)). ?t (fst dh_prev) ! k =
            (if snd dh_prev \<le> k \<and> k < snd dh_prev + n
             then bwd_dh nh v dh_prev grad_out s ((k - snd dh_prev) div nh) ((k - snd dh_prev) mod nh)
             else s (fst dh_prev) ! k)"
    "length (?t (fst dwx)) = length (s (fst dwx))"
    "\<forall>i<n. ?t (fst dwx) ! ?cell i 1 = bwd_dzt nh h v dh_prev grad_out s (i div nh) (i mod nh)
          \<and> ?t (fst dwx) ! ?cell i 0 = bwd_dat d_act nh v dh_prev grad_out s (i div nh) (i mod nh)"
    by simp_all
  from Suc.prems have n: "n < nb * nh" by simp
  then have nh: "0 < nh" by (cases nh) simp_all
  have row: "n mod nh < nh" using nh by simp
  have col: "n div nh < nb" using n nh by (simp add: less_mult_imp_div_less)
  have idx: "n div nh * nh + n mod nh = n" by simp
  have step: "fold ?K [0..<Suc n] s = ?K n ?t" by simp
  have g_eq: "?t (fst grad_out) = s (fst grad_out)" and v_eq: "?t (fst v) = s (fst v)"
    and h_eq: "?t (fst h) = s (fst h)"
    using IH(1) dg dv dhh by auto
  have "snd dh_prev + n < length (s (fst dh_prev))"
    using n len_dh by linarith
  then have dh_eq: "rd ?t dh_prev n = rd s dh_prev n"
    using IH(3) by (simp add: rd_def)
  have tot: "bwd_dh_total nh dh_prev grad_out ?t (n div nh) (n mod nh)
             = bwd_dh_total nh dh_prev grad_out s (n div nh) (n mod nh)"
    using g_eq dh_eq by (simp add: bwd_dh_total_def rd_def idx)
  have vals: "bwd_dh nh v dh_prev grad_out ?t (n div nh) (n mod nh)
              = bwd_dh nh v dh_prev grad_out s (n div nh) (n mod nh)"
    "bwd_dzt nh h v dh_prev grad_out ?t (n div nh) (n mod nh)
              = bwd_dzt nh h v dh_prev grad_out s (n div nh) (n mod nh)"
    "bwd_dat d_act nh v dh_prev grad_out ?t (n div nh) (n mod nh)
              = bwd_dat d_act nh v dh_prev grad_out s (n div nh) (n mod nh)"
    using v_eq h_eq by (simp_all add: bwd_dh_def bwd_dzt_def bwd_dat_def tot rd_def)
  have out_dh: "?K n ?t (fst dh_prev)
             = (?t (fst dh_prev))[snd dh_prev + n := bwd_dh nh v dh_prev grad_out s (n div nh) (n mod nh)]"
    by (simp add: bwd_thread_dh[OF row col dd] idx vals)
  have out_dwx: "?K n ?t (fst dwx)
             = (?t (fst dwx))[?cell n 1 := bwd_dzt nh h v dh_prev grad_out s (n div nh) (n mod nh),
                              ?cell n 0 := bwd_dat d_act nh v dh_prev grad_out s (n div nh) (n mod nh)]"
    by (simp add: bwd_thread_dwx[OF row col dd] vals)
  have frame: "\<forall>b. b \<noteq> fst dh_prev \<and> b \<noteq> fst dwx \<longrightarrow> ?K n ?t b = s b"
    using IH(1) by (simp add: bwd_thread_frame)
  have dh_cells: "\<forall>k<length (s (fst dh_prev)). ?K n ?t (fst dh_prev) ! k =
            (if snd dh_prev \<le> k \<and> k < snd dh_prev + Suc n
             then bwd_dh nh v dh_prev grad_out s ((k - snd dh_prev) div nh) ((k - snd dh_prev) mod nh)
             else s (fst dh_prev) ! k)"
  proof (intro allI impI)
    fix k assume k: "k < length (s (fst dh_prev))"
    show "?K n ?t (fst dh_prev) ! k =
            (if snd dh_prev \<le> k \<and> k < snd dh_prev + Suc n
             then bwd_dh nh v dh_prev grad_out s ((k - snd dh_prev) div nh) ((k - snd dh_prev) mod nh)
             else s (fst dh_prev) ! k)"
    proof (cases "k = snd dh_prev + n")
      case True
      then show ?thesis using k IH(2) by (simp add: out_dh)
    next
      case False
      then have "?K n ?t (fst dh_prev) ! k = ?t (fst dh_prev) ! k"
        by (simp add: out_dh)
      also have "\<dots> = (if snd dh_prev \<le> k \<and> k < snd dh_prev + n
             then bwd_dh nh v dh_prev grad_out s ((k - snd dh_prev) div nh) ((k - snd dh_prev) mod nh)
             else s (fst dh_prev) ! k)"
        using IH(3) k by simp
      finally show ?thesis using False by (simp add: less_Suc_eq)
    qed
  qed
  have b1: "?cell n 1 < length (s (fst dwx))" and b0: "?cell n 0 < length (s (fst dwx))"
    using slot_bound[OF row col, of 1] slot_bound[OF row col, of 0] len_dwx by simp_all
  have ne: "?cell n 1 \<noteq> ?cell n 0"
    using nh by simp
  have other: "?cell i e \<noteq> ?cell n e'" if "i < n" "e < 2" "e' < 2" for i e e'
  proof
    assume "?cell i e = ?cell n e'"
    then have "i div nh * (nh * 2) + i mod nh + e * nh = n div nh * (nh * 2) + n mod nh + e' * nh"
      by simp
    from slot_inj[OF _ row that(2,3) this] nh
    have "i div nh = n div nh" "i mod nh = n mod nh"
      by simp_all
    then have "i = n"
      by (metis div_mult_mod_eq)
    with that(1) show False by simp
  qed
  have dwx_cells: "\<forall>i<Suc n.
        ?K n ?t (fst dwx) ! ?cell i 1 = bwd_dzt nh h v dh_prev grad_out s (i div nh) (i mod nh)
      \<and> ?K n ?t (fst dwx) ! ?cell i 0 = bwd_dat d_act nh v dh_prev grad_out s (i div nh) (i mod nh)"
  proof (intro allI impI)
    fix i assume "i < Suc n"
    show "?K n ?t (fst dwx) ! ?cell i 1 = bwd_dzt nh h v dh_prev grad_out s (i div nh) (i mod nh)
      \<and> ?K n ?t (fst dwx) ! ?cell i 0 = bwd_dat d_act nh v dh_prev grad_out s (i div nh) (i mod nh)"
    proof (cases "i = n")
      case True
      show ?thesis
        unfolding True out_dwx using b1 b0 ne IH(4) by simp
    next
      case False
      with \<open>i < Suc n\<close> have i: "i < n" by simp
      have "?cell i 1 \<noteq> ?cell n 1" "?cell i 1 \<noteq> ?cell n 0" "?cell i 0 \<noteq> ?cell n 1"
        "?cell i 0 \<noteq> ?cell n 0"
        using other[OF i, of 1 1] other[OF i, of 1 0] other[OF i, of 0 1] other[OF i, of 0 0]
        by simp_all
      then have "?K n ?t (fst dwx) ! ?cell i 1 = ?t (fst dwx) ! ?cell i 1"
        "?K n ?t (fst dwx) ! ?cell i 0 = ?t (fst dwx) ! ?cell i 0"
        unfolding out_dwx by simp_all
      then show ?thesis
        using IH(5) i by simp
    qed
  qed
  have lens: "length (?K n ?t (fst dh_prev)) = length (s (fst dh_prev))"
    "length (?K n ?t (fst dwx)) = length (s (fst dwx))"
    using IH(2,4) by (simp_all add: out_dh out_dwx)
  show ?case
    unfolding step using frame lens dh_cells dwx_cells by blast
qed

lemma bwd_launch_flat:
  assumes "nh \<le> fst blk * fst grd" "nb \<le> snd blk * snd grd"
  shows "launch grd blk (bwd_1_0_PointwiseOperations d_act nb nh h v dh_prev grad_out dwx) s
   = fold (\<lambda>i. bwd_1_0_PointwiseOperations d_act nb nh h v dh_prev grad_out dwx (i mod nh) (i div nh))
       [0..<nb * nh] s"
proof -
  have "launch grd blk (bwd_1_0_PointwiseOperations d_act nb nh h v dh_prev grad_out dwx) s
        = fold (\<lambda>col. fold (\<lambda>row. bwd_1_0_PointwiseOperations d_act nb nh h v dh_prev grad_out dwx
                                       row col) [0..<nh]) [0..<nb] s"
    by (rule launch_in_range) (simp_all add: bwd_thread_guard assms)
  then show ?thesis
    by (simp only: fold_rows_flat)
qed

lemma bwd_launch_values:
  fixes s :: "'a::comm_ring_1 store"
  assumes dd: "fst dwx \<noteq> fst dh_prev"
    and dg: "fst grad_out \<noteq> fst dh_prev" "fst grad_out \<noteq> fst dwx"
    and dv: "fst v \<noteq> fst dh_prev" "fst v \<noteq> fst dwx"
    and dhh: "fst h \<noteq> fst dh_prev" "fst h \<noteq> fst dwx"
    and len_dh: "snd dh_prev + nb * nh \<le> length (s (fst dh_prev))"
    and len_dwx: "snd dwx + nb * (nh * 2) \<le> length (s (fst dwx))"
    and bj: "b < nb" "j < nh"
    and cover: "nh \<le> fst blk * fst grd" "nb \<le> snd blk * snd grd"
  shows "rd (launch grd blk (bwd_1_0_PointwiseOperations d_act nb nh h v dh_prev grad_out dwx) s)
           dh_prev (b * nh + j) = bwd_dh nh v dh_prev grad_out s b j
       \<and> rd (launch grd blk (bwd_1_0_PointwiseOperations d_act nb nh h v dh_prev grad_out dwx) s)
           dwx (b * (nh * 2) + j + 1 * nh) = bwd_dzt nh h v dh_prev grad_out s b j
       \<and> rd (launch grd blk (bwd_1_0_PointwiseOperations d_act nb nh h v dh_prev grad_out dwx) s)
           dwx (b * (nh * 2) + j + 0 * nh) = bwd_dat d_act nh v dh_prev grad_out s b j"
proof -
  let ?t = "fold (\<lambda>i. bwd_1_0_PointwiseOperations d_act nb nh h v dh_prev grad_out dwx
                         (i mod nh) (i div nh)) [0..<nb * nh] s"
  have lt: "b * nh + j < nb * nh"
    using bj by (simp add: thread_index_bound)
  with len_dh have k: "snd dh_prev + (b * nh + j) < length (s (fst dh_prev))"
    by linarith
  have dm: "(b * nh + j) div nh = b" "(b * nh + j) mod nh = j"
    using bj by simp_all
  note F = bwd_flat[where n = "nb * nh" and nb = nb and nh = nh and v = v and dh_prev = dh_prev
        and h = h and grad_out = grad_out and dwx = dwx and s = s and d_act = d_act]
  have dh_cells: "\<forall>k<length (s (fst dh_prev)). ?t (fst dh_prev) ! k =
            (if snd dh_prev \<le> k \<and> k < snd dh_prev + nb * nh
             then bwd_dh nh v dh_prev grad_out s ((k - snd dh_prev) div nh) ((k - snd dh_prev) mod nh)
             else s (fst dh_prev) ! k)"
    using F dd dg dv dhh len_dh len_dwx by blast
  have dwx_cells: "\<forall>i<nb * nh.
            ?t (fst dwx) ! (snd dwx + (i div nh * (nh * 2) + i mod nh + 1 * nh))
            = bwd_dzt nh h v dh_prev grad_out s (i div nh) (i mod nh)
          \<and> ?t (fst dwx) ! (snd dwx + (i div nh * (nh * 2) + i mod nh + 0 * nh))
            = bwd_dat d_act nh v dh_prev grad_out s (i div nh) (i mod nh)"
    using F dd dg dv dhh len_dh len_dwx by blast
  have "rd ?t dh_prev (b * nh + j) = bwd_dh nh v dh_prev grad_out s b j"
    using dh_cells k lt by (simp add: rd_def dm bj)
  moreover have "rd ?t dwx (b * (nh * 2) + j + 1 * nh) = bwd_dzt nh h v dh_prev grad_out s b j"
    "rd ?t dwx (b * (nh * 2) + j + 0 * nh) = bwd_dat d_act nh v dh_prev grad_out s b j"
    using dwx_cells[rule_format, OF lt] bj by (simp_all add: rd_def dm)
  ultimately show ?thesis
    unfolding bwd_launch_flat[OF cover] by simp
qed

lemma bwd_thread_length:
  "length (bwd_1_0_PointwiseOperations d_act nb nh h v dh_prev grad_out dwx row col s b)
   = length (s b)"
  by (simp add: bwd_1_0_PointwiseOperations_def Let_def wr_def)

lemma bwd_launch_length:
  "length (launch grd blk (bwd_1_0_PointwiseOperations d_act nb nh h v dh_prev grad_out dwx) s b)
   = length (s b)"
  by (rule launch_invariant[where P = "\<lambda>t. length (t b) = length (s b)"])
    (simp_all add: bwd_thread_length)

lemma bwd_launch_frame:
  assumes "b \<noteq> fst dh_prev" "b \<noteq> fst dwx"
  shows "launch grd blk (bwd_1_0_PointwiseOperations d_act nb nh h v dh_prev grad_out dwx) s b = s b"
  by (rule launch_invariant[where P = "\<lambda>t. t b = s b"]) (simp_all add: bwd_thread_frame assms)

lemma bwd_1_0_Run_step_launched:
  fixes s :: "'a::comm_ring_1 store"
  assumes "activation data \<in> {0, 1, 2, 3}"
  shows "bwd_1_0_Run_step ops data (U, 0) (Hs, 0) (V, 0) (GRAD_OUT, 0) (DWX, 0) (DH, 0) i s
         = gemm CUBLAS_OP_N CUBLAS_OP_N (hidden_size data) (batch_size data) (hidden_size data * 2)
             1 (U, 0) (hidden_size data) (DWX, i * (batch_size data * hidden_size data) * 2)
             (hidden_size data * 2) 1 (DH, 0) (hidden_size data)
             (launch ((hidden_size data + 32 - 1) div 32, (batch_size data + 16 - 1) div 16) (32, 16)
                (bwd_1_0_PointwiseOperations (d_activation ops (activation data))
                   (batch_size data) (hidden_size data)
                   (Hs, i * (batch_size data * hidden_size data))
                   (V, i * (batch_size data * hidden_size data) * 3) (DH, 0)
                   (GRAD_OUT, (i + 1) * (batch_size data * hidden_size data))
                   (DWX, i * (batch_size data * hidden_size data) * 2)) s)"
  using assms
  by (auto simp add: bwd_1_0_Run_step_def bwd_1_0_IterateInternal_def Let_def bwd_1_0_kernel_defs
      ptr_add_def d_activation_def)

text \<open>
  C3: at every backward time step \<open>i\<close>, for an activation id of the enumeration and every
  batch index \<open>b\<close> and hidden index \<open>j\<close>, the step is the recurrent-weight \<^verbatim>\<open>gemm\<close> applied to
  the store \<open>sk\<close> that the gate kernel leaves, and in \<open>sk\<close> the running hidden gradient at
  \<open>(b, j)\<close> is \<open>(grad_out_t + dh_running) * z\<close> with the cached update gate \<open>z\<close> of step \<open>i\<close>,
  slot 1 of row \<open>i\<close> of \<open>dwx\<close> holds \<open>dz\<close> and slot 0 holds \<open>da\<close>. Only then is the
  contribution of the recurrent weight accumulated: after the step the running gradient
  at \<open>(b, j)\<close> is the sum over \<open>l < 2H\<close> of \<open>u[l, j] * dwx_i[b, l]\<close> plus its value in \<open>sk\<close>.
\<close>

theorem backward_gate_before_recurrent:
  fixes s :: "'a::comm_ring_1 store"
  assumes act: "activation data \<in> {0, 1, 2, 3}"
    and b: "b < batch_size data" and j: "j < hidden_size data"
    and len_dh: "batch_size data * hidden_size data \<le> length (s DH)"
    and len_dwx: "(i + 1) * (batch_size data * hidden_size data) * 2 \<le> length (s DWX)"
  shows "\<exists>sk.
           bwd_1_0_Run_step ops data (U, 0) (Hs, 0) (V, 0) (GRAD_OUT, 0) (DWX, 0) (DH, 0) i s
           = gemm CUBLAS_OP_N CUBLAS_OP_N (hidden_size data) (batch_size data)
               (hidden_size data * 2) 1 (U, 0) (hidden_size data)
               (DWX, i * (batch_size data * hidden_size data) * 2) (hidden_size data * 2)
               1 (DH, 0) (hidden_size data) sk
         \<and> sk DH ! (b * hidden_size data + j)
           = (s GRAD_OUT ! ((i + 1) * (batch_size data * hidden_size data) + (b * hidden_size data + j))
              + s DH ! (b * hidden_size data + j))
             * s V ! (i * (batch_size data * hidden_size data) * 3
                      + (b * (hidden_size data * 3) + j + 1 * hidden_size data))
         \<and> sk DWX ! (i * (batch_size data * hidden_size data) * 2
                      + (b * (hidden_size data * 2) + j + 1 * hidden_size data))
           = bwd_dzt (hidden_size data) (Hs, i * (batch_size data * hidden_size data))
               (V, i * (batch_size data * hidden_size data) * 3) (DH, 0)
               (GRAD_OUT, (i + 1) * (batch_size data * hidden_size data)) s b j
         \<and> sk DWX ! (i * (batch_size data * hidden_size data) * 2
                      + (b * (hidden_size data * 2) + j + 0 * hidden_size data))
           = bwd_dat (d_activation ops (activation data)) (hidden_size data)
               (V, i * (batch_size data * hidden_size data) * 3) (DH, 0)
               (GRAD_OUT, (i + 1) * (batch_size data * hidden_size data)) s b j
         \<and> bwd_1_0_Run_step ops data (U, 0) (Hs, 0) (V, 0) (GRAD_OUT, 0) (DWX, 0) (DH, 0) i s DH
             ! (b * hidden_size data + j)
           = (\<Sum>l\<leftarrow>[0..<hidden_size data * 2].
                s U ! (l * hidden_size data + j)
                * sk DWX ! (i * (batch_size data * hidden_size data) * 2
                            + (b * (hidden_size data * 2) + l)))
             + sk DH ! (b * hidden_size data + j)"
proof -
  define NH where "NH = batch_size data * hidden_size data"
  define sk where "sk = launch ((hidden_size data + 32 - 1) div 32, (batch_size data + 16 - 1) div 16)
      (32, 16)
      (bwd_1_0_PointwiseOperations (d_activation ops (activation data))
         (batch_size data) (hidden_size data) (Hs, i * NH) (V, i * NH * 3) (DH, 0)
         (GRAD_OUT, (i + 1) * NH) (DWX, i * NH * 2)) s"
  have step: "bwd_1_0_Run_step ops data (U, 0) (Hs, 0) (V, 0) (GRAD_OUT, 0) (DWX, 0) (DH, 0) i s
           = gemm CUBLAS_OP_N CUBLAS_OP_N (hidden_size data) (batch_size data)
               (hidden_size data * 2) 1 (U, 0) (hidden_size data) (DWX, i * NH * 2)
               (hidden_size data * 2) 1 (DH, 0) (hidden_size data) sk"
    unfolding sk_def NH_def by (rule bwd_1_0_Run_step_launched[OF act])
  have "snd (DWX, i * NH * 2) + batch_size data * (hidden_size data * 2) \<le> length (s (fst (DWX, i * NH * 2)))"
    using len_dwx by (simp add: NH_def algebra_simps)
  with len_dh b j
    bwd_launch_values[where dwx = "(DWX, i * NH * 2)" and dh_prev = "(DH, 0)"
      and grad_out = "(GRAD_OUT, (i + 1) * NH)" and v = "(V, i * NH * 3)" and h = "(Hs, i * NH)"
      and nb = "batch_size data" and nh = "hidden_size data" and s = s and b = b and j = j
      and blk = "(32, 16)"
      and grd = "((hidden_size data + 32 - 1) div 32, (batch_size data + 16 - 1) div 16)"
      and d_act = "d_activation ops (activation data)"]
    grid_covers[of "hidden_size data" "batch_size data"]
  have vals: "rd sk (DH, 0) (b * hidden_size data + j)
              = bwd_dh (hidden_size data) (V, i * NH * 3) (DH, 0) (GRAD_OUT, (i + 1) * NH) s b j"
    "rd sk (DWX, i * NH * 2) (b * (hidden_size data * 2) + j + 1 * hidden_size data)
     = bwd_dzt (hidden_size data) (Hs, i * NH) (V, i * NH * 3) (DH, 0) (GRAD_OUT, (i + 1) * NH) s b j"
    "rd sk (DWX, i * NH * 2) (b * (hidden_size data * 2) + j + 0 * hidden_size data)
     = bwd_dat (d_activation ops (activation data)) (hidden_size data) (V, i * NH * 3) (DH, 0)
         (GRAD_OUT, (i + 1) * NH) s b j"
    unfolding sk_def NH_def by simp_all
  have skU: "sk U = s U"
    unfolding sk_def by (rule bwd_launch_frame) simp_all
  have "b * hidden_size data + j < batch_size data * hidden_size data"
    by (rule thread_index_bound[OF j b])
  then have inr: "b * hidden_size data + j < length (sk (fst (DH, 0::nat)))"
    using len_dh by (simp add: sk_def bwd_launch_length)
  have dm: "(b * hidden_size data + j) mod hidden_size data = j"
    "(b * hidden_size data + j) div hidden_size data = b"
    using j by simp_all
  have acc: "gemm CUBLAS_OP_N CUBLAS_OP_N (hidden_size data) (batch_size data)
               (hidden_size data * 2) 1 (U, 0) (hidden_size data) (DWX, i * NH * 2)
               (hidden_size data * 2) 1 (DH, 0) (hidden_size data) sk DH ! (b * hidden_size data + j)
             = (\<Sum>l\<leftarrow>[0..<hidden_size data * 2].
                s U ! (l * hidden_size data + j)
                * sk DWX ! (i * NH * 2 + (b * (hidden_size data * 2) + l)))
               + sk DH ! (b * hidden_size data + j)"
    using gemm_nth[where idx = "b * hidden_size data + j" and s = sk and C = "(DH, 0)"
        and ta = CUBLAS_OP_N and tb = CUBLAS_OP_N and m = "hidden_size data"
        and n = "batch_size data" and k = "hidden_size data * 2" and alpha = 1 and A = "(U, 0)"
        and lda = "hidden_size data" and B = "(DWX, i * NH * 2)" and ldb = "hidden_size data * 2"
        and beta = 1 and ldc = "hidden_size data"] inr b j
    by (simp add: dm gemm_dot_def rd_def skU)
  show ?thesis
    apply (rule exI[of _ sk])
    unfolding NH_def[symmetric]
    using step vals acc
    by (simp add: rd_def bwd_dh_def bwd_dh_total_def)
qed

theorem backward_gate_before_recurrent_witness:
  "\<exists>sk. bwd_1_0_Run_step (real_ops 0)
           \<lparr> batch_size = 1, input_size = 1, hidden_size = 1, activation = 3 \<rparr>
           (U, 0) (Hs, 0) (V, 0) (GRAD_OUT, 0) (DWX, 0) (DH, 0) 0
           ((\<lambda>b. [])(U := [0, 0], Hs := [2, 1], V := [0, 1 / 2, 0], GRAD_OUT := [9, 1],
                        DWX := [0, 0], DH := [0]))
         = gemm CUBLAS_OP_N CUBLAS_OP_N 1 1 2 1 (U, 0) 1 (DWX, 0) 2 1 (DH, 0) 1 sk
       \<and> sk DH ! 0 = 1 / 2"
proof -
  from backward_gate_before_recurrent[where
      data = "\<lparr> batch_size = 1, input_size = 1, hidden_size = 1, activation = 3 \<rparr>"
      and b = 0 and j = 0 and i = 0 and ops = "real_ops 0"
      and s = "(\<lambda>b. [])(U := [0, 0], Hs := [2, 1], V := [0, 1 / 2, 0], GRAD_OUT := [9, 1::real],
                        DWX := [0, 0], DH := [0])"]
  obtain sk where
    "bwd_1_0_Run_step (real_ops 0)
           \<lparr> batch_size = 1, input_size = 1, hidden_size = 1, activation = 3 \<rparr>
           (U, 0) (Hs, 0) (V, 0) (GRAD_OUT, 0) (DWX, 0) (DH, 0) 0
           ((\<lambda>b. [])(U := [0, 0], Hs := [2, 1], V := [0, 1 / 2, 0], GRAD_OUT := [9, 1],
                        DWX := [0, 0], DH := [0]))
         = gemm CUBLAS_OP_N CUBLAS_OP_N 1 1 2 1 (U, 0) 1 (DWX, 0) 2 1 (DH, 0) 1 sk"
    "sk DH ! 0 = 1 / 2"
    by auto
  then show ?thesis
    by blast
qed

end
